(* ===== verification/Fan_Prelude.thy ===== *)
theory Fan_Prelude
  imports Main
begin

text \<open>
  Shared vocabulary of the development.

  \<^item> Results of fallible code are sums: \<open>Inl e\<close> is the exception \<open>e\<close> the Python
    code raises, \<open>Inr x\<close> the value it returns. \<open>bind_result\<close> sequences two
    fallible computations the way two statements in a row do: the second runs only
    when the first returned.
  \<^item> Code that talks to the device is an \<^emph>\<open>action\<close>: a function from the state of
    the outside world to a result and the world afterwards. An exception keeps the
    world as it was when it was raised, as in Python, where effects that happened
    before a \<open>raise\<close> are not undone.
  \<^item> The collections \<open>model_defs\<close> and \<open>action_simps\<close> carry the facts with which
    closed model terms are evaluated by the simplifier.
\<close>

section \<open>Fact collections\<close>

named_theorems model_defs "definitions unfolded when a closed model term is evaluated"
named_theorems action_simps "characteristic equations of the action combinators"

lemmas result_splits = sum.splits option.splits if_splits prod.splits

section \<open>Results\<close>

definition bind_result :: "'e + 'a \<Rightarrow> ('a \<Rightarrow> 'e + 'b) \<Rightarrow> 'e + 'b" where
  "bind_result r f = (case r of Inl e \<Rightarrow> Inl e | Inr x \<Rightarrow> f x)"

definition is_ok :: "'e + 'a \<Rightarrow> bool" where
  "is_ok r = (case r of Inl e \<Rightarrow> False | Inr x \<Rightarrow> True)"

definition map_result :: "('a \<Rightarrow> 'b) \<Rightarrow> 'e + 'a \<Rightarrow> 'e + 'b" where
  "map_result f r = bind_result r (\<lambda>x. Inr (f x))"

lemma bind_result_Inl [simp]: "bind_result (Inl e) f = Inl e"
  by (simp add: bind_result_def)

lemma bind_result_Inr [simp]: "bind_result (Inr x) f = f x"
  by (simp add: bind_result_def)

lemma bind_result_Inr_right [simp]: "bind_result r Inr = r"
  by (cases r) simp_all

lemma bind_result_assoc:
  "bind_result (bind_result r f) g = bind_result r (\<lambda>x. bind_result (f x) g)"
  by (cases r) simp_all

lemma bind_result_eq_Inr_iff:
  "bind_result r f = Inr y \<longleftrightarrow> (\<exists>x. r = Inr x \<and> f x = Inr y)"
  by (cases r) simp_all

lemma bind_result_eq_Inl_iff:
  "bind_result r f = Inl e \<longleftrightarrow> r = Inl e \<or> (\<exists>x. r = Inr x \<and> f x = Inl e)"
  by (cases r) simp_all

lemma bind_result_cong [fundef_cong]:
  "r = r' \<Longrightarrow> (\<And>x. r' = Inr x \<Longrightarrow> f x = f' x) \<Longrightarrow> bind_result r f = bind_result r' f'"
  by (cases r') simp_all

lemma is_ok_simps [simp]: "is_ok (Inr x)" "\<not> is_ok (Inl e)"
  by (simp_all add: is_ok_def)

lemma is_ok_iff: "is_ok r \<longleftrightarrow> (\<exists>x. r = Inr x)"
  by (cases r) simp_all

lemma not_is_ok_iff: "\<not> is_ok r \<longleftrightarrow> (\<exists>e. r = Inl e)"
  by (cases r) simp_all

lemma is_ok_bind_result:
  "is_ok (bind_result r f) \<longleftrightarrow> (\<exists>x. r = Inr x \<and> is_ok (f x))"
  by (cases r) simp_all

text \<open>
  The same two facts without a quantifier, for chains of several binds: the
  continuation is applied to the projection of the first result.
\<close>

lemma is_ok_bind_projr: "is_ok (bind_result r f) = (is_ok r \<and> is_ok (f (projr r)))"
  by (cases r) simp_all

lemma bind_result_Inl_projr:
  "bind_result r f = Inl e \<longleftrightarrow> r = Inl e \<or> (is_ok r \<and> f (projr r) = Inl e)"
  by (cases r) simp_all

lemma bind_result_Inr_projr:
  "bind_result r f = Inr y \<longleftrightarrow> is_ok r \<and> f (projr r) = Inr y"
  by (cases r) simp_all

lemma map_result_simps [simp]:
  "map_result f (Inl e) = Inl e" "map_result f (Inr x) = Inr (f x)"
  by (simp_all add: map_result_def)

lemma is_ok_map_result [simp]: "is_ok (map_result f r) = is_ok r"
  by (cases r) simp_all

section \<open>Collecting results\<close>

text \<open>
  \<open>collect f xs\<close> applies a fallible function to the elements of a list from left
  to right and returns all results, or the first error: what a \<open>for\<close> loop does
  whose body can raise.
\<close>

fun collect :: "('a \<Rightarrow> 'e + 'b) \<Rightarrow> 'a list \<Rightarrow> 'e + 'b list" where
  "collect f [] = Inr []"
| "collect f (x # xs) =
     bind_result (f x) (\<lambda>y. bind_result (collect f xs) (\<lambda>ys. Inr (y # ys)))"

lemma collect_eq_Inr_iff: "collect f xs = Inr ys \<longleftrightarrow> list_all2 (\<lambda>x y. f x = Inr y) xs ys"
  by (induction xs arbitrary: ys) (auto simp: bind_result_eq_Inr_iff list_all2_Cons1)

lemma is_ok_collect: "is_ok (collect f xs) \<longleftrightarrow> list_all (\<lambda>x. is_ok (f x)) xs"
  by (induction xs) (auto simp: is_ok_bind_projr)

lemma collect_all_ok:
  "list_all (\<lambda>x. is_ok (f x)) xs \<Longrightarrow> collect f xs = Inr (map (\<lambda>x. projr (f x)) xs)"
  by (induction xs) (auto simp: is_ok_iff)

lemma length_collect: "collect f xs = Inr ys \<Longrightarrow> length ys = length xs"
  by (auto simp: collect_eq_Inr_iff dest: list_all2_lengthD)

lemma collect_eq_Inl_iff:
  "collect f xs = Inl e \<longleftrightarrow> (\<exists>x. find (\<lambda>x. \<not> is_ok (f x)) xs = Some x \<and> f x = Inl e)"
proof (induction xs)
  case Nil
  show ?case by simp
next
  case (Cons x xs)
  show ?case
  proof (cases "f x")
    case (Inl e')
    then show ?thesis by auto
  next
    case (Inr y)
    with Cons.IH show ?thesis
      by (cases "collect f xs") (auto simp: is_ok_collect)
  qed
qed

section \<open>Actions: results with the state of the outside world\<close>

type_synonym ('e, 'a, 's) action = "'s \<Rightarrow> ('e + 'a) \<times> 's"

definition return_action :: "'a \<Rightarrow> ('e, 'a, 's) action" where
  "return_action x s = (Inr x, s)"

definition raise_action :: "'e \<Rightarrow> ('e, 'a, 's) action" where
  "raise_action e s = (Inl e, s)"

definition lift_result :: "'e + 'a \<Rightarrow> ('e, 'a, 's) action" where
  "lift_result r s = (r, s)"

definition bind_action ::
  "('e, 'a, 's) action \<Rightarrow> ('a \<Rightarrow> ('e, 'b, 's) action) \<Rightarrow> ('e, 'b, 's) action" where
  "bind_action m f s = (case m s of (Inl e, s') \<Rightarrow> (Inl e, s') | (Inr x, s') \<Rightarrow> f x s')"

lemma bind_action_return [action_simps]: "bind_action (return_action x) f s = f x s"
  by (simp add: bind_action_def return_action_def)

lemma bind_action_raise [action_simps]: "bind_action (raise_action e) f s = (Inl e, s)"
  by (simp add: bind_action_def raise_action_def)

lemma bind_action_lift [action_simps]:
  "bind_action (lift_result r) f s = (case r of Inl e \<Rightarrow> (Inl e, s) | Inr x \<Rightarrow> f x s)"
  by (cases r) (simp_all add: bind_action_def lift_result_def)

lemma bind_action_Inl [action_simps]: "m s = (Inl e, s') \<Longrightarrow> bind_action m f s = (Inl e, s')"
  by (simp add: bind_action_def)

lemma bind_action_Inr [action_simps]: "m s = (Inr x, s') \<Longrightarrow> bind_action m f s = f x s'"
  by (simp add: bind_action_def)

lemma bind_action_return_right: "bind_action m return_action = m"
  by (rule ext) (simp add: bind_action_def return_action_def split: result_splits)

lemma bind_action_assoc:
  "bind_action (bind_action m f) g = bind_action m (\<lambda>x. bind_action (f x) g)"
  by (rule ext) (simp add: bind_action_def split: result_splits)

lemma lift_result_simps [action_simps]:
  "lift_result (Inr x) = return_action x" "lift_result (Inl e) = raise_action e"
  by (rule ext, simp add: lift_result_def return_action_def raise_action_def)+

lemmas action_defs = return_action_def raise_action_def lift_result_def bind_action_def

section \<open>Association lists\<close>

text \<open>Facts on \<open>map_of\<close> and on lists of pairs that several components use.\<close>

lemma map_of_eq_Some_fst: "map_of ps k = Some v \<Longrightarrow> k \<in> fst ` set ps"
  by (induction ps) (auto split: if_splits)

lemma map_of_distinct_inj:
  assumes "distinct (map snd ps)" and "map_of ps k = Some v" and "map_of ps k' = Some v"
  shows "k = k'"
proof -
  from assms(2,3) have "(k, v) \<in> set ps" and "(k', v) \<in> set ps"
    by (auto dest: map_of_SomeD)
  with assms(1) show ?thesis
    by (induction ps) (auto simp: image_iff)
qed

lemma list_all_map_of:
  "list_all (\<lambda>(k, v). P v) ps \<Longrightarrow> map_of ps k = Some v \<Longrightarrow> P v"
  by (induction ps) (auto split: if_splits)

lemma case_option_False:
  "(case x of None \<Rightarrow> False | Some v \<Rightarrow> P v) \<longleftrightarrow> (\<exists>v. x = Some v \<and> P v)"
  by (cases x) simp_all

section \<open>Interleavings\<close>

text \<open>
  Folding over an interleaving of two lists whose steps commute pairwise is
  folding over the first list and then over the second.
\<close>

lemma fold_shuffles:
  assumes "zs \<in> shuffles xs ys"
    and "\<And>x y. x \<in> set xs \<Longrightarrow> y \<in> set ys \<Longrightarrow> f x \<circ> f y = f y \<circ> f x"
  shows "fold f zs = fold f (xs @ ys)"
  using assms
proof (induction xs ys arbitrary: zs rule: shuffles.induct)
  case (1 ys)
  then show ?case by simp
next
  case (2 xs)
  then show ?case by simp
next
  case (3 x xs y ys)
  note commute = "3.prems"(2)
  from "3.prems"(1) consider zs' where "zs = x # zs'" "zs' \<in> shuffles xs (y # ys)"
    | zs' where "zs = y # zs'" "zs' \<in> shuffles (x # xs) ys"
    by auto
  then show ?case
  proof cases
    case 1
    from 1(2) commute have "fold f zs' = fold f (xs @ y # ys)"
      by (intro "3.IH"(1)) auto
    with 1(1) show ?thesis by simp
  next
    case 2
    from 2(2) commute have "fold f zs' = fold f ((x # xs) @ ys)"
      by (intro "3.IH"(2)) auto
    moreover have "f y \<circ> fold f (x # xs) = fold f (x # xs) \<circ> f y"
    proof (rule fold_commute)
      fix x'
      assume "x' \<in> set (x # xs)"
      then have "f x' \<circ> f y = f y \<circ> f x'"
        by (intro commute) simp_all
      then show "f y \<circ> f x' = f x' \<circ> f y"
        by (rule sym)
    qed
    ultimately show ?thesis
      using 2(1) by (simp add: fun_eq_iff)
  qed
qed

end
