(* ===== verification/Py_Value.thy ===== *)
theory Py_Value
  imports Fan_Prelude "HOL-Library.Log_Nat"
begin

text \<open>
  The Python values the adapter handles, and the built-in operations the source
  applies to them.

  The status dictionary of \<open>FanStatus1C\<close> is typed \<open>Dict[str, Any]\<close>: its values are
  whatever the device answered, decoded from JSON. \<open>pyval\<close> holds the scalars of that
  decoding (\<open>None\<close>, \<open>bool\<close>, \<open>int\<close>, \<open>str\<close>); floats, lists and nested objects
  are not modelled, none of the eight properties of the fan has such a type.

  The operations are those the source uses on such values: the truth test of
  \<open>x if v else y\<close> (\<open>py_truthy\<close>), the comparison \<open>==\<close> (\<open>py_eq\<close>, under which
  \<open>True == 1\<close> and \<open>False == 0\<close>), and the conversion \<open>str()\<close> behind every
  \<open>%s\<close> (\<open>py_str\<close>, \<open>str_int\<close>), membership in a tuple (\<open>py_in\<close>) and \<open><\<close>
  against an integer (\<open>py_less\<close>). \<open>py_error\<close> lists the exceptions that can leave
  the adapter or its command-line decoration; each carries what identifies it: the
  missing key, the missing attribute, the message.
\<close>

section \<open>Values and exceptions\<close>

datatype pyval = PNone | PBool bool | PInt int | PStr string

datatype OperationMode = Normal | Nature

datatype py_error =
    KeyError pyval
  | AttributeError string
  | TypeError string
  | ValueError string
  | FanException string
  | DeviceException string

type_synonym 'a result = "py_error + 'a"

section \<open>Truth value and equality\<close>

fun py_truthy :: "pyval \<Rightarrow> bool" where
  "py_truthy PNone = False"
| "py_truthy (PBool b) = b"
| "py_truthy (PInt i) = (i \<noteq> 0)"
| "py_truthy (PStr s) = (s \<noteq> [])"

text \<open>
  \<open>bool\<close> is a subclass of \<open>int\<close>: \<open>True\<close> and \<open>1\<close> are equal and have the same
  hash, so they are also the same dictionary key. \<open>py_key\<close> is the representative
  of a value's equality class.
\<close>

fun py_key :: "pyval \<Rightarrow> pyval" where
  "py_key (PBool b) = PInt (if b then 1 else 0)"
| "py_key v = v"

fun py_eq :: "pyval \<Rightarrow> pyval \<Rightarrow> bool" where
  "py_eq (PBool a) (PInt i) = (i = (if a then 1 else 0))"
| "py_eq (PInt i) (PBool a) = (i = (if a then 1 else 0))"
| "py_eq a b = (a = b)"

lemma py_eq_iff_key: "py_eq a b \<longleftrightarrow> py_key a = py_key b"
  by (cases a; cases b) auto

lemma py_eq_refl [simp]: "py_eq a a"
  by (simp add: py_eq_iff_key)

lemma py_eq_sym: "py_eq a b \<longleftrightarrow> py_eq b a"
  by (auto simp: py_eq_iff_key)

lemma py_eq_trans: "py_eq a b \<Longrightarrow> py_eq b c \<Longrightarrow> py_eq a c"
  by (simp add: py_eq_iff_key)

lemma py_eq_PStr [simp]:
  "py_eq (PStr s) v \<longleftrightarrow> v = PStr s" "py_eq v (PStr s) \<longleftrightarrow> v = PStr s"
  by (cases v; auto)+

lemma py_eq_PNone [simp]:
  "py_eq PNone v \<longleftrightarrow> v = PNone" "py_eq v PNone \<longleftrightarrow> v = PNone"
  by (cases v; auto)+

lemma py_eq_PInt_iff:
  "py_eq v (PInt i) \<longleftrightarrow> v = PInt i \<or> (i = 1 \<and> v = PBool True) \<or> (i = 0 \<and> v = PBool False)"
  by (cases v) auto

lemma py_key_idem [simp]: "py_key (py_key v) = py_key v"
  by (cases v) auto

lemma py_key_PStr_iff [simp]: "py_key v = PStr s \<longleftrightarrow> v = PStr s"
  by (cases v) auto

lemma py_eq_truthy: "py_eq a b \<Longrightarrow> py_truthy a = py_truthy b"
  by (cases a; cases b) (auto split: if_splits)

section \<open>Membership and order\<close>

text \<open>
  \<open>v in (a, b, c)\<close> compares \<open>v\<close> with the elements by \<open>==\<close>, so \<open>True in (1, 2, 3)\<close>
  holds. \<open>v < j\<close> for an integer \<open>j\<close> orders integers and booleans by their
  numeric value (\<open>py_int\<close>); for \<open>None\<close> and for a string it raises \<open>TypeError\<close>
  with the message Python gives, which names the types of the two operands.
\<close>

definition py_in :: "pyval \<Rightarrow> pyval list \<Rightarrow> bool" where
  "py_in v vs = list_ex (\<lambda>x. py_eq x v) vs"

fun py_int :: "pyval \<Rightarrow> int option" where
  "py_int (PInt i) = Some i"
| "py_int (PBool b) = Some (if b then 1 else 0)"
| "py_int v = None"

fun type_name :: "pyval \<Rightarrow> string" where
  "type_name PNone = ''NoneType''"
| "type_name (PBool b) = ''bool''"
| "type_name (PInt i) = ''int''"
| "type_name (PStr s) = ''str''"

definition quoted :: "string \<Rightarrow> string" where
  "quoted s = CHR 0x27 # s @ [CHR 0x27]"

definition not_ordered :: "pyval \<Rightarrow> pyval \<Rightarrow> py_error" where
  "not_ordered a b =
     TypeError (quoted ''<'' @ '' not supported between instances of '' @
       quoted (type_name a) @ '' and '' @ quoted (type_name b))"

definition py_less :: "pyval \<Rightarrow> int \<Rightarrow> bool result" where
  "py_less a j =
     (case py_int a of
        Some i \<Rightarrow> Inr (i < j)
      | None \<Rightarrow> Inl (not_ordered a (PInt j)))"

lemmas [model_defs] = py_in_def quoted_def not_ordered_def py_less_def

lemma py_in_simps [simp]:
  "py_in v [] = False" "py_in v (x # vs) = (py_eq x v \<or> py_in v vs)"
  by (simp_all add: py_in_def)

lemma py_in_iff: "py_in v vs \<longleftrightarrow> py_key v \<in> py_key ` set vs"
  by (induction vs) (auto simp: py_eq_iff_key)

lemma py_int_eq_Some_iff:
  "py_int v = Some i \<longleftrightarrow> v = PInt i \<or> (\<exists>b. v = PBool b \<and> i = (if b then 1 else 0))"
  by (cases v) auto

lemma py_int_eq_None_iff: "py_int v = None \<longleftrightarrow> v = PNone \<or> (\<exists>s. v = PStr s)"
  by (cases v) auto

lemma py_less_simps [simp]:
  "py_less (PInt i) j = Inr (i < j)"
  "py_less (PBool b) j = Inr ((if b then 1 else 0) < j)"
  "py_less PNone j = Inl (not_ordered PNone (PInt j))"
  "py_less (PStr s) j = Inl (not_ordered (PStr s) (PInt j))"
  by (simp_all add: py_less_def)

lemma py_less_is_ok: "is_ok (py_less a j) \<longleftrightarrow> py_int a \<noteq> None"
  by (cases a) simp_all

section \<open>Conversion to text\<close>

definition digit_char :: "nat \<Rightarrow> char" where
  "digit_char d = ''0123456789'' ! d"

fun str_nat :: "nat \<Rightarrow> string" where
  "str_nat n = (if n < 10 then [digit_char n] else str_nat (n div 10) @ [digit_char (n mod 10)])"

declare str_nat.simps [simp del]

definition str_int :: "int \<Rightarrow> string" where
  "str_int i = (if i < 0 then CHR ''-'' # str_nat (nat (- i)) else str_nat (nat i))"

fun py_str :: "pyval \<Rightarrow> string" where
  "py_str PNone = ''None''"
| "py_str (PBool b) = (if b then ''True'' else ''False'')"
| "py_str (PInt i) = str_int i"
| "py_str (PStr s) = s"

fun str_OperationMode :: "OperationMode \<Rightarrow> string" where
  "str_OperationMode Normal = ''OperationMode.Normal''"
| "str_OperationMode Nature = ''OperationMode.Nature''"

text \<open>
  The reference reading of a decimal numeral, used to state that \<open>str_nat\<close> loses
  nothing: the value of a digit and Horner's rule over the digits.
\<close>

definition digit_val :: "char \<Rightarrow> nat" where
  "digit_val c = of_char c - 48"

definition is_digit :: "char \<Rightarrow> bool" where
  "is_digit c \<longleftrightarrow> c \<in> set ''0123456789''"

definition val_nat :: "string \<Rightarrow> nat" where
  "val_nat s = foldl (\<lambda>a c. 10 * a + digit_val c) 0 s"

definition val_int :: "string \<Rightarrow> int" where
  "val_int s = (if hd s = CHR ''-'' then - int (val_nat (tl s)) else int (val_nat s))"

lemmas [model_defs] =
  digit_char_def str_int_def digit_val_def is_digit_def val_nat_def val_int_def

subsection \<open>Digits\<close>

lemma digit_char_cases:
  fixes d :: nat
  assumes "d < 10"
  obtains "d = 0" | "d = 1" | "d = 2" | "d = 3" | "d = 4"
    | "d = 5" | "d = 6" | "d = 7" | "d = 8" | "d = 9"
  using assms by atomize_elim arith

lemma digit_val_digit_char [simp]: "d < 10 \<Longrightarrow> digit_val (digit_char d) = d"
  by (erule digit_char_cases) (simp_all add: digit_val_def digit_char_def)

lemma is_digit_digit_char [simp]: "d < 10 \<Longrightarrow> is_digit (digit_char d)"
  by (erule digit_char_cases) (simp_all add: is_digit_def digit_char_def)

lemma digit_char_not_minus [simp]: "d < 10 \<Longrightarrow> digit_char d \<noteq> CHR ''-''"
  by (erule digit_char_cases) (simp_all add: digit_char_def)

lemma digit_char_eq_zero_iff: "d < 10 \<Longrightarrow> digit_char d = CHR ''0'' \<longleftrightarrow> d = 0"
  by (erule digit_char_cases) (simp_all add: digit_char_def)

subsection \<open>Decimal numerals\<close>

lemma str_nat_small [simp]: "n < 10 \<Longrightarrow> str_nat n = [digit_char n]"
  by (simp add: str_nat.simps)

lemma str_nat_large: "10 \<le> n \<Longrightarrow> str_nat n = str_nat (n div 10) @ [digit_char (n mod 10)]"
  by (subst str_nat.simps) simp

lemma str_nat_nonempty [simp]: "str_nat n \<noteq> []"
  by (subst str_nat.simps) simp

lemma val_nat_snoc [simp]: "val_nat (s @ [c]) = 10 * val_nat s + digit_val c"
  by (simp add: val_nat_def)

lemma val_nat_single [simp]: "val_nat [c] = digit_val c"
  by (simp add: val_nat_def)

lemma val_nat_str_nat [simp]: "val_nat (str_nat n) = n"
proof (induction n rule: str_nat.induct)
  case (1 n)
  show ?case
  proof (cases "n < 10")
    case True
    then show ?thesis by simp
  next
    case False
    with "1.IH" have "val_nat (str_nat (n div 10)) = n div 10" by simp
    with False show ?thesis by (simp add: str_nat_large)
  qed
qed

lemma str_nat_digits: "list_all is_digit (str_nat n)"
proof (induction n rule: str_nat.induct)
  case (1 n)
  show ?case
  proof (cases "n < 10")
    case True
    then show ?thesis by simp
  next
    case False
    with "1.IH" have "list_all is_digit (str_nat (n div 10))" by simp
    with False show ?thesis by (simp add: str_nat_large)
  qed
qed

lemma str_nat_inj: "str_nat m = str_nat n \<Longrightarrow> m = n"
  by (metis val_nat_str_nat)

lemma hd_str_nat_not_minus: "hd (str_nat n) \<noteq> CHR ''-''"
proof -
  have "list_all (\<lambda>c. c \<noteq> CHR ''-'') (str_nat n)"
    using str_nat_digits [of n] by (rule list.pred_mono_strong) (auto simp: is_digit_def)
  then show ?thesis
    by (cases "str_nat n") simp_all
qed

lemma str_int_nonempty [simp]: "str_int i \<noteq> []"
  by (simp add: str_int_def)

lemma hd_str_int_minus_iff: "hd (str_int i) = CHR ''-'' \<longleftrightarrow> i < 0"
  by (simp add: str_int_def hd_str_nat_not_minus)

lemma val_int_str_int [simp]: "val_int (str_int i) = i"
  by (simp add: val_int_def hd_str_int_minus_iff) (simp add: str_int_def)

lemma str_int_inj: "str_int i = str_int j \<Longrightarrow> i = j"
  by (metis val_int_str_int)

lemma str_int_of_nat [simp]: "str_int (int n) = str_nat n"
  by (simp add: str_int_def)

text \<open>
  The decimal numeral that \<open>%s\<close> prints for an integer loses nothing: it
  reads back to the integer, it starts with a minus sign exactly for a negative
  integer, and apart from that sign it consists of digits.
\<close>

lemma str_int_round_trip:
  "val_int (str_int i) = i \<and>
   (hd (str_int i) = CHR ''-'' \<longleftrightarrow> i < 0) \<and>
   list_all is_digit (if i < 0 then tl (str_int i) else str_int i)"
  by (simp add: hd_str_int_minus_iff) (simp add: str_int_def str_nat_digits)

section \<open>The length of a numeral\<close>

lemma length_str_nat: "length (str_nat n) = (if n = 0 then 1 else floorlog 10 n)"
proof (induction n rule: str_nat.induct)
  case (1 n)
  show ?case
  proof (cases "n < 10")
    case True
    then show ?thesis by (simp add: compute_floorlog [of 10 n] floorlog_def)
  next
    case False
    then have "n div 10 \<noteq> 0" by arith
    with False "1.IH" have "length (str_nat (n div 10)) = floorlog 10 (n div 10)" by simp
    with False show ?thesis by (simp add: str_nat_large compute_floorlog [of 10 n])
  qed
qed

lemma str_nat_bounds:
  "10 ^ (length (str_nat n) - 1) \<le> (if n = 0 then 1 else n) \<and> n < 10 ^ length (str_nat n)"
  using floorlog_bounds [where b = 10 and x = n] by (simp add: length_str_nat)

text \<open>
  How long the printed integer is. The numeral that \<open>%s\<close> prints has as many
  digits as the integer has decimal places, no leading zero and no padding: for
  \<open>n\<close> above 0 that is the number \<open>floorlog 10 n\<close>, the least \<open>k\<close> with \<open>n\<close>
  below the \<open>k\<close>-th power of 10, and one digit for 0; a negative integer has one
  more character, its sign. So the messages of \<open>FanException\<close> grow with the
  logarithm of the rejected value.
\<close>

lemma str_int_length:
  "length (str_int i) =
     (if i < 0 then 1 else 0) + (if i = 0 then 1 else floorlog 10 (nat \<bar>i\<bar>)) \<and>
   10 ^ (length (str_nat n) - 1) \<le> (if n = 0 then 1 else n) \<and>
   n < 10 ^ length (str_nat n)"
  using str_nat_bounds [of n] by (simp add: str_int_def length_str_nat)

end
