(* ===== verification/Py_Dict.thy ===== *)
theory Py_Dict
  imports Py_Value
begin

text \<open>
  Python dictionaries as the source uses them: built by item assignment
  \<open>d[k] = v\<close> (\<open>dict_set\<close>) and read by subscription \<open>d[k]\<close> (\<open>dict_get\<close>), which
  raises \<open>KeyError(k)\<close> for a key that is not there.

  A dictionary is the list of its items in insertion order. Assigning to a key
  that is present replaces the value and keeps the key object and its position;
  a new key goes to the end. Keys are compared with \<open>py_eq\<close>, as Python compares
  them (equal hash and \<open>==\<close>).

  \<open>dict_ok\<close> is the representation invariant (no key twice), \<open>dict_map\<close> the
  abstraction to a finite map over key classes. The lemmas show that the two
  operations implement map update and map lookup under that abstraction, and give
  the get-after-set laws the components use.
\<close>

section \<open>Operations\<close>

type_synonym pydict = "(pyval \<times> pyval) list"

fun dict_get :: "pydict \<Rightarrow> pyval \<Rightarrow> pyval result" where
  "dict_get [] k = Inl (KeyError k)"
| "dict_get ((k', v) # d) k = (if py_eq k' k then Inr v else dict_get d k)"

fun dict_set :: "pydict \<Rightarrow> pyval \<Rightarrow> pyval \<Rightarrow> pydict" where
  "dict_set [] k v = [(k, v)]"
| "dict_set ((k', v') # d) k v =
     (if py_eq k' k then (k', v) # d else (k', v') # dict_set d k v)"

definition dict_update :: "pydict \<Rightarrow> (pyval \<times> pyval) list \<Rightarrow> pydict" where
  "dict_update d items = fold (\<lambda>(k, v) d. dict_set d k v) items d"

definition dict_keys :: "pydict \<Rightarrow> pyval list" where
  "dict_keys d = map fst d"

definition dict_contains :: "pydict \<Rightarrow> pyval \<Rightarrow> bool" where
  "dict_contains d k = list_ex (\<lambda>k'. py_eq k' k) (dict_keys d)"

section \<open>Invariant and abstraction\<close>

definition dict_ok :: "pydict \<Rightarrow> bool" where
  "dict_ok d = distinct (map py_key (dict_keys d))"

definition dict_map :: "pydict \<Rightarrow> (pyval \<rightharpoonup> pyval)" where
  "dict_map d = map_of (map (\<lambda>(k, v). (py_key k, v)) d)"

lemmas [model_defs] = dict_keys_def dict_contains_def dict_ok_def dict_map_def dict_update_def

lemma dict_map_Nil [simp]: "dict_map [] = Map.empty"
  by (simp add: dict_map_def)

lemma dict_map_Cons [simp]:
  "dict_map ((k, v) # d) = (\<lambda>x. if py_key k = x then Some v else dict_map d x)"
  by (auto simp: dict_map_def)

lemma dict_keys_simps [simp]:
  "dict_keys [] = []" "dict_keys ((k, v) # d) = k # dict_keys d"
  by (simp_all add: dict_keys_def)

lemma dict_contains_simps [simp]:
  "dict_contains [] k = False"
  "dict_contains ((k', v) # d) k = (py_eq k' k \<or> dict_contains d k)"
  by (simp_all add: dict_contains_def)

lemma dict_ok_simps [simp]:
  "dict_ok []"
  "dict_ok ((k, v) # d) = (py_key k \<notin> py_key ` set (dict_keys d) \<and> dict_ok d)"
  by (simp_all add: dict_ok_def)

lemma dom_dict_map: "dom (dict_map d) = py_key ` set (dict_keys d)"
  by (simp add: dict_map_def dict_keys_def dom_map_of_conv_image_fst image_image
      case_prod_unfold)

lemma dict_contains_iff_dom: "dict_contains d k \<longleftrightarrow> py_key k \<in> dom (dict_map d)"
proof -
  have "dict_contains d k \<longleftrightarrow> (\<exists>k' \<in> set (dict_keys d). py_key k' = py_key k)"
    by (simp add: dict_contains_def list_ex_iff py_eq_iff_key)
  also have "\<dots> \<longleftrightarrow> py_key k \<in> py_key ` set (dict_keys d)"
    by (metis imageE image_eqI)
  finally show ?thesis
    by (simp add: dom_dict_map)
qed

section \<open>Lookup\<close>

lemma dict_get_refines:
  "dict_get d k = (case dict_map d (py_key k) of None \<Rightarrow> Inl (KeyError k) | Some v \<Rightarrow> Inr v)"
  by (induction d) (auto simp: py_eq_iff_key)

lemma dict_get_Inl_iff: "dict_get d k = Inl e \<longleftrightarrow> e = KeyError k \<and> \<not> dict_contains d k"
  by (auto simp: dict_get_refines dict_contains_iff_dom dom_def split: option.splits)

lemma dict_get_is_ok [simp]: "is_ok (dict_get d k) = dict_contains d k"
  by (auto simp: dict_get_refines dict_contains_iff_dom dom_def split: option.splits)

lemma dict_get_missing: "\<not> dict_contains d k \<Longrightarrow> dict_get d k = Inl (KeyError k)"
  by (simp add: dict_get_Inl_iff)

lemma dict_get_equal_key:
  "py_eq k k' \<Longrightarrow> dict_contains d k \<Longrightarrow> dict_get d k' = dict_get d k"
  by (auto simp: dict_get_refines py_eq_iff_key dict_contains_iff_dom dom_def)

lemma dict_contains_PStr: "dict_contains d (PStr n) \<longleftrightarrow> PStr n \<in> set (dict_keys d)"
  by (induction d) auto

section \<open>Item assignment\<close>

lemma dict_map_set: "dict_map (dict_set d k v) = (dict_map d)(py_key k \<mapsto> v)"
  by (induction d) (auto simp: py_eq_iff_key fun_eq_iff)

lemma dict_keys_set:
  "dict_keys (dict_set d k v) = (if dict_contains d k then dict_keys d else dict_keys d @ [k])"
  by (induction d) auto

lemma length_dict_set:
  "length (dict_set d k v) = (if dict_contains d k then length d else Suc (length d))"
  by (induction d) auto

lemma dict_ok_set: "dict_ok d \<Longrightarrow> dict_ok (dict_set d k v)"
proof (induction d)
  case Nil
  then show ?case by simp
next
  case (Cons p d)
  obtain k' v' where p: "p = (k', v')" by (cases p)
  show ?case
  proof (cases "py_eq k' k")
    case True
    with Cons.prems p show ?thesis by simp
  next
    case False
    with Cons p show ?thesis
      by (auto simp: dict_keys_set py_eq_iff_key)
  qed
qed

lemma dict_get_set:
  "dict_get (dict_set d k v) k' = (if py_eq k k' then Inr v else dict_get d k')"
  by (simp add: dict_get_refines dict_map_set py_eq_iff_key)

lemma dict_get_set_same [simp]: "dict_get (dict_set d k v) k = Inr v"
  by (simp add: dict_get_set)

lemma dict_get_set_other: "\<not> py_eq k k' \<Longrightarrow> dict_get (dict_set d k v) k' = dict_get d k'"
  by (simp add: dict_get_set)

lemma dict_contains_set [simp]:
  "dict_contains (dict_set d k v) k' \<longleftrightarrow> py_eq k k' \<or> dict_contains d k'"
  by (simp add: dict_contains_iff_dom dict_map_set py_eq_iff_key) auto

lemma dict_set_set_same: "dict_set (dict_set d k v) k v' = dict_set d k v'"
  by (induction d) auto

lemma dict_set_new: "\<not> dict_contains d k \<Longrightarrow> dict_set d k v = d @ [(k, v)]"
  by (induction d) auto

lemma dict_contains_append [simp]:
  "dict_contains (d @ d') k \<longleftrightarrow> dict_contains d k \<or> dict_contains d' k"
  by (induction d) auto

section \<open>Assigning a list of items in turn\<close>

lemma dict_update_simps [simp]:
  "dict_update d [] = d"
  "dict_update d ((k, v) # items) = dict_update (dict_set d k v) items"
  by (simp_all add: dict_update_def)

lemma dict_update_append [simp]: "dict_update d (xs @ ys) = dict_update (dict_update d xs) ys"
  by (simp add: dict_update_def)

lemma dict_ok_update: "dict_ok d \<Longrightarrow> dict_ok (dict_update d items)"
  by (induction items arbitrary: d) (auto simp: dict_ok_set)

text \<open>Later items win: the abstraction of the result prefers the last assignment.\<close>

lemma dict_map_update: "dict_map (dict_update d items) = dict_map d ++ dict_map (rev items)"
proof (induction items arbitrary: d)
  case Nil
  show ?case by simp
next
  case (Cons kv items)
  obtain k v where kv: "kv = (k, v)" by (cases kv)
  have "dict_map (rev items @ [(k, v)]) = [py_key k \<mapsto> v] ++ dict_map (rev items)"
    by (simp add: dict_map_def fun_eq_iff map_add_def split: option.split)
  with Cons.IH [of "dict_set d k v"] kv show ?case
    by (simp add: dict_map_set map_add_upd_left fun_eq_iff map_add_def split: option.split)
qed

text \<open>
  Items with keys that are new and pairwise different are appended in their order:
  the closed form of a dictionary built by a loop over distinct keys.
\<close>

lemma dict_update_fresh:
  "dict_ok items \<Longrightarrow> list_all (\<lambda>k. \<not> dict_contains d k) (dict_keys items) \<Longrightarrow>
     dict_update d items = d @ items"
proof (induction items arbitrary: d)
  case Nil
  show ?case by simp
next
  case (Cons kv items)
  obtain k v where kv: "kv = (k, v)" by (cases kv)
  with Cons.prems have fresh: "\<not> dict_contains d k" by simp
  from Cons.prems kv have "dict_ok items" by simp
  moreover from Cons.prems kv
  have "list_all (\<lambda>k'. \<not> dict_contains (d @ [(k, v)]) k') (dict_keys items)"
    by (auto simp: list_all_iff py_eq_iff_key)
  ultimately have "dict_update (d @ [(k, v)]) items = (d @ [(k, v)]) @ items"
    by (rule Cons.IH)
  with kv fresh show ?case by (simp add: dict_set_new)
qed

lemma dict_update_Nil_fresh: "dict_ok items \<Longrightarrow> dict_update [] items = items"
  using dict_update_fresh [of items "[]"] by (simp add: list_all_iff)

section \<open>The dictionary laws\<close>

text \<open>
  Item assignment and subscription implement update and lookup of a finite
  map over key classes. Assigning to a dictionary without duplicate keys gives a
  dictionary without duplicate keys whose abstraction is the updated map; a
  subscription after the assignment returns the assigned value for every key
  equal to the assigned one by \<open>==\<close> and what it returned before for every other
  key; and the number of items grows by one exactly for a new key.
\<close>

lemma dict_assignment_laws:
  assumes "dict_ok d"
  shows "dict_ok (dict_set d k v) \<and>
     dict_map (dict_set d k v) = (dict_map d)(py_key k \<mapsto> v) \<and>
     dict_get (dict_set d k v) k' = (if py_eq k k' then Inr v else dict_get d k') \<and>
     length (dict_set d k v) = (if dict_contains d k then length d else Suc (length d))"
  using assms by (simp add: dict_ok_set dict_map_set dict_get_set length_dict_set)

end
