(* ===== verification/Miot_Mapping.thy ===== *)
theory Miot_Mapping
  imports Py_Dict
begin

text \<open>
  The property mapping table \<open>_MAPPING\<close> of \<open>fan_1c.py\<close>: for each attribute name the
  service id and the property id under which the fan holds it.

  The table is a dictionary literal, kept here as the list of its items in source
  order (the order in which the properties are requested); each inner dictionary
  \<open>{"siid": s, "piid": p}\<close> has a fixed shape and is the record \<open>miot_id\<close>.

  \<open>mapping_ok\<close> states what makes a table usable by the adapter: no name twice (a
  second entry would silently replace the first in a dictionary literal), no
  address twice (two names would alias one property of the device), and positive
  ids.
\<close>

section \<open>The table\<close>

record miot_id =
  siid :: int
  piid :: int

type_synonym miot_mapping = "(string \<times> miot_id) list"

definition MAPPING :: miot_mapping where
  "MAPPING =
    [(''power'', \<lparr>siid = 2, piid = 1\<rparr>),
     (''fan_level'', \<lparr>siid = 2, piid = 2\<rparr>),
     (''child_lock'', \<lparr>siid = 3, piid = 1\<rparr>),
     (''swing_mode'', \<lparr>siid = 2, piid = 3\<rparr>),
     (''power_off_time'', \<lparr>siid = 2, piid = 10\<rparr>),
     (''buzzer'', \<lparr>siid = 2, piid = 11\<rparr>),
     (''light'', \<lparr>siid = 2, piid = 12\<rparr>),
     (''mode'', \<lparr>siid = 2, piid = 7\<rparr>)]"

section \<open>Well-formed tables\<close>

definition mapping_names :: "miot_mapping \<Rightarrow> string list" where
  "mapping_names m = map fst m"

definition mapping_ok :: "miot_mapping \<Rightarrow> bool" where
  "mapping_ok m \<longleftrightarrow>
     distinct (mapping_names m) \<and> distinct (map snd m) \<and>
     list_all (\<lambda>(n, a). 0 < siid a \<and> 0 < piid a) m"

lemmas [model_defs] = MAPPING_def mapping_names_def mapping_ok_def

lemma mapping_okD:
  assumes "mapping_ok m"
  shows "distinct (mapping_names m)" and "distinct (map snd m)"
  using assms by (simp_all add: mapping_ok_def)

lemma mapping_ok_positive:
  "mapping_ok m \<Longrightarrow> map_of m n = Some a \<Longrightarrow> 0 < siid a \<and> 0 < piid a"
  by (auto simp: mapping_ok_def dest: list_all_map_of)

lemma mapping_ok_address_inj:
  "mapping_ok m \<Longrightarrow> map_of m n = Some a \<Longrightarrow> map_of m n' = Some a \<Longrightarrow> n = n'"
  by (auto simp: mapping_ok_def intro: map_of_distinct_inj)

lemma mapping_names_MAPPING:
  "mapping_names MAPPING =
    [''power'', ''fan_level'', ''child_lock'', ''swing_mode'', ''power_off_time'',
     ''buzzer'', ''light'', ''mode'']"
  by (simp add: mapping_names_def MAPPING_def)

lemma map_of_MAPPING [simp]:
  "map_of MAPPING ''power'' = Some \<lparr>siid = 2, piid = 1\<rparr>"
  "map_of MAPPING ''fan_level'' = Some \<lparr>siid = 2, piid = 2\<rparr>"
  "map_of MAPPING ''child_lock'' = Some \<lparr>siid = 3, piid = 1\<rparr>"
  "map_of MAPPING ''swing_mode'' = Some \<lparr>siid = 2, piid = 3\<rparr>"
  "map_of MAPPING ''power_off_time'' = Some \<lparr>siid = 2, piid = 10\<rparr>"
  "map_of MAPPING ''buzzer'' = Some \<lparr>siid = 2, piid = 11\<rparr>"
  "map_of MAPPING ''light'' = Some \<lparr>siid = 2, piid = 12\<rparr>"
  "map_of MAPPING ''mode'' = Some \<lparr>siid = 2, piid = 7\<rparr>"
  by (simp_all add: MAPPING_def)

lemma mapping_ok_MAPPING [simp]: "mapping_ok MAPPING"
  by (simp add: mapping_ok_def mapping_names_def MAPPING_def)

lemma length_MAPPING [simp]: "length MAPPING = 8"
  by (simp add: MAPPING_def)

end
