(* ===== verification/Miot_Transport.thy ===== *)
theory Miot_Transport
  imports Miot_Mapping
begin

text \<open>
  The transport the adapter is built on: the two methods of the base class
  \<open>MiotDevice\<close> that \<open>Fan1C\<close> calls. The base class is not part of the repository,
  so this theory models it from the contract of the specification, in two layers.

  \<^item> The \<^emph>\<open>interface\<close> \<open>'d transport\<close>: a record of the two methods as actions over
    an arbitrary world \<open>'d\<close>. The adapter is written against this record, and its
    lemmas hold for every transport. \<open>answers\<close> and \<open>transport_ok\<close> state what a
    transport promises about a status reply.
  \<^item> A \<^emph>\<open>simulated fan\<close> \<open>sim_transport\<close> over the world \<open>fan_device\<close>: a property
    tree addressed by (siid, piid), a flag for the link, and the list of requests
    sent so far. It answers a status query with one entry per mapped name (status
    code 0 and the value, or a non-zero code and no value for a property the
    device does not have), and a write with an acknowledgement. It discharges the
    interface's contract and lets closed scenarios be evaluated.
\<close>

section \<open>The interface\<close>

record 'd transport =
  get_properties_for_mapping :: "miot_mapping \<Rightarrow> (py_error, pydict list, 'd) action"
  set_property :: "miot_mapping \<Rightarrow> string \<Rightarrow> pyval \<Rightarrow> (py_error, pydict list, 'd) action"

text \<open>
  One entry of a status reply answers the request for name \<open>n\<close> when it carries
  that name as \<open>did\<close> and a status code, and a value whenever the code is 0.
\<close>

definition entry_ok :: "string \<Rightarrow> pydict \<Rightarrow> bool" where
  "entry_ok n p \<longleftrightarrow>
     dict_get p (PStr ''did'') = Inr (PStr n) \<and>
     (case dict_get p (PStr ''code'') of
        Inl e \<Rightarrow> False
      | Inr c \<Rightarrow> if py_eq c (PInt 0) then dict_contains p (PStr ''value'') else True)"

definition answers :: "miot_mapping \<Rightarrow> pydict list \<Rightarrow> bool" where
  "answers m ps \<longleftrightarrow> list_all2 entry_ok (mapping_names m) ps"

definition transport_ok :: "'d transport \<Rightarrow> miot_mapping \<Rightarrow> bool" where
  "transport_ok tr m \<longleftrightarrow>
     (\<forall>s ps s'. get_properties_for_mapping tr m s = (Inr ps, s') \<longrightarrow> answers m ps)"

lemma transport_okD:
  "transport_ok tr m \<Longrightarrow> get_properties_for_mapping tr m s = (Inr ps, s') \<Longrightarrow> answers m ps"
  by (auto simp: transport_ok_def)

lemma answers_length: "answers m ps \<Longrightarrow> length ps = length m"
  by (auto simp: answers_def mapping_names_def dest: list_all2_lengthD)

lemma answers_Nil [simp]: "answers [] ps \<longleftrightarrow> ps = []"
  by (simp add: answers_def mapping_names_def)

lemma answers_Cons:
  "answers ((n, a) # m) ps \<longleftrightarrow> (\<exists>p ps'. ps = p # ps' \<and> entry_ok n p \<and> answers m ps')"
  by (cases ps) (simp_all add: answers_def mapping_names_def)

section \<open>A simulated fan\<close>

datatype request = GetProperties "pydict list" | SetProperties "pydict list"

record fan_device =
  store :: "int \<times> int \<Rightarrow> pyval option"
  online :: bool
  sent :: "request list"

definition not_found :: int where
  "not_found = - 4001"

definition link_down :: py_error where
  "link_down = DeviceException ''No response from the device''"

definition entry_request :: "string \<times> miot_id \<Rightarrow> pydict" where
  "entry_request e =
     [(PStr ''did'', PStr (fst e)), (PStr ''siid'', PInt (siid (snd e))),
      (PStr ''piid'', PInt (piid (snd e)))]"

definition entry_reply :: "(int \<times> int \<Rightarrow> pyval option) \<Rightarrow> string \<times> miot_id \<Rightarrow> pydict" where
  "entry_reply st e =
     (case st (siid (snd e), piid (snd e)) of
        None \<Rightarrow> entry_request e @ [(PStr ''code'', PInt not_found)]
      | Some v \<Rightarrow> entry_request e @ [(PStr ''code'', PInt 0), (PStr ''value'', v)])"

definition sim_get :: "miot_mapping \<Rightarrow> (py_error, pydict list, fan_device) action" where
  "sim_get m d =
     (if \<not> online d then (Inl link_down, d)
      else (Inr (map (entry_reply (store d)) m),
            d\<lparr>sent := sent d @ [GetProperties (map entry_request m)]\<rparr>))"

definition sim_set ::
  "miot_mapping \<Rightarrow> string \<Rightarrow> pyval \<Rightarrow> (py_error, pydict list, fan_device) action" where
  "sim_set m n v d =
     (case map_of m n of
        None \<Rightarrow> (Inl (KeyError (PStr n)), d)
      | Some a \<Rightarrow>
          if \<not> online d then (Inl link_down, d)
          else
            let req = entry_request (n, a) @ [(PStr ''value'', v)];
                d' = d\<lparr>sent := sent d @ [SetProperties [req]]\<rparr>
            in if store d (siid a, piid a) = None
               then (Inr [entry_request (n, a) @ [(PStr ''code'', PInt not_found)]], d')
               else (Inr [entry_request (n, a) @ [(PStr ''code'', PInt 0)]],
                     d'\<lparr>store := (store d)((siid a, piid a) \<mapsto> v)\<rparr>))"

definition sim_transport :: "fan_device transport" where
  "sim_transport = \<lparr>get_properties_for_mapping = sim_get, set_property = sim_set\<rparr>"

text \<open>
  The device of the specification's example: all eight properties present, with
  the raw values the example lists.
\<close>

definition spec_fan :: fan_device where
  "spec_fan =
     \<lparr>store = map_of
        [((2, 1), PInt 1), ((2, 7), PInt 1), ((2, 2), PInt 2), ((2, 3), PInt 0),
         ((2, 10), PInt 120), ((2, 12), PInt 1), ((2, 11), PInt 0), ((3, 1), PInt 1)],
      online = True, sent = []\<rparr>"

lemmas sim_defs =
  sim_transport_def sim_get_def sim_set_def entry_reply_def entry_request_def
  not_found_def link_down_def

lemmas [model_defs] = sim_defs spec_fan_def entry_ok_def answers_def

lemma sim_transport_simps [simp]:
  "get_properties_for_mapping sim_transport = sim_get"
  "set_property sim_transport = sim_set"
  by (simp_all add: sim_transport_def)

subsection \<open>The simulated fan keeps the interface's contract\<close>

lemma entry_ok_reply: "entry_ok n (entry_reply st (n, a))"
  by (simp add: entry_ok_def entry_reply_def entry_request_def not_found_def
      split: option.split)

lemma answers_replies: "answers m (map (entry_reply st) m)"
  by (induction m) (auto simp: answers_Cons entry_ok_reply)

lemma sim_transport_ok: "transport_ok sim_transport m"
  by (auto simp: transport_ok_def sim_get_def answers_replies split: if_splits)

subsection \<open>What one call does to the simulated fan\<close>

lemma sim_get_online:
  "online d \<Longrightarrow> sim_get m d =
     (Inr (map (entry_reply (store d)) m),
      d\<lparr>sent := sent d @ [GetProperties (map entry_request m)]\<rparr>)"
  by (simp add: sim_get_def)

lemma sim_get_store [simp]: "store (snd (sim_get m d)) = store d"
  by (simp add: sim_get_def)

lemma sim_get_online_unchanged [simp]: "online (snd (sim_get m d)) = online d"
  by (simp add: sim_get_def)

lemma sim_set_online_unchanged [simp]: "online (snd (sim_set m n v d)) = online d"
  by (simp add: sim_set_def Let_def split: option.split)

lemma sim_set_dom [simp]: "dom (store (snd (sim_set m n v d))) = dom (store d)"
  by (auto simp: sim_set_def Let_def split: option.splits if_splits)

lemma sim_set_written:
  assumes "online d" and "map_of m n = Some a" and "store d (siid a, piid a) \<noteq> None"
  shows "store (snd (sim_set m n v d)) = (store d)((siid a, piid a) \<mapsto> v)"
    and "is_ok (fst (sim_set m n v d))"
    and "length (sent (snd (sim_set m n v d))) = Suc (length (sent d))"
  using assms by (auto simp: sim_set_def Let_def)

lemma sim_set_sent:
  "length (sent (snd (sim_set m n v d))) =
     (if online d \<and> map_of m n \<noteq> None then Suc (length (sent d)) else length (sent d))"
  by (simp add: sim_set_def Let_def split: option.split)

end
