(* ===== verification/Fan_Status.thy ===== *)
theory Fan_Status
  imports Py_Dict
begin

text \<open>
  The class \<open>FanStatus1C\<close>: a container for one status report of the fan.

  Its only field is the dictionary \<open>data\<close> handed to the constructor. Every
  property of the class reads one key of it by subscription, so each accessor
  returns a result: \<open>Inl (KeyError k)\<close> where Python raises for a missing key.
  \<open>power\<close> (here \<open>power_state\<close>, the name \<open>power\<close> being taken by exponentiation)
  and \<open>mode\<close> derive a value from what they read, the other accessors hand the
  stored value on as it is, whatever its type.

  \<open>repr_FanStatus1C\<close> is \<open>__repr__\<close>: it evaluates the eight properties in the
  order of the tuple in the source and formats each with \<open>%s\<close>.
  \<open>json_FanStatus1C\<close> is \<open>__json__\<close>.
\<close>

section \<open>The container and its properties\<close>

record FanStatus1C =
  data :: pydict

definition power_state :: "FanStatus1C \<Rightarrow> string result" where
  "power_state self =
     bind_result (dict_get (data self) (PStr ''power''))
       (\<lambda>v. Inr (if py_truthy v then ''on'' else ''off''))"

definition is_on :: "FanStatus1C \<Rightarrow> pyval result" where
  "is_on self = dict_get (data self) (PStr ''power'')"

definition mode :: "FanStatus1C \<Rightarrow> OperationMode result" where
  "mode self =
     bind_result (dict_get (data self) (PStr ''mode''))
       (\<lambda>v. Inr (if py_eq v (PInt 1) then Nature else Normal))"

definition speed :: "FanStatus1C \<Rightarrow> pyval result" where
  "speed self = dict_get (data self) (PStr ''fan_level'')"

definition oscillate :: "FanStatus1C \<Rightarrow> pyval result" where
  "oscillate self = dict_get (data self) (PStr ''swing_mode'')"

definition delay_off_countdown :: "FanStatus1C \<Rightarrow> pyval result" where
  "delay_off_countdown self = dict_get (data self) (PStr ''power_off_time'')"

definition led :: "FanStatus1C \<Rightarrow> pyval result" where
  "led self = dict_get (data self) (PStr ''light'')"

definition buzzer :: "FanStatus1C \<Rightarrow> pyval result" where
  "buzzer self = dict_get (data self) (PStr ''buzzer'')"

definition child_lock :: "FanStatus1C \<Rightarrow> pyval result" where
  "child_lock self = dict_get (data self) (PStr ''child_lock'')"

definition repr_FanStatus1C :: "FanStatus1C \<Rightarrow> string result" where
  "repr_FanStatus1C self =
     bind_result (power_state self) (\<lambda>p.
     bind_result (mode self) (\<lambda>m.
     bind_result (speed self) (\<lambda>s.
     bind_result (oscillate self) (\<lambda>osc.
     bind_result (led self) (\<lambda>l.
     bind_result (buzzer self) (\<lambda>b.
     bind_result (child_lock self) (\<lambda>c.
     bind_result (delay_off_countdown self) (\<lambda>d.
     Inr (''<FanStatus power='' @ p @ '', mode='' @ str_OperationMode m
        @ '', speed='' @ py_str s @ '', oscillate='' @ py_str osc
        @ '', led='' @ py_str l @ '', buzzer='' @ py_str b
        @ '', child_lock='' @ py_str c
        @ '', delay_off_countdown='' @ py_str d @ ''>'')))))))))"

definition json_FanStatus1C :: "FanStatus1C \<Rightarrow> pydict" where
  "json_FanStatus1C self = data self"

lemmas accessor_defs =
  power_state_def is_on_def mode_def speed_def oscillate_def
  delay_off_countdown_def led_def buzzer_def child_lock_def

lemmas [model_defs] = accessor_defs repr_FanStatus1C_def json_FanStatus1C_def

section \<open>When an accessor raises\<close>

text \<open>
  Each accessor raises exactly when its key is missing, and then it raises
  \<open>KeyError\<close> of that key. The two bundles state this once for all nine.
\<close>

lemma accessor_Inl_iff:
  "power_state self = Inl e \<longleftrightarrow>
     e = KeyError (PStr ''power'') \<and> \<not> dict_contains (data self) (PStr ''power'')"
  "is_on self = Inl e \<longleftrightarrow>
     e = KeyError (PStr ''power'') \<and> \<not> dict_contains (data self) (PStr ''power'')"
  "mode self = Inl e \<longleftrightarrow>
     e = KeyError (PStr ''mode'') \<and> \<not> dict_contains (data self) (PStr ''mode'')"
  "speed self = Inl e \<longleftrightarrow>
     e = KeyError (PStr ''fan_level'') \<and> \<not> dict_contains (data self) (PStr ''fan_level'')"
  "oscillate self = Inl e \<longleftrightarrow>
     e = KeyError (PStr ''swing_mode'') \<and> \<not> dict_contains (data self) (PStr ''swing_mode'')"
  "delay_off_countdown self = Inl e \<longleftrightarrow>
     e = KeyError (PStr ''power_off_time'') \<and>
     \<not> dict_contains (data self) (PStr ''power_off_time'')"
  "led self = Inl e \<longleftrightarrow>
     e = KeyError (PStr ''light'') \<and> \<not> dict_contains (data self) (PStr ''light'')"
  "buzzer self = Inl e \<longleftrightarrow>
     e = KeyError (PStr ''buzzer'') \<and> \<not> dict_contains (data self) (PStr ''buzzer'')"
  "child_lock self = Inl e \<longleftrightarrow>
     e = KeyError (PStr ''child_lock'') \<and> \<not> dict_contains (data self) (PStr ''child_lock'')"
  by (simp_all add: accessor_defs bind_result_eq_Inl_iff dict_get_Inl_iff)

lemma accessor_is_ok:
  "is_ok (power_state self) = dict_contains (data self) (PStr ''power'')"
  "is_ok (is_on self) = dict_contains (data self) (PStr ''power'')"
  "is_ok (mode self) = dict_contains (data self) (PStr ''mode'')"
  "is_ok (speed self) = dict_contains (data self) (PStr ''fan_level'')"
  "is_ok (oscillate self) = dict_contains (data self) (PStr ''swing_mode'')"
  "is_ok (delay_off_countdown self) = dict_contains (data self) (PStr ''power_off_time'')"
  "is_ok (led self) = dict_contains (data self) (PStr ''light'')"
  "is_ok (buzzer self) = dict_contains (data self) (PStr ''buzzer'')"
  "is_ok (child_lock self) = dict_contains (data self) (PStr ''child_lock'')"
  by (simp_all add: accessor_defs is_ok_bind_projr)

lemma repr_total_iff:
  "is_ok (repr_FanStatus1C self) \<longleftrightarrow>
     list_all (\<lambda>k. dict_contains (data self) (PStr k))
       [''power'', ''mode'', ''fan_level'', ''swing_mode'', ''light'', ''buzzer'',
        ''child_lock'', ''power_off_time'']"
  by (simp add: repr_FanStatus1C_def is_ok_bind_projr accessor_is_ok)

text \<open>
  C26. \<open>__repr__\<close> raises exactly when one of the eight keys it reads is missing,
  and the exception is the \<open>KeyError\<close> of the first missing key in the order in
  which the source's tuple evaluates the properties: power, mode, fan_level,
  swing_mode, light, buzzer, child_lock, power_off_time.
\<close>

theorem repr_raises_first_missing_key:
  "repr_FanStatus1C self = Inl e \<longleftrightarrow>
     (\<exists>k. find (\<lambda>k. \<not> dict_contains (data self) (PStr k))
         [''power'', ''mode'', ''fan_level'', ''swing_mode'', ''light'', ''buzzer'',
          ''child_lock'', ''power_off_time''] = Some k \<and> e = KeyError (PStr k))"
  by (simp add: repr_FanStatus1C_def bind_result_Inl_projr accessor_is_ok accessor_Inl_iff)

section \<open>What the derived properties return\<close>

lemma power_state_eq_on_iff:
  "power_state self = Inr ''on'' \<longleftrightarrow>
     (\<exists>v. dict_get (data self) (PStr ''power'') = Inr v \<and> py_truthy v)"
  by (auto simp: power_state_def bind_result_eq_Inr_iff)

lemma power_state_eq_off_iff:
  "power_state self = Inr ''off'' \<longleftrightarrow>
     (\<exists>v. dict_get (data self) (PStr ''power'') = Inr v \<and> \<not> py_truthy v)"
  by (auto simp: power_state_def bind_result_eq_Inr_iff)

text \<open>
  \<open>mode\<close> is \<open>Nature\<close> exactly when the stored value equals 1 by Python's
  \<open>==\<close>: the integer 1 or the boolean \<open>True\<close>. Every other stored value,
  \<open>None\<close> included, gives \<open>Normal\<close>.
\<close>

lemma mode_Nature_iff:
  "mode self = Inr Nature \<longleftrightarrow>
     dict_get (data self) (PStr ''mode'') = Inr (PInt 1) \<or>
     dict_get (data self) (PStr ''mode'') = Inr (PBool True)"
  by (cases "dict_get (data self) (PStr ''mode'')")
    (auto simp: mode_def py_eq_PInt_iff)

end
