(* ===== verification/Fan_Adapter.thy ===== *)
theory Fan_Adapter
  imports Miot_Transport Fan_Status
begin

text \<open>
  The class \<open>Fan1C\<close>: the adapter between named operations and the transport.

  An object of the class is the record \<open>Fan1C\<close> of what the constructor hands to
  the base class (the mapping table and the connection parameters); the methods
  take the transport and the object and are actions on the transport's world.

  \<^item> \<open>status\<close> asks for all mapped properties and folds the reply into a dictionary:
    \<open>status_loop\<close> is the \<open>for\<close> loop, one equation per iteration, evaluating the
    right-hand side of the assignment (\<open>code\<close>, then \<open>value\<close> when the code is 0)
    before the key \<open>did\<close>, as Python does.
  \<^item> The setters validate their argument where the source does and make one call of
    \<open>set_property\<close>; a validation error is a \<open>FanException\<close> with the message of
    the source, raised before the transport is touched. Their argument is a
    \<open>pyval\<close>: the annotations of the source are not enforced, and the tests \<open>in\<close>
    and \<open><\<close> decide what happens to a value of another type.
  \<^item> \<open>call\<close> names the methods with their arguments and \<open>invoke\<close> dispatches one,
    so that properties of all methods are stated once.
\<close>

section \<open>The object\<close>

record Fan1C =
  mapping :: miot_mapping
  ip :: "string option"
  token :: "string option"
  start_id :: int
  debug :: int
  lazy_discover :: bool

definition Fan1C_init :: "string option \<Rightarrow> string option \<Rightarrow> int \<Rightarrow> int \<Rightarrow> bool \<Rightarrow> Fan1C" where
  "Fan1C_init ip' token' start_id' debug' lazy_discover' =
     \<lparr>mapping = MAPPING, ip = ip', token = token', start_id = start_id',
      debug = debug', lazy_discover = lazy_discover'\<rparr>"

definition Fan1C_default :: Fan1C where
  "Fan1C_default = Fan1C_init None None 0 0 True"

section \<open>The status query\<close>

fun status_loop :: "pydict list \<Rightarrow> pydict \<Rightarrow> pydict result" where
  "status_loop [] acc = Inr acc"
| "status_loop (p # ps) acc =
     bind_result (dict_get p (PStr ''code'')) (\<lambda>code.
     bind_result (if py_eq code (PInt 0) then dict_get p (PStr ''value'') else Inr PNone) (\<lambda>v.
     bind_result (dict_get p (PStr ''did'')) (\<lambda>did.
     status_loop ps (dict_set acc did v))))"

definition status :: "'d transport \<Rightarrow> Fan1C \<Rightarrow> (py_error, FanStatus1C, 'd) action" where
  "status tr self =
     bind_action (get_properties_for_mapping tr (mapping self))
       (\<lambda>ps. lift_result (map_result (\<lambda>d. \<lparr>data = d\<rparr>) (status_loop ps [])))"

section \<open>The setters\<close>

definition on :: "'d transport \<Rightarrow> Fan1C \<Rightarrow> (py_error, pydict list, 'd) action" where
  "on tr self = set_property tr (mapping self) ''power'' (PBool True)"

definition off :: "'d transport \<Rightarrow> Fan1C \<Rightarrow> (py_error, pydict list, 'd) action" where
  "off tr self = set_property tr (mapping self) ''power'' (PBool False)"

definition set_direct_speed ::
  "'d transport \<Rightarrow> Fan1C \<Rightarrow> pyval \<Rightarrow> (py_error, pydict list, 'd) action" where
  "set_direct_speed tr self speed' =
     (if \<not> py_in speed' [PInt 1, PInt 2, PInt 3]
      then raise_action (FanException (''Invalid speed: '' @ py_str speed'))
      else set_property tr (mapping self) ''fan_level'' speed')"

definition set_oscillate ::
  "'d transport \<Rightarrow> Fan1C \<Rightarrow> pyval \<Rightarrow> (py_error, pydict list, 'd) action" where
  "set_oscillate tr self oscillate' = set_property tr (mapping self) ''swing_mode'' oscillate'"

definition set_buzzer ::
  "'d transport \<Rightarrow> Fan1C \<Rightarrow> pyval \<Rightarrow> (py_error, pydict list, 'd) action" where
  "set_buzzer tr self buzzer' = set_property tr (mapping self) ''buzzer'' buzzer'"

definition set_child_lock ::
  "'d transport \<Rightarrow> Fan1C \<Rightarrow> pyval \<Rightarrow> (py_error, pydict list, 'd) action" where
  "set_child_lock tr self lock = set_property tr (mapping self) ''child_lock'' lock"

definition set_natural_mode ::
  "'d transport \<Rightarrow> Fan1C \<Rightarrow> pyval \<Rightarrow> (py_error, pydict list, 'd) action" where
  "set_natural_mode tr self natural =
     set_property tr (mapping self) ''mode'' (PInt (if py_truthy natural then 1 else 0))"

definition delay_off ::
  "'d transport \<Rightarrow> Fan1C \<Rightarrow> pyval \<Rightarrow> (py_error, pydict list, 'd) action" where
  "delay_off tr self seconds =
     bind_action (lift_result (py_less seconds 0)) (\<lambda>negative.
       if negative
       then raise_action
         (FanException (''Invalid value for a delayed turn off: '' @ py_str seconds))
       else set_property tr (mapping self) ''power_off_time'' seconds)"

lemmas setter_defs =
  on_def off_def set_direct_speed_def set_oscillate_def set_buzzer_def
  set_child_lock_def set_natural_mode_def delay_off_def

lemmas [model_defs] = Fan1C_init_def Fan1C_default_def status_def setter_defs

text \<open>The two validating setters at an integer, the argument their annotation names.\<close>

lemma set_direct_speed_PInt:
  "set_direct_speed tr self (PInt s) =
     (if s \<notin> {1, 2, 3}
      then raise_action (FanException (''Invalid speed: '' @ str_int s))
      else set_property tr (mapping self) ''fan_level'' (PInt s))"
  by (auto simp: set_direct_speed_def)

lemma delay_off_PInt:
  "delay_off tr self (PInt s) =
     (if s < 0
      then raise_action (FanException (''Invalid value for a delayed turn off: '' @ str_int s))
      else set_property tr (mapping self) ''power_off_time'' (PInt s))"
  by (rule ext) (simp add: delay_off_def action_simps)

lemmas typed_setters =
  on_def off_def set_direct_speed_PInt set_oscillate_def set_buzzer_def
  set_child_lock_def set_natural_mode_def delay_off_PInt

lemma mapping_Fan1C_init [simp]: "mapping (Fan1C_init i t s g l) = MAPPING"
  by (simp add: Fan1C_init_def)

lemma mapping_Fan1C_default [simp]: "mapping Fan1C_default = MAPPING"
  by (simp add: Fan1C_default_def)

section \<open>Method calls\<close>

datatype call =
    On | Off | SetDirectSpeed int | SetOscillate bool | SetBuzzer bool
  | SetChildLock bool | SetNaturalMode bool | DelayOff int

fun invoke :: "'d transport \<Rightarrow> Fan1C \<Rightarrow> call \<Rightarrow> (py_error, pydict list, 'd) action" where
  "invoke tr self On = on tr self"
| "invoke tr self Off = off tr self"
| "invoke tr self (SetDirectSpeed s) = set_direct_speed tr self (PInt s)"
| "invoke tr self (SetOscillate b) = set_oscillate tr self (PBool b)"
| "invoke tr self (SetBuzzer b) = set_buzzer tr self (PBool b)"
| "invoke tr self (SetChildLock b) = set_child_lock tr self (PBool b)"
| "invoke tr self (SetNaturalMode b) = set_natural_mode tr self (PBool b)"
| "invoke tr self (DelayOff s) = delay_off tr self (PInt s)"

text \<open>
  The six setters that take an argument, by name, on a value of any type: what a
  caller of the Python interface can do, where the annotations are not enforced.
\<close>

datatype setter =
    Set_direct_speed | Set_oscillate | Set_buzzer | Set_child_lock | Set_natural_mode
  | Delay_off

fun apply_setter ::
  "'d transport \<Rightarrow> Fan1C \<Rightarrow> setter \<Rightarrow> pyval \<Rightarrow> (py_error, pydict list, 'd) action" where
  "apply_setter tr self Set_direct_speed v = set_direct_speed tr self v"
| "apply_setter tr self Set_oscillate v = set_oscillate tr self v"
| "apply_setter tr self Set_buzzer v = set_buzzer tr self v"
| "apply_setter tr self Set_child_lock v = set_child_lock tr self v"
| "apply_setter tr self Set_natural_mode v = set_natural_mode tr self v"
| "apply_setter tr self Delay_off v = delay_off tr self v"

section \<open>The status loop in closed form\<close>

text \<open>
  The reference reading of a status reply has two phases: every entry is turned
  into the item it stands for (\<open>entry_item\<close>: the key \<open>did\<close> and the reported
  value, or \<open>None\<close> for a non-zero code), stopping at the first entry that
  cannot be read; then the items are assigned in turn. \<open>entry_value\<close> and
  \<open>snapshot_items\<close> give the result in closed form for a reply that keeps the
  transport's contract.

  \<open>keys_read\<close> are the keys the assignment subscripts in one entry, in the order
  in which Python evaluates them: \<open>code\<close> for the condition, \<open>value\<close> when the
  code equals 0, and \<open>did\<close> for the target last; an entry without \<open>code\<close> is
  read no further. \<open>missing_key\<close> is the first of them the entry lacks.
  \<open>replying\<close> is a transport that answers every query with a given reply, for
  replies that no well-behaved device sends.
\<close>

definition entry_item :: "pydict \<Rightarrow> (pyval \<times> pyval) result" where
  "entry_item p =
     bind_result (dict_get p (PStr ''code'')) (\<lambda>code.
     bind_result (if py_eq code (PInt 0) then dict_get p (PStr ''value'') else Inr PNone) (\<lambda>v.
     bind_result (dict_get p (PStr ''did'')) (\<lambda>did. Inr (did, v))))"

definition entry_value :: "pydict \<Rightarrow> pyval" where
  "entry_value p =
     (case dict_get p (PStr ''code'') of
        Inl e \<Rightarrow> PNone
      | Inr c \<Rightarrow>
          if py_eq c (PInt 0)
          then (case dict_get p (PStr ''value'') of Inl e \<Rightarrow> PNone | Inr v \<Rightarrow> v)
          else PNone)"

definition snapshot_items :: "string list \<Rightarrow> pydict list \<Rightarrow> pydict" where
  "snapshot_items ns ps = map (\<lambda>(n, p). (PStr n, entry_value p)) (zip ns ps)"

definition keys_read :: "pydict \<Rightarrow> string list" where
  "keys_read p =
     (case dict_get p (PStr ''code'') of
        Inl e \<Rightarrow> [''code'']
      | Inr c \<Rightarrow> if py_eq c (PInt 0) then [''code'', ''value'', ''did''] else [''code'', ''did''])"

definition missing_key :: "pydict \<Rightarrow> string option" where
  "missing_key p = find (\<lambda>k. \<not> dict_contains p (PStr k)) (keys_read p)"

definition replying :: "pydict list \<Rightarrow> fan_device transport" where
  "replying ps = \<lparr>get_properties_for_mapping = (\<lambda>m w. (Inr ps, w)), set_property = sim_set\<rparr>"

lemmas [model_defs] =
  entry_item_def entry_value_def snapshot_items_def keys_read_def missing_key_def replying_def

lemma status_loop_Cons:
  "status_loop (p # ps) acc =
     bind_result (entry_item p) (\<lambda>(k, v). status_loop ps (dict_set acc k v))"
  by (simp add: entry_item_def bind_result_assoc)

lemma status_loop_collect:
  "status_loop ps acc = map_result (dict_update acc) (collect entry_item ps)"
  by (induction ps arbitrary: acc)
    (auto simp: entry_item_def bind_result_def split: sum.splits)

lemma entry_item_ok: "entry_ok n p \<Longrightarrow> entry_item p = Inr (PStr n, entry_value p)"
  by (auto simp: entry_ok_def entry_item_def entry_value_def is_ok_iff
      simp flip: dict_get_is_ok split: sum.splits if_splits)

lemma collect_answers:
  "list_all2 entry_ok ns ps \<Longrightarrow> collect entry_item ps = Inr (snapshot_items ns ps)"
  by (induction ns ps rule: list_all2_induct) (simp_all add: snapshot_items_def entry_item_ok)

lemma dict_keys_snapshot_items:
  "length ns = length ps \<Longrightarrow> dict_keys (snapshot_items ns ps) = map PStr ns"
  by (induction ns ps rule: list_induct2) (simp_all add: snapshot_items_def)

lemma dict_ok_snapshot_items:
  "length ns = length ps \<Longrightarrow> distinct ns \<Longrightarrow> dict_ok (snapshot_items ns ps)"
  by (simp add: dict_ok_def dict_keys_snapshot_items distinct_map inj_on_def comp_def)

lemma status_loop_of_answers:
  assumes "mapping_ok m" and "answers m ps"
  shows "status_loop ps [] = Inr (snapshot_items (mapping_names m) ps)"
proof -
  from assms(2) have all: "list_all2 entry_ok (mapping_names m) ps"
    by (simp add: answers_def)
  then have len: "length (mapping_names m) = length ps"
    by (rule list_all2_lengthD)
  from assms(1) have "distinct (mapping_names m)"
    by (rule mapping_okD)
  with len have "dict_ok (snapshot_items (mapping_names m) ps)"
    by (rule dict_ok_snapshot_items)
  with all show ?thesis
    by (simp add: status_loop_collect collect_answers dict_update_Nil_fresh)
qed

text \<open>
  The right-hand side of the loop's assignment is evaluated before its target:
  an entry without \<open>code\<close> makes the loop raise \<open>KeyError('code')\<close>, whatever
  else the entry holds or lacks and whatever was collected before.
\<close>

lemma status_loop_reads_code_first:
  "\<not> dict_contains p (PStr ''code'') \<Longrightarrow>
     status_loop (p # ps) acc = Inl (KeyError (PStr ''code''))"
  by (simp add: dict_get_missing)

lemma entry_item_Inl_iff:
  "entry_item p = Inl e \<longleftrightarrow> (\<exists>k. missing_key p = Some k \<and> e = KeyError (PStr k))"
  by (auto simp: entry_item_def missing_key_def keys_read_def bind_result_def dict_get_Inl_iff
      simp flip: dict_get_is_ok split: sum.splits if_splits)

lemma entry_item_Inr_iff: "(\<exists>x. entry_item p = Inr x) \<longleftrightarrow> missing_key p = None"
  by (auto simp: entry_item_def missing_key_def keys_read_def bind_result_def dict_get_Inl_iff
      simp flip: dict_get_is_ok split: sum.splits if_splits)

lemma status_loop_Inl_iff:
  "status_loop ps acc = Inl e \<longleftrightarrow>
     (\<exists>p k. find (\<lambda>p. missing_key p \<noteq> None) ps = Some p \<and> missing_key p = Some k \<and>
        e = KeyError (PStr k))"
proof (induction ps arbitrary: acc)
  case Nil
  show ?case by simp
next
  case (Cons p ps)
  show ?case
  proof (cases "entry_item p")
    case (Inl e')
    with entry_item_Inl_iff [of p e'] show ?thesis
      by (auto simp: status_loop_Cons simp del: status_loop.simps)
  next
    case (Inr kv)
    then have "missing_key p = None"
      using entry_item_Inr_iff [of p] by auto
    with Inr Cons.IH show ?thesis
      by (cases kv) (simp add: status_loop_Cons del: status_loop.simps)
  qed
qed

section \<open>The status query over any transport\<close>

lemma status_Inl:
  "get_properties_for_mapping tr (mapping self) w = (Inl e, w') \<Longrightarrow>
     status tr self w = (Inl e, w')"
  by (simp add: status_def bind_action_def)

lemma status_Inr:
  "get_properties_for_mapping tr (mapping self) w = (Inr ps, w') \<Longrightarrow>
     status tr self w = (map_result (\<lambda>d. \<lparr>data = d\<rparr>) (status_loop ps []), w')"
  by (simp add: status_def bind_action_def lift_result_def)

lemma status_snd:
  "snd (status tr self w) = snd (get_properties_for_mapping tr (mapping self) w)"
  by (simp add: status_def bind_action_def lift_result_def split: prod.split sum.split)

text \<open>
  C14. Which exception a malformed reply raises. When the transport returns a
  reply, \<open>status\<close> leaves the world as the transport left it, and it raises
  exactly when some entry lacks a key the assignment reads; the exception is then
  the \<open>KeyError\<close> of the first missing key of the first such entry, in the order
  \<open>code\<close>, \<open>value\<close> (read only when the code equals 0), \<open>did\<close>. So an entry
  that lacks both \<open>code\<close> and \<open>did\<close> raises \<open>KeyError('code')\<close>: the right-hand
  side of the assignment is evaluated before its target.
\<close>

theorem status_raises_first_missing_key:
  assumes "get_properties_for_mapping tr (mapping self) w = (Inr ps, w')"
  shows "snd (status tr self w) = w' \<and>
     (fst (status tr self w) = Inl e \<longleftrightarrow>
        (\<exists>p k. find (\<lambda>p. missing_key p \<noteq> None) ps = Some p \<and> missing_key p = Some k \<and>
           e = KeyError (PStr k)))"
proof -
  from assms have "fst (status tr self w) = Inl e \<longleftrightarrow> status_loop ps [] = Inl e"
    by (cases "status_loop ps []") (simp_all add: status_Inr)
  with assms show ?thesis
    unfolding status_loop_Inl_iff by (simp add: status_Inr)
qed

theorem status_raises_first_missing_key_witness:
  "get_properties_for_mapping
     (replying
        [[(PStr ''did'', PStr ''power''), (PStr ''code'', PInt 0), (PStr ''value'', PBool True)],
         [(PStr ''value'', PInt 2)], [(PStr ''did'', PStr ''mode'')]])
     (mapping Fan1C_default) spec_fan =
     (Inr [[(PStr ''did'', PStr ''power''), (PStr ''code'', PInt 0), (PStr ''value'', PBool True)],
           [(PStr ''value'', PInt 2)], [(PStr ''did'', PStr ''mode'')]], spec_fan) \<and>
   status
     (replying
        [[(PStr ''did'', PStr ''power''), (PStr ''code'', PInt 0), (PStr ''value'', PBool True)],
         [(PStr ''value'', PInt 2)], [(PStr ''did'', PStr ''mode'')]])
     Fan1C_default spec_fan = (Inl (KeyError (PStr ''code'')), spec_fan)"
  using status_raises_first_missing_key [of
      "replying
        [[(PStr ''did'', PStr ''power''), (PStr ''code'', PInt 0), (PStr ''value'', PBool True)],
         [(PStr ''value'', PInt 2)], [(PStr ''did'', PStr ''mode'')]]"
      Fan1C_default spec_fan _ spec_fan "KeyError (PStr ''code'')"]
  by (simp add: replying_def missing_key_def keys_read_def prod_eq_iff)

lemma status_of_contract:
  assumes "transport_ok tr (mapping self)" and "mapping_ok (mapping self)"
    and "get_properties_for_mapping tr (mapping self) w = (Inr ps, w')"
  shows "status tr self w =
     (Inr \<lparr>data = snapshot_items (mapping_names (mapping self)) ps\<rparr>, w')"
proof -
  from assms(1,3) have "answers (mapping self) ps"
    by (rule transport_okD)
  with assms(2) have "status_loop ps [] = Inr (snapshot_items (mapping_names (mapping self)) ps)"
    by (rule status_loop_of_answers)
  with assms(3) show ?thesis
    by (simp add: status_Inr)
qed

lemma status_data_keys:
  assumes "transport_ok tr (mapping self)" and "mapping_ok (mapping self)"
    and "status tr self w = (Inr st, w')"
  shows "dict_keys (data st) = map PStr (mapping_names (mapping self))"
proof (cases "get_properties_for_mapping tr (mapping self) w")
  case (Pair r w'')
  show ?thesis
  proof (cases r)
    case (Inl e)
    with Pair assms(3) show ?thesis by (simp add: status_Inl)
  next
    case (Inr ps)
    with Pair assms(1) have "answers (mapping self) ps"
      by (auto dest: transport_okD)
    then have "length (mapping_names (mapping self)) = length ps"
      by (simp add: answers_length mapping_names_def)
    moreover from Pair Inr assms have "data st = snapshot_items (mapping_names (mapping self)) ps"
      by (auto simp: status_of_contract)
    ultimately show ?thesis
      by (simp add: dict_keys_snapshot_items)
  qed
qed

text \<open>
  C13. Over a transport that keeps its contract, \<open>status\<close> raises nothing of its
  own: whenever the transport returns a reply, \<open>status\<close> returns a
  \<open>FanStatus1C\<close> whose dictionary is the closed form of that reply, entries with
  a non-zero code included, and the world is the one the transport left.
\<close>

theorem status_on_contract:
  assumes "transport_ok tr (mapping self)" and "mapping_ok (mapping self)"
    and "get_properties_for_mapping tr (mapping self) w = (Inr ps, w')"
  shows "status tr self w =
     (Inr \<lparr>data = snapshot_items (mapping_names (mapping self)) ps\<rparr>, w')"
  using assms by (rule status_of_contract)

lemma snapshot_spec_fan:
  "snapshot_items (mapping_names MAPPING) (map (entry_reply (store spec_fan)) MAPPING) =
     [(PStr ''power'', PInt 1), (PStr ''fan_level'', PInt 2), (PStr ''child_lock'', PInt 1),
      (PStr ''swing_mode'', PInt 0), (PStr ''power_off_time'', PInt 120),
      (PStr ''buzzer'', PInt 0), (PStr ''light'', PInt 1), (PStr ''mode'', PInt 1)]"
  by (simp add: model_defs)

theorem status_on_contract_witness:
  "transport_ok sim_transport (mapping Fan1C_default) \<and> mapping_ok (mapping Fan1C_default) \<and>
   status sim_transport Fan1C_default spec_fan =
     (Inr \<lparr>data =
        [(PStr ''power'', PInt 1), (PStr ''fan_level'', PInt 2), (PStr ''child_lock'', PInt 1),
         (PStr ''swing_mode'', PInt 0), (PStr ''power_off_time'', PInt 120),
         (PStr ''buzzer'', PInt 0), (PStr ''light'', PInt 1), (PStr ''mode'', PInt 1)]\<rparr>,
      spec_fan\<lparr>sent := [GetProperties (map entry_request MAPPING)]\<rparr>)"
proof -
  have "get_properties_for_mapping sim_transport (mapping Fan1C_default) spec_fan =
     (Inr (map (entry_reply (store spec_fan)) MAPPING),
      spec_fan\<lparr>sent := sent spec_fan @ [GetProperties (map entry_request MAPPING)]\<rparr>)"
    by (simp add: sim_get_online spec_fan_def)
  from status_on_contract [OF sim_transport_ok _ this]
  show ?thesis
    by (simp add: sim_transport_ok snapshot_spec_fan) (simp add: spec_fan_def)
qed

section \<open>The setters against the operation table of the specification\<close>

text \<open>
  \<open>spec_write\<close> is the table of the specification: for each operation the
  attribute it writes and the value it forwards, or nothing when the argument is
  outside the operation's domain.
\<close>

fun spec_write :: "call \<Rightarrow> (string \<times> pyval) option" where
  "spec_write On = Some (''power'', PBool True)"
| "spec_write Off = Some (''power'', PBool False)"
| "spec_write (SetDirectSpeed s) =
     (if s \<in> {1, 2, 3} then Some (''fan_level'', PInt s) else None)"
| "spec_write (SetOscillate b) = Some (''swing_mode'', PBool b)"
| "spec_write (SetBuzzer b) = Some (''buzzer'', PBool b)"
| "spec_write (SetChildLock b) = Some (''child_lock'', PBool b)"
| "spec_write (SetNaturalMode b) = Some (''mode'', PInt (if b then 1 else 0))"
| "spec_write (DelayOff s) = (if 0 \<le> s then Some (''power_off_time'', PInt s) else None)"

text \<open>The calls the table rejects: a speed outside 1, 2, 3 and a negative delay.\<close>

fun_cases spec_write_NoneE: "spec_write c = None"

lemma invoke_forward:
  "spec_write c = Some (n, v) \<Longrightarrow> invoke tr self c = set_property tr (mapping self) n v"
  by (cases c) (auto simp: typed_setters split: if_splits)

lemma invoke_invalid:
  "spec_write c = None \<Longrightarrow> \<exists>msg. invoke tr self c w = (Inl (FanException msg), w)"
  by (erule spec_write_NoneE) (auto simp: typed_setters raise_action_def split: if_splits)

lemma spec_write_mapped: "spec_write c = Some (n, v) \<Longrightarrow> map_of MAPPING n \<noteq> None"
  by (cases c) (auto split: if_splits)

text \<open>
  C1. Every method is validate-then-forward: when the operation table of the
  specification names a write for a call, the method is exactly that one call of
  \<open>set_property\<close>, with the table's attribute and value, over every transport.
\<close>

theorem invoke_validate_then_forward:
  "spec_write c = Some (n, v) \<Longrightarrow> invoke tr self c = set_property tr (mapping self) n v"
  by (cases c) (auto simp: setter_defs action_simps fun_eq_iff split: if_splits)

theorem invoke_validate_then_forward_witness:
  "spec_write (SetNaturalMode True) = Some (''mode'', PInt 1) \<and>
   invoke sim_transport Fan1C_default (SetNaturalMode True) =
     set_property sim_transport (mapping Fan1C_default) ''mode'' (PInt 1)"
  using invoke_validate_then_forward
    [of "SetNaturalMode True" "''mode''" "PInt 1" sim_transport Fan1C_default]
  by simp

text \<open>
  C2. A call outside the table's domain (a speed other than 1, 2, 3, a negative
  delay) raises \<open>FanException\<close> and leaves the world untouched, over every
  transport: the transport is not called.
\<close>

theorem invoke_invalid_no_effect:
  "spec_write c = None \<Longrightarrow> \<exists>msg. invoke tr self c w = (Inl (FanException msg), w)"
  by (cases c) (auto simp: setter_defs action_simps raise_action_def split: if_splits)

theorem invoke_invalid_no_effect_witness:
  "spec_write (SetDirectSpeed 4) = None \<and>
   (\<exists>msg. invoke sim_transport Fan1C_default (SetDirectSpeed 4) spec_fan =
      (Inl (FanException msg), spec_fan))"
  using invoke_invalid_no_effect [of "SetDirectSpeed 4" sim_transport Fan1C_default spec_fan]
  by simp

text \<open>
  C35. Errors of the transport pass through unchanged. When the transport raises,
  on the status query or on the write of a call that passed validation, the
  method raises the same exception and leaves the world as the transport left
  it: nothing is caught, retried or wrapped.
\<close>

theorem transport_errors_propagate:
  "(get_properties_for_mapping tr (mapping self) w = (Inl e, w') \<longrightarrow>
      status tr self w = (Inl e, w')) \<and>
   (spec_write c = Some (n, v) \<and> set_property tr (mapping self) n v w = (Inl e, w') \<longrightarrow>
      invoke tr self c w = (Inl e, w'))"
  by (auto simp: status_Inl invoke_forward)

theorem transport_errors_propagate_witness:
  "status sim_transport Fan1C_default (spec_fan\<lparr>online := False\<rparr>) =
     (Inl link_down, spec_fan\<lparr>online := False\<rparr>) \<and>
   invoke sim_transport Fan1C_default (SetDirectSpeed 2) (spec_fan\<lparr>online := False\<rparr>) =
     (Inl link_down, spec_fan\<lparr>online := False\<rparr>)"
  using transport_errors_propagate [of sim_transport Fan1C_default "spec_fan\<lparr>online := False\<rparr>"
      link_down "spec_fan\<lparr>online := False\<rparr>" "SetDirectSpeed 2" "''fan_level''" "PInt 2"]
  by (simp add: sim_get_def sim_set_def)

text \<open>
  Every attribute name a method of \<open>Fan1C\<close> writes is a key of the mapping
  table: over the simulated fan, which resolves names through the table, no call
  ever raises \<open>KeyError\<close>.
\<close>

lemma invoke_never_KeyError:
  "fst (invoke sim_transport Fan1C_default c d) \<noteq> Inl (KeyError k)"
  by (cases c)
    (auto simp: typed_setters sim_set_def raise_action_def Let_def link_down_def
      split: if_splits)

section \<open>The setters on arguments of any type\<close>

text \<open>
  The annotations of the setters are not enforced, so a caller of the Python
  interface can pass any value. The validating setters decide with \<open>in\<close> and \<open><\<close>,
  which treat \<open>True\<close> as 1 and \<open>False\<close> as 0; the value forwarded is the argument
  as it was passed.
\<close>

lemma py_in_speeds:
  "py_in v [PInt 1, PInt 2, PInt 3] \<longleftrightarrow> v \<in> {PInt 1, PInt 2, PInt 3, PBool True}"
  by (cases v) auto

text \<open>
  The operation table on values of any type: the write a setter forwards, or
  \<open>None\<close> when it raises. On the arguments of the annotated types it is the
  table \<open>spec_write\<close>.
\<close>

fun raw_write :: "setter \<Rightarrow> pyval \<Rightarrow> (string \<times> pyval) option" where
  "raw_write Set_direct_speed v =
     (if py_in v [PInt 1, PInt 2, PInt 3] then Some (''fan_level'', v) else None)"
| "raw_write Set_oscillate v = Some (''swing_mode'', v)"
| "raw_write Set_buzzer v = Some (''buzzer'', v)"
| "raw_write Set_child_lock v = Some (''child_lock'', v)"
| "raw_write Set_natural_mode v = Some (''mode'', PInt (if py_truthy v then 1 else 0))"
| "raw_write Delay_off v =
     (if py_less v 0 = Inr False then Some (''power_off_time'', v) else None)"

lemma apply_setter_forward:
  "raw_write m v = Some (n, x) \<Longrightarrow> apply_setter tr self m v = set_property tr (mapping self) n x"
  by (cases m; cases v)
    (auto simp: setter_defs action_simps fun_eq_iff split: if_splits)

lemma apply_setter_rejected:
  "raw_write m v = None \<Longrightarrow> \<exists>e. apply_setter tr self m v w = (Inl e, w)"
  by (cases m; cases v)
    (auto simp: setter_defs action_simps raise_action_def split: if_splits)

lemma raw_write_mapped: "raw_write m v = Some (n, x) \<Longrightarrow> map_of MAPPING n \<noteq> None"
  by (cases m) (auto split: if_splits)

lemma raw_write_typed:
  "spec_write (SetDirectSpeed i) = raw_write Set_direct_speed (PInt i)"
  "spec_write (SetOscillate b) = raw_write Set_oscillate (PBool b)"
  "spec_write (SetBuzzer b) = raw_write Set_buzzer (PBool b)"
  "spec_write (SetChildLock b) = raw_write Set_child_lock (PBool b)"
  "spec_write (SetNaturalMode b) = raw_write Set_natural_mode (PBool b)"
  "spec_write (DelayOff i) = raw_write Delay_off (PInt i)"
  by auto

lemma delay_off_cases:
  "delay_off tr self v w =
     (case py_int v of
        None \<Rightarrow> (Inl (not_ordered v (PInt 0)), w)
      | Some i \<Rightarrow>
          if i < 0
          then (Inl (FanException (''Invalid value for a delayed turn off: '' @ py_str v)), w)
          else set_property tr (mapping self) ''power_off_time'' v w)"
  by (cases v) (simp_all add: delay_off_def action_simps raise_action_def)

text \<open>
  C10. The two validating setters on every value. \<open>set_direct_speed\<close> forwards
  exactly the integers 1, 2, 3 and the boolean \<open>True\<close> (which equals 1), each as
  it was passed, and rejects every other value, strings that spell a valid speed
  included, with the message built from \<open>str\<close> of the value. \<open>delay_off\<close> cannot
  compare \<open>None\<close> or a string with 0: the comparison raises \<open>TypeError\<close> and the
  transport is not called. Integers and booleans are compared by their numeric
  value; a negative one is rejected with \<open>FanException\<close>, every other one is
  forwarded as it was passed.
\<close>

theorem validating_setters_any:
  "set_direct_speed tr self v =
     (if v \<in> {PInt 1, PInt 2, PInt 3, PBool True}
      then set_property tr (mapping self) ''fan_level'' v
      else raise_action (FanException (''Invalid speed: '' @ py_str v))) \<and>
   delay_off tr self v w =
     (case py_int v of
        None \<Rightarrow> (Inl (not_ordered v (PInt 0)), w)
      | Some i \<Rightarrow>
          if i < 0
          then (Inl (FanException (''Invalid value for a delayed turn off: '' @ py_str v)), w)
          else set_property tr (mapping self) ''power_off_time'' v w)"
  unfolding set_direct_speed_def py_in_speeds by (simp add: delay_off_cases)

end
