(* ===== verification/Fan_Template.thy ===== *)
theory Fan_Template
  imports Fan_Status
begin

text \<open>
  \<open>str.format\<close> on a format string that has been read: the fields of the
  format strings that \<open>format_output\<close> is given in \<open>fan_1c.py\<close>, and how they are
  filled.

  A read format string is a list of segments, literal text and replacement
  fields \<open>{name}\<close> and \<open>{name.attr}\<close>; \<open>show_template\<close> prints it back.
  \<open>format_template\<close> fills the fields from left to right from the keyword
  arguments, a field \<open>{result.attr}\<close> by attribute access on the status object
  (\<open>format_attr\<close>, over the properties that \<open>FanStatus1C\<close> declares), and the first
  field that cannot be filled raises. The value \<open>None\<close> of an option marks what
  lies outside the modelled fragment of Python (attributes of scalars, inherited
  attributes of objects); no format string of the source gets there.
\<close>

section \<open>Format strings\<close>

datatype segment = Lit string | Field string "string list"

type_synonym template = "segment list"

fun show_segment :: "segment \<Rightarrow> string" where
  "show_segment (Lit s) = concat (map (\<lambda>c. if c = CHR ''{'' \<or> c = CHR ''}'' then [c, c] else [c]) s)"
| "show_segment (Field n as) = ''{'' @ n @ concat (map (\<lambda>a. ''.'' @ a) as) @ ''}''"

definition show_template :: "template \<Rightarrow> string" where
  "show_template t = concat (map show_segment t)"

datatype fmt_value = Val pyval | Status FanStatus1C

type_synonym kwargs = "(string \<times> fmt_value) list"

section \<open>Attribute access on a status object\<close>

definition property_table :: "(string \<times> (FanStatus1C \<Rightarrow> string result)) list" where
  "property_table =
     [(''power'', power_state),
      (''is_on'', \<lambda>st. map_result py_str (is_on st)),
      (''mode'', \<lambda>st. map_result str_OperationMode (mode st)),
      (''speed'', \<lambda>st. map_result py_str (speed st)),
      (''oscillate'', \<lambda>st. map_result py_str (oscillate st)),
      (''delay_off_countdown'', \<lambda>st. map_result py_str (delay_off_countdown st)),
      (''led'', \<lambda>st. map_result py_str (led st)),
      (''buzzer'', \<lambda>st. map_result py_str (buzzer st)),
      (''child_lock'', \<lambda>st. map_result py_str (child_lock st))]"

definition is_dunder :: "string \<Rightarrow> bool" where
  "is_dunder a \<longleftrightarrow> take 2 a = ''__''"

definition format_attr :: "FanStatus1C \<Rightarrow> string \<Rightarrow> string result option" where
  "format_attr st a =
     (case map_of property_table a of
        Some f \<Rightarrow> Some (f st)
      | None \<Rightarrow>
          if a = ''data'' \<or> is_dunder a then None else Some (Inl (AttributeError a)))"

section \<open>Filling a template\<close>

fun format_field :: "fmt_value \<Rightarrow> string list \<Rightarrow> string result option" where
  "format_field (Val v) [] = Some (Inr (py_str v))"
| "format_field (Status st) [] = Some (repr_FanStatus1C st)"
| "format_field (Status st) [a] = format_attr st a"
| "format_field x as = None"

fun format_segment :: "kwargs \<Rightarrow> segment \<Rightarrow> string result option" where
  "format_segment kw (Lit s) = Some (Inr s)"
| "format_segment kw (Field n as) =
     (case map_of kw n of
        None \<Rightarrow> Some (Inl (KeyError (PStr n)))
      | Some x \<Rightarrow> format_field x as)"

fun format_template :: "kwargs \<Rightarrow> template \<Rightarrow> string result option" where
  "format_template kw [] = Some (Inr [])"
| "format_template kw (s # t) =
     (case format_segment kw s of
        None \<Rightarrow> None
      | Some (Inl e) \<Rightarrow> Some (Inl e)
      | Some (Inr x) \<Rightarrow> map_option (map_result ((@) x)) (format_template kw t))"

fun renders :: "string result option \<Rightarrow> bool" where
  "renders (Some (Inr s)) = True"
| "renders r = False"

lemmas [model_defs] =
  show_template_def property_table_def is_dunder_def format_attr_def

section \<open>Templates as written\<close>

lemma show_template_simps [simp]:
  "show_template [] = []"
  "show_template (s # t) = show_segment s @ show_template t"
  by (simp_all add: show_template_def)

section \<open>Filling templates: general facts\<close>

lemma renders_iff: "renders r \<longleftrightarrow> (\<exists>s. r = Some (Inr s))"
  by (cases r rule: renders.cases) simp_all

lemma format_template_Lit [simp]:
  "format_template kw (Lit s # t) = map_option (map_result ((@) s)) (format_template kw t)"
  by simp

lemma format_template_append:
  "format_template kw (t @ u) =
     (case format_template kw t of
        None \<Rightarrow> None
      | Some (Inl e) \<Rightarrow> Some (Inl e)
      | Some (Inr x) \<Rightarrow> map_option (map_result ((@) x)) (format_template kw u))"
proof (induction t)
  case Nil
  show ?case by (cases "format_template kw u" rule: renders.cases) simp_all
next
  case (Cons s t)
  show ?case
  proof (cases "format_segment kw s" rule: renders.cases)
    case (1 x)
    with Cons.IH show ?thesis
      by (cases "format_template kw t" rule: renders.cases;
          cases "format_template kw u" rule: renders.cases) simp_all
  qed simp_all
qed

lemma format_template_fails:
  assumes "Field n as \<in> set t" and "map_of kw n = Some x"
    and "format_field x as = Some (Inl e)"
  shows "\<not> renders (format_template kw t)"
  using assms(1)
proof (induction t)
  case Nil
  then show ?case by simp
next
  case (Cons s t)
  show ?case
  proof (cases "s = Field n as")
    case True
    with assms(2,3) show ?thesis by simp
  next
    case False
    with Cons have "\<not> renders (format_template kw t)" by simp
    then show ?thesis
      by (cases "format_segment kw s" rule: renders.cases;
          cases "format_template kw t" rule: renders.cases) simp_all
  qed
qed

section \<open>Attribute access\<close>

lemma format_attr_property:
  "format_attr st ''power'' = Some (power_state st)"
  "format_attr st ''mode'' = Some (map_result str_OperationMode (mode st))"
  "format_attr st ''speed'' = Some (map_result py_str (speed st))"
  "format_attr st ''oscillate'' = Some (map_result py_str (oscillate st))"
  "format_attr st ''led'' = Some (map_result py_str (led st))"
  "format_attr st ''buzzer'' = Some (map_result py_str (buzzer st))"
  "format_attr st ''child_lock'' = Some (map_result py_str (child_lock st))"
  "format_attr st ''delay_off_countdown'' = Some (map_result py_str (delay_off_countdown st))"
  "format_attr st ''is_on'' = Some (map_result py_str (is_on st))"
  by (simp_all add: format_attr_def property_table_def)

lemma format_attr_angle: "format_attr st ''angle'' = Some (Inl (AttributeError ''angle''))"
  by (simp add: format_attr_def property_table_def is_dunder_def)

lemma format_attr_unknown:
  "a \<notin> set (map fst property_table) \<Longrightarrow> a \<noteq> ''data'' \<Longrightarrow> \<not> is_dunder a \<Longrightarrow>
     format_attr st a = Some (Inl (AttributeError a))"
  by (simp add: format_attr_def map_of_eq_None_iff [THEN iffD2])

end
