(* ===== verification/Fan_Format.thy ===== *)
theory Fan_Format
  imports Fan_Template
begin

text \<open>
  Format strings as the source writes them: the text that \<open>format_output\<close> hands
  to \<open>str.format\<close>.

  \<open>parse_format\<close> is the reader that produces the list of segments of
  \<open>Fan_Template\<close> from the characters: literal text, the escapes \<open>{{\<close> and \<open>}}\<close>,
  and replacement fields \<open>{name}\<close> and \<open>{name.attr}\<close>. Python reads and fills a
  format string in one pass from left to right, so a malformed rest is noticed
  only when everything before it has been filled: the reader returns the segments
  up to the place where it stops, and the \<open>ValueError\<close> it stops with, if any.
  \<open>format_string\<close> is \<open>str.format\<close> on the characters. The value \<open>None\<close> marks a
  field outside the modelled fragment (conversions, format specifications,
  indexing, positional fields).

  The reader joins adjacent literal text and never returns an empty literal:
  \<open>canonical\<close> is this normal form and \<open>normal\<close> brings a template into it.
  The lemmas show that reading inverts printing up to \<open>normal\<close>, which does not
  change what a template is filled with, and that printing inverts reading. So a
  string literal of the source can be replaced by the segments it prints from
  (\<open>format_string_show\<close>), which is how \<open>Fan_Cli\<close> evaluates the format strings of
  the commands.
\<close>

section \<open>Reading a format string\<close>

definition special :: "char \<Rightarrow> bool" where
  "special c \<longleftrightarrow> c \<in> set ''{}.[]!:''"

definition name_ok :: "string \<Rightarrow> bool" where
  "name_ok n \<longleftrightarrow> n \<noteq> [] \<and> \<not> list_ex special n \<and> \<not> list_all is_digit n"

definition attr_ok :: "string \<Rightarrow> bool" where
  "attr_ok a \<longleftrightarrow> a \<noteq> [] \<and> \<not> list_ex special a"

fun split_dots :: "string \<Rightarrow> string list" where
  "split_dots [] = [[]]"
| "split_dots (c # s) =
     (if c = CHR ''.'' then [] # split_dots s
      else (case split_dots s of [] \<Rightarrow> [[c]] | x # xs \<Rightarrow> (c # x) # xs))"

definition parse_field :: "string \<Rightarrow> segment option" where
  "parse_field b =
     (case split_dots b of
        [] \<Rightarrow> None
      | n # as \<Rightarrow> if name_ok n \<and> list_all attr_ok as then Some (Field n as) else None)"

fun cons_lit :: "char \<Rightarrow> template \<Rightarrow> template" where
  "cons_lit c (Lit s # t) = Lit (c # s) # t"
| "cons_lit c t = Lit [c] # t"

type_synonym parsed = "template \<times> py_error option"

definition single_open :: py_error where
  "single_open = ValueError (''Single '' @ quoted ''{'' @ '' encountered in format string'')"

definition single_close :: py_error where
  "single_close = ValueError (''Single '' @ quoted ''}'' @ '' encountered in format string'')"

definition unclosed :: py_error where
  "unclosed = ValueError (''expected '' @ quoted ''}'' @ '' before end of string'')"

function parse_format :: "string \<Rightarrow> parsed option" where
  "parse_format [] = Some ([], None)"
| "parse_format (c # s) =
     (if c = CHR ''{'' then
        (case s of
           [] \<Rightarrow> Some ([], Some single_open)
         | c' # s' \<Rightarrow>
             if c' = CHR ''{'' then map_option (apfst (cons_lit c)) (parse_format s')
             else if CHR ''}'' \<notin> set s then Some ([], Some unclosed)
             else
               (case parse_field (takeWhile (\<lambda>x. x \<noteq> CHR ''}'') s) of
                  None \<Rightarrow> None
                | Some f \<Rightarrow>
                    map_option (apfst ((#) f))
                      (parse_format (tl (dropWhile (\<lambda>x. x \<noteq> CHR ''}'') s)))))
      else if c = CHR ''}'' then
        (case s of
           [] \<Rightarrow> Some ([], Some single_close)
         | c' # s' \<Rightarrow>
             if c' = CHR ''}'' then map_option (apfst (cons_lit c)) (parse_format s')
             else Some ([], Some single_close))
      else map_option (apfst (cons_lit c)) (parse_format s))"
  by pat_completeness auto

termination
proof (relation "measure length")
  fix c :: char and s :: string
  have "length (tl (dropWhile (\<lambda>x. x \<noteq> CHR ''}'') s)) \<le> length s"
    using length_dropWhile_le [of "\<lambda>x. x \<noteq> CHR ''}''" s] by simp
  then show "(tl (dropWhile (\<lambda>x. x \<noteq> CHR ''}'') s), c # s) \<in> measure length"
    by simp
qed simp_all

definition format_string :: "kwargs \<Rightarrow> string \<Rightarrow> string result option" where
  "format_string kw s =
     (case parse_format s of
        None \<Rightarrow> None
      | Some (t, stop) \<Rightarrow>
          (case format_template kw t of
             None \<Rightarrow> None
           | Some (Inl e) \<Rightarrow> Some (Inl e)
           | Some (Inr x) \<Rightarrow> (case stop of None \<Rightarrow> Some (Inr x) | Some e \<Rightarrow> Some (Inl e))))"

fun canonical :: "template \<Rightarrow> bool" where
  "canonical [] = True"
| "canonical (Lit s # t) = (s \<noteq> [] \<and> (case t of Lit s' # t' \<Rightarrow> False | _ \<Rightarrow> True) \<and> canonical t)"
| "canonical (Field n as # t) = (name_ok n \<and> list_all attr_ok as \<and> canonical t)"

fun normal :: "template \<Rightarrow> template" where
  "normal [] = []"
| "normal (Lit s # t) = foldr cons_lit s (normal t)"
| "normal (Field n as # t) = Field n as # normal t"

fun fields_ok :: "template \<Rightarrow> bool" where
  "fields_ok [] = True"
| "fields_ok (Lit s # t) = fields_ok t"
| "fields_ok (Field n as # t) = (name_ok n \<and> list_all attr_ok as \<and> fields_ok t)"

lemmas [model_defs] =
  special_def name_ok_def attr_ok_def parse_field_def single_open_def single_close_def
  unclosed_def format_string_def

declare parse_format.simps(2) [simp del]

section \<open>Field names\<close>

lemma split_dots_nonempty [simp]: "split_dots s \<noteq> []"
  by (induction s) (auto split: list.splits)

lemma split_dots_plain: "CHR ''.'' \<notin> set n \<Longrightarrow> split_dots n = [n]"
  by (induction n) auto

lemma split_dots_append_dot:
  "CHR ''.'' \<notin> set n \<Longrightarrow> split_dots (n @ CHR ''.'' # r) = n # split_dots r"
  by (induction n) auto

lemma split_dots_join:
  "CHR ''.'' \<notin> set n \<Longrightarrow> list_all (\<lambda>a. CHR ''.'' \<notin> set a) as \<Longrightarrow>
     split_dots (n @ concat (map ((#) CHR ''.'') as)) = n # as"
  by (induction as arbitrary: n) (simp_all add: split_dots_plain split_dots_append_dot)

lemma join_split_dots:
  "split_dots b = n # as \<Longrightarrow> n @ concat (map ((#) CHR ''.'') as) = b"
proof (induction b arbitrary: n as)
  case Nil
  then show ?case by simp
next
  case (Cons c b)
  obtain n' as' where split: "split_dots b = n' # as'"
    by (cases "split_dots b") simp_all
  from Cons.IH [OF split] have "n' @ concat (map ((#) CHR ''.'') as') = b" .
  moreover from Cons.prems split
  have "n # as = (if c = CHR ''.'' then [] # n' # as' else (c # n') # as')"
    by (auto split: if_splits)
  ultimately show ?case
    by (auto split: if_splits)
qed

lemma append_dot: "(@) ''.'' = (#) CHR ''.''"
  by (simp add: fun_eq_iff)

lemma not_special_set: "\<not> list_ex special n \<Longrightarrow> c \<in> set ''{}.[]!:'' \<Longrightarrow> c \<notin> set n"
  by (auto simp: list_ex_iff special_def)

lemma parse_field_show:
  assumes "name_ok n" and "list_all attr_ok as"
  shows "parse_field (n @ concat (map ((#) CHR ''.'') as)) = Some (Field n as)"
proof -
  from assms(1) have "CHR ''.'' \<notin> set n"
    by (simp add: name_ok_def not_special_set)
  moreover from assms(2) have "list_all (\<lambda>a. CHR ''.'' \<notin> set a) as"
    by (auto simp: list_all_iff attr_ok_def not_special_set)
  ultimately show ?thesis
    using assms by (simp add: parse_field_def split_dots_join)
qed

lemma parse_field_Some:
  assumes "parse_field b = Some f"
  shows "\<exists>n as. f = Field n as \<and> name_ok n \<and> list_all attr_ok as \<and>
     show_segment f = ''{'' @ b @ ''}''"
  using assms
  by (auto simp: parse_field_def append_dot dest: join_split_dots split: list.splits if_splits)

section \<open>Reading what was printed\<close>

fun starts_lit :: "template \<Rightarrow> bool" where
  "starts_lit (Lit s # t) = True"
| "starts_lit t = False"

lemma parse_format_escape:
  "parse_format (show_segment (Lit [c]) @ r) = map_option (apfst (cons_lit c)) (parse_format r)"
  by (simp add: parse_format.simps(2))

lemma parse_format_lit:
  "parse_format (show_segment (Lit s) @ r) =
     map_option (apfst (\<lambda>t. foldr cons_lit s t)) (parse_format r)"
proof (induction s)
  case Nil
  show ?case by (cases "parse_format r") auto
next
  case (Cons c s)
  have "show_segment (Lit (c # s)) @ r = show_segment (Lit [c]) @ show_segment (Lit s) @ r"
    by simp
  with Cons show ?case
    by (cases "parse_format r")
      (auto simp only: parse_format_escape option.map apfst_conv foldr.simps comp_apply)
qed

lemma format_cons_lit:
  "format_template kw (cons_lit c t) = map_option (map_result ((#) c)) (format_template kw t)"
proof (cases t rule: starts_lit.cases)
  case (1 s t')
  then show ?thesis
    by (cases "format_template kw t'" rule: renders.cases) simp_all
qed (cases "format_template kw t" rule: renders.cases; simp)+

lemma format_foldr_cons_lit:
  "format_template kw (foldr cons_lit s t) = map_option (map_result ((@) s)) (format_template kw t)"
proof (induction s)
  case Nil
  show ?case by (cases "format_template kw t" rule: renders.cases) simp_all
next
  case (Cons c s)
  then show ?case
    by (cases "format_template kw t" rule: renders.cases) (simp_all add: format_cons_lit)
qed

lemma format_normal: "format_template kw (normal t) = format_template kw t"
  by (induction t rule: normal.induct)
    (simp_all add: format_foldr_cons_lit cong: option.case_cong sum.case_cong)

lemma split_at:
  "c \<notin> set b \<Longrightarrow>
     takeWhile (\<lambda>x. x \<noteq> c) (b @ c # r) = b \<and> dropWhile (\<lambda>x. x \<noteq> c) (b @ c # r) = c # r"
  by (induction b) auto

lemma parse_format_open:
  assumes "s \<noteq> []" and "hd s \<noteq> CHR ''{''" and "CHR ''}'' \<in> set s"
  shows "parse_format (CHR ''{'' # s) =
     (case parse_field (takeWhile (\<lambda>x. x \<noteq> CHR ''}'') s) of
        None \<Rightarrow> None
      | Some f \<Rightarrow>
          map_option (apfst ((#) f)) (parse_format (tl (dropWhile (\<lambda>x. x \<noteq> CHR ''}'') s))))"
proof (cases s)
  case Nil
  with assms(1) show ?thesis by simp
next
  case (Cons a list)
  from assms(2,3) show ?thesis
    unfolding Cons by (simp add: parse_format.simps(2))
qed

lemma parse_format_field:
  assumes "name_ok n" and "list_all attr_ok as"
  shows "parse_format (show_segment (Field n as) @ r) =
     map_option (apfst ((#) (Field n as))) (parse_format r)"
proof -
  let ?b = "n @ concat (map ((#) CHR ''.'') as)"
  let ?s = "?b @ CHR ''}'' # r"
  from assms have close: "CHR ''}'' \<notin> set ?b"
    by (auto simp: name_ok_def attr_ok_def list_all_iff not_special_set)
  from assms(1) have "?s \<noteq> []" and "hd ?s \<noteq> CHR ''{''" and "CHR ''}'' \<in> set ?s"
    by (cases n; auto simp: name_ok_def special_def)+
  then have "parse_format (CHR ''{'' # ?s) =
     (case parse_field (takeWhile (\<lambda>x. x \<noteq> CHR ''}'') ?s) of
        None \<Rightarrow> None
      | Some f \<Rightarrow>
          map_option (apfst ((#) f)) (parse_format (tl (dropWhile (\<lambda>x. x \<noteq> CHR ''}'') ?s))))"
    by (rule parse_format_open)
  also have "\<dots> = map_option (apfst ((#) (Field n as))) (parse_format r)"
    by (simp only: split_at [OF close] parse_field_show [OF assms] option.case list.sel)
  finally show ?thesis
    by (simp add: append_dot)
qed

section \<open>Printing what was read\<close>

lemma show_cons_lit: "show_template (cons_lit c t) = show_segment (Lit [c]) @ show_template t"
  by (cases t rule: starts_lit.cases) simp_all

lemma canonical_cons_lit: "canonical t \<Longrightarrow> canonical (cons_lit c t)"
  by (cases t rule: starts_lit.cases) simp_all

definition reads :: "string \<Rightarrow> parsed \<Rightarrow> bool" where
  "reads s p \<longleftrightarrow>
     canonical (fst p) \<and> (\<exists>r. s = show_template (fst p) @ r \<and> (snd p = None \<longrightarrow> r = []))"

lemma reads_lit:
  "reads s p \<Longrightarrow> c \<noteq> CHR ''{'' \<Longrightarrow> c \<noteq> CHR ''}'' \<Longrightarrow> reads (c # s) (apfst (cons_lit c) p)"
  by (auto simp: reads_def canonical_cons_lit show_cons_lit)

lemma reads_brace:
  "reads s p \<Longrightarrow> c = CHR ''{'' \<or> c = CHR ''}'' \<Longrightarrow> reads (c # c # s) (apfst (cons_lit c) p)"
  by (auto simp: reads_def canonical_cons_lit show_cons_lit)

lemma reads_field:
  assumes "reads r p" and "parse_field b = Some f"
  shows "reads (CHR ''{'' # b @ CHR ''}'' # r) (apfst ((#) f) p)"
proof -
  from parse_field_Some [OF assms(2)] obtain n as
    where "f = Field n as" "name_ok n" "list_all attr_ok as"
      "show_segment f = ''{'' @ b @ ''}''"
    by blast
  with assms(1) show ?thesis
    unfolding reads_def by (cases p) (auto simp del: show_segment.simps)
qed

lemma split_close:
  assumes "CHR ''}'' \<in> set s"
  shows "s = takeWhile (\<lambda>x. x \<noteq> CHR ''}'') s @ CHR ''}'' # tl (dropWhile (\<lambda>x. x \<noteq> CHR ''}'') s)"
proof -
  let ?P = "\<lambda>x. x \<noteq> CHR ''}''"
  from assms have ne: "dropWhile ?P s \<noteq> []"
    by (auto simp: dropWhile_eq_Nil_conv)
  with hd_dropWhile [OF ne] have "dropWhile ?P s = CHR ''}'' # tl (dropWhile ?P s)"
    by (cases "dropWhile ?P s") simp_all
  then show ?thesis
    by (metis takeWhile_dropWhile_id)
qed

section \<open>The equations of the reader\<close>

lemma parse_format_plain:
  "c \<noteq> CHR ''{'' \<Longrightarrow> c \<noteq> CHR ''}'' \<Longrightarrow>
     parse_format (c # s) = map_option (apfst (cons_lit c)) (parse_format s)"
  by (simp add: parse_format.simps(2))

lemma parse_format_double:
  "c = CHR ''{'' \<or> c = CHR ''}'' \<Longrightarrow>
     parse_format (c # c # s) = map_option (apfst (cons_lit c)) (parse_format s)"
  by (auto simp: parse_format.simps(2))

lemma parse_format_single_open: "parse_format ''{'' = Some ([], Some single_open)"
  by (simp add: parse_format.simps(2))

lemma parse_format_unclosed:
  "s \<noteq> [] \<Longrightarrow> hd s \<noteq> CHR ''{'' \<Longrightarrow> CHR ''}'' \<notin> set s \<Longrightarrow>
     parse_format (CHR ''{'' # s) = Some ([], Some unclosed)"
  by (cases s) (simp_all add: parse_format.simps(2))

lemma parse_format_single_close:
  "s = [] \<or> hd s \<noteq> CHR ''}'' \<Longrightarrow> parse_format (CHR ''}'' # s) = Some ([], Some single_close)"
  by (cases s) (simp_all add: parse_format.simps(2))

lemma parse_format_Cons_cases:
  assumes "parse_format (c # s) = Some p"
  obtains
    (plain) q where "c \<noteq> CHR ''{''" "c \<noteq> CHR ''}''"
      "parse_format s = Some q" "p = apfst (cons_lit c) q"
  | (double) s' q where "c = CHR ''{'' \<or> c = CHR ''}''" "s = c # s'"
      "parse_format s' = Some q" "p = apfst (cons_lit c) q"
  | (field) f q where "c = CHR ''{''" "CHR ''}'' \<in> set s"
      "parse_field (takeWhile (\<lambda>x. x \<noteq> CHR ''}'') s) = Some f"
      "parse_format (tl (dropWhile (\<lambda>x. x \<noteq> CHR ''}'') s)) = Some q" "p = apfst ((#) f) q"
  | (stop) e where "p = ([], Some e)"
proof -
  consider "c \<noteq> CHR ''{''" "c \<noteq> CHR ''}''"
    | s' where "c = CHR ''{'' \<or> c = CHR ''}''" "s = c # s'"
    | "c = CHR ''{''" "s = []"
    | "c = CHR ''{''" "s \<noteq> []" "hd s \<noteq> CHR ''{''" "CHR ''}'' \<notin> set s"
    | "c = CHR ''{''" "s \<noteq> []" "hd s \<noteq> CHR ''{''" "CHR ''}'' \<in> set s"
    | "c = CHR ''}''" "s = [] \<or> hd s \<noteq> CHR ''}''"
    by (cases s) auto
  then show thesis
  proof cases
    case 1
    with assms plain show thesis by (auto simp: parse_format_plain)
  next
    case 2
    with assms double show thesis by (auto simp: parse_format_double)
  next
    case 3
    with assms stop show thesis by (auto simp: parse_format_single_open)
  next
    case 4
    with assms stop show thesis by (auto simp: parse_format_unclosed)
  next
    case 5
    with assms field show thesis by (auto simp: parse_format_open split: option.splits)
  next
    case 6
    with assms stop show thesis by (auto simp: parse_format_single_close)
  qed
qed

lemma parse_format_reads: "parse_format s = Some p \<Longrightarrow> reads s p"
proof (induction s arbitrary: p rule: length_induct)
  case (1 s)
  note IH = "1.IH" [rule_format]
  show ?case
  proof (cases s)
    case Nil
    with "1.prems" show ?thesis by (auto simp: reads_def)
  next
    case (Cons c s')
    from "1.prems" [unfolded Cons] show ?thesis
    proof (cases rule: parse_format_Cons_cases)
      case (plain q)
      with IH [of s' q] Cons show ?thesis
        by (simp add: reads_lit)
    next
      case (double s'' q)
      with IH [of s'' q] Cons show ?thesis
        by (simp add: reads_brace)
    next
      case (field f q)
      have "length (tl (dropWhile (\<lambda>x. x \<noteq> CHR ''}'') s')) \<le> length s'"
        using length_dropWhile_le [of "\<lambda>x. x \<noteq> CHR ''}''" s'] by simp
      with IH [OF _ field(4)] Cons
      have "reads (tl (dropWhile (\<lambda>x. x \<noteq> CHR ''}'') s')) q"
        by simp
      from reads_field [OF this field(3)] split_close [OF field(2)] field(1,5) Cons
      show ?thesis by simp
    next
      case (stop e)
      then show ?thesis
        by (simp add: reads_def)
    qed
  qed
qed

section \<open>The round trip\<close>

lemma parse_show_normal: "fields_ok t \<Longrightarrow> parse_format (show_template t) = Some (normal t, None)"
  by (induction t rule: normal.induct)
    (simp_all add: parse_format_lit parse_format_field del: show_segment.simps)

lemma format_string_show:
  "fields_ok t \<Longrightarrow> format_string kw (show_template t) = format_template kw t"
  by (cases "format_template kw t" rule: renders.cases)
    (simp_all add: format_string_def format_normal parse_show_normal)

lemmas field_ok_defs = name_ok_def attr_ok_def special_def is_digit_def

end
