(* ===== verification/Fan_Cli.thy ===== *)
theory Fan_Cli
  imports Fan_Adapter Fan_Format
begin

text \<open>
  The command-line side of \<open>Fan1C\<close>: what the decorators \<open>@command\<close>,
  \<open>click.argument\<close> and \<open>format_output\<close> attach to the methods.

  Each decorated method becomes a \<open>command\<close>: its declared arguments, the message
  announced for it (the first argument of \<open>format_output\<close>, a format string or a
  lambda) and, for \<open>status\<close>, the format string for its result. The format
  strings are the string literals of the source, character for character;
  \<open>render_message\<close> and \<open>report_result\<close> hand them to \<open>format_string\<close> of
  \<open>Fan_Format\<close>.

  The lemmas replace each literal by the segments it prints from, once
  (\<open>format_status_format\<close>, \<open>announce_formats\<close>), and then reason on segments.
\<close>

section \<open>Commands\<close>

datatype arg_type = IntArg | BoolArg

datatype message = Format string | Callable string "pyval \<Rightarrow> string"

record command =
  arguments :: "(string \<times> arg_type) list"
  announce :: message
  report :: "string option"

fun render_message :: "message \<Rightarrow> kwargs \<Rightarrow> string result option" where
  "render_message (Format s) kw = format_string kw s"
| "render_message (Callable p f) [(n, Val v)] =
     Some (if n = p then Inr (f v)
           else Inl (TypeError (''<lambda>() got an unexpected keyword argument '' @ quoted n)))"
| "render_message (Callable p f) kw = None"

definition status_format :: string where
  "status_format =
     ''Power: {result.power}'' @ [CHR 0x0A] @
     ''Operation mode: {result.mode}'' @ [CHR 0x0A] @
     ''Speed: {result.speed}'' @ [CHR 0x0A] @
     ''Oscillate: {result.oscillate}'' @ [CHR 0x0A] @
     ''Angle: {result.angle}'' @ [CHR 0x0A] @
     ''LED: {result.led}'' @ [CHR 0x0A] @
     ''Buzzer: {result.buzzer}'' @ [CHR 0x0A] @
     ''Child lock: {result.child_lock}'' @ [CHR 0x0A]"

definition status_command :: command where
  "status_command = \<lparr>arguments = [], announce = Format [], report = Some status_format\<rparr>"

definition on_command :: command where
  "on_command = \<lparr>arguments = [], announce = Format ''Powering on'', report = None\<rparr>"

definition off_command :: command where
  "off_command = \<lparr>arguments = [], announce = Format ''Powering off'', report = None\<rparr>"

definition set_direct_speed_command :: command where
  "set_direct_speed_command =
     \<lparr>arguments = [(''speed'', IntArg)],
      announce = Format ''Setting speed of the direct mode to {speed}'',
      report = None\<rparr>"

definition set_buzzer_command :: command where
  "set_buzzer_command =
     \<lparr>arguments = [(''buzzer'', BoolArg)],
      announce = Callable ''buzzer''
        (\<lambda>buzzer. if py_truthy buzzer then ''Turning on buzzer'' else ''Turning off buzzer''),
      report = None\<rparr>"

definition set_child_lock_command :: command where
  "set_child_lock_command =
     \<lparr>arguments = [(''lock'', BoolArg)],
      announce = Callable ''lock''
        (\<lambda>lock. if py_truthy lock then ''Turning on child lock'' else ''Turning off child lock''),
      report = None\<rparr>"

definition set_natural_mode_command :: command where
  "set_natural_mode_command =
     \<lparr>arguments = [(''natural'', BoolArg)],
      announce = Callable ''natural''
        (\<lambda>natural. if py_truthy natural then ''Turning on natural mode''
           else ''Turning off natural mode''),
      report = None\<rparr>"

definition delay_off_command :: command where
  "delay_off_command =
     \<lparr>arguments = [(''seconds'', IntArg)],
      announce = Format ''Setting delayed turn off to {seconds} seconds'',
      report = None\<rparr>"

definition commands :: "(string \<times> command) list" where
  "commands =
     [(''status'', status_command), (''on'', on_command), (''off'', off_command),
      (''set_direct_speed'', set_direct_speed_command), (''set_buzzer'', set_buzzer_command),
      (''set_child_lock'', set_child_lock_command),
      (''set_natural_mode'', set_natural_mode_command), (''delay_off'', delay_off_command)]"

lemmas command_defs =
  status_command_def on_command_def off_command_def set_direct_speed_command_def
  set_buzzer_command_def set_child_lock_command_def set_natural_mode_command_def
  delay_off_command_def

fun has_type :: "arg_type \<Rightarrow> fmt_value \<Rightarrow> bool" where
  "has_type IntArg (Val (PInt i)) = True"
| "has_type BoolArg (Val (PBool b)) = True"
| "has_type t v = False"

definition kwargs_ok :: "(string \<times> arg_type) list \<Rightarrow> kwargs \<Rightarrow> bool" where
  "kwargs_ok as kw = list_all2 (\<lambda>(n, t) (n', v). n' = n \<and> has_type t v) as kw"

section \<open>The status command\<close>

definition report_result :: "command \<Rightarrow> fmt_value \<Rightarrow> string result option" where
  "report_result c x =
     (case report c of None \<Rightarrow> None | Some s \<Rightarrow> format_string [(''result'', x)] s)"

definition status_report ::
  "'d transport \<Rightarrow> Fan1C \<Rightarrow> 'd \<Rightarrow> string result option \<times> 'd" where
  "status_report tr self w =
     (case status tr self w of
        (Inl e, w') \<Rightarrow> (Some (Inl e), w')
      | (Inr st, w') \<Rightarrow> (report_result status_command (Status st), w'))"

text \<open>The segments that the report's format string prints from, one line each.\<close>

definition status_template :: template where
  "status_template =
     [Lit ''Power: '', Field ''result'' [''power''], Lit [CHR 0x0A],
      Lit ''Operation mode: '', Field ''result'' [''mode''], Lit [CHR 0x0A],
      Lit ''Speed: '', Field ''result'' [''speed''], Lit [CHR 0x0A],
      Lit ''Oscillate: '', Field ''result'' [''oscillate''], Lit [CHR 0x0A],
      Lit ''Angle: '', Field ''result'' [''angle''], Lit [CHR 0x0A],
      Lit ''LED: '', Field ''result'' [''led''], Lit [CHR 0x0A],
      Lit ''Buzzer: '', Field ''result'' [''buzzer''], Lit [CHR 0x0A],
      Lit ''Child lock: '', Field ''result'' [''child_lock''], Lit [CHR 0x0A]]"

lemmas [model_defs] =
  status_format_def status_template_def command_defs commands_def kwargs_ok_def
  report_result_def status_report_def

section \<open>The format strings read\<close>

lemma status_format_show: "status_format = show_template status_template"
  by (simp add: status_format_def status_template_def)

lemma format_status_format: "format_string kw status_format = format_template kw status_template"
  unfolding status_format_show
  by (rule format_string_show) (simp add: status_template_def field_ok_defs)

lemma parse_status_format: "parse_format status_format = Some (normal status_template, None)"
  unfolding status_format_show
  by (rule parse_show_normal) (simp add: status_template_def field_ok_defs)

lemma announce_formats:
  "format_string kw [] = Some (Inr [])"
  "format_string kw ''Powering on'' = Some (Inr ''Powering on'')"
  "format_string kw ''Powering off'' = Some (Inr ''Powering off'')"
  "format_string kw ''Setting speed of the direct mode to {speed}'' =
     format_template kw [Lit ''Setting speed of the direct mode to '', Field ''speed'' []]"
  "format_string kw ''Setting delayed turn off to {seconds} seconds'' =
     format_template kw
       [Lit ''Setting delayed turn off to '', Field ''seconds'' [], Lit '' seconds'']"
  using format_string_show [of "[]" kw]
    format_string_show [of "[Lit ''Powering on'']" kw]
    format_string_show [of "[Lit ''Powering off'']" kw]
    format_string_show [of "[Lit ''Setting speed of the direct mode to '', Field ''speed'' []]" kw]
    format_string_show [of "[Lit ''Setting delayed turn off to '', Field ''seconds'' [],
      Lit '' seconds'']" kw]
  by (simp_all add: field_ok_defs)

section \<open>The report of the status command\<close>

text \<open>
  The format string of the status command cannot be filled. It names the
  attribute \<open>angle\<close>, which \<open>FanStatus1C\<close> does not have, so for every status
  object whatsoever \<open>str.format\<close> raises instead of returning the report.
\<close>

lemma status_format_never_renders:
  "\<not> renders (format_string [(''result'', Status st)] status_format)"
  unfolding format_status_format
  by (rule format_template_fails [where n = "''result''" and as = "[''angle'']"
        and x = "Status st" and e = "AttributeError ''angle''"])
    (auto simp: status_template_def format_attr_angle)

lemma status_template_angle:
  assumes "list_all (\<lambda>k. dict_contains (data st) (PStr k))
      [''power'', ''mode'', ''fan_level'', ''swing_mode'']"
  shows "format_template [(''result'', Status st)] status_template =
     Some (Inl (AttributeError ''angle''))"
proof -
  from assms obtain p m s osc where
    "power_state st = Inr p" "mode st = Inr m" "speed st = Inr s" "oscillate st = Inr osc"
    by (auto simp: is_ok_iff simp flip: accessor_is_ok)
  then show ?thesis
    by (auto simp: status_template_def format_attr_property format_attr_angle)
qed

lemma status_snapshot_angle:
  assumes "transport_ok tr MAPPING"
    and "get_properties_for_mapping tr MAPPING w = (Inr ps, w')"
  shows "\<exists>st. status tr (Fan1C_init i t s g l) w = (Inr st, w') \<and>
     format_template [(''result'', Status st)] status_template =
       Some (Inl (AttributeError ''angle''))"
proof -
  let ?self = "Fan1C_init i t s g l"
  let ?st = "\<lparr>data = snapshot_items (mapping_names MAPPING) ps\<rparr>"
  from assms have query: "status tr ?self w = (Inr ?st, w')"
    using status_of_contract [of tr ?self w ps w'] by simp
  from status_data_keys [of tr ?self w ?st w'] assms(1) query
  have "dict_keys (data ?st) = map PStr (mapping_names MAPPING)"
    by simp
  then have "list_all (\<lambda>k. dict_contains (data ?st) (PStr k))
      [''power'', ''mode'', ''fan_level'', ''swing_mode'']"
    by (simp add: dict_contains_PStr mapping_names_MAPPING)
  with query show ?thesis
    by (auto intro: status_template_angle)
qed

text \<open>
  C9. The status command never prints a status. Over every transport that keeps
  its contract, whenever the device answers the query, the command ends with
  \<open>AttributeError('angle')\<close>, after the query has been made.
\<close>

theorem status_report_raises_angle:
  assumes "transport_ok tr MAPPING"
    and "get_properties_for_mapping tr MAPPING w = (Inr ps, w')"
  shows "status_report tr (Fan1C_init i t s g l) w = (Some (Inl (AttributeError ''angle'')), w')"
proof -
  have lit: "status_format = show_template status_template"
    by (simp add: status_format_def status_template_def)
  have "fields_ok status_template"
    by (simp add: status_template_def field_ok_defs)
  then have "format_string kw status_format = format_template kw status_template" for kw
    by (subst lit) (rule format_string_show)
  with status_snapshot_angle [OF assms, of i t s g l] show ?thesis
    by (auto simp: status_report_def report_result_def status_command_def)
qed

theorem status_report_raises_angle_witness:
  "transport_ok sim_transport MAPPING \<and>
   get_properties_for_mapping sim_transport MAPPING spec_fan =
     (Inr (map (entry_reply (store spec_fan)) MAPPING),
      spec_fan\<lparr>sent := [GetProperties (map entry_request MAPPING)]\<rparr>) \<and>
   status_report sim_transport Fan1C_default spec_fan =
     (Some (Inl (AttributeError ''angle'')),
      spec_fan\<lparr>sent := [GetProperties (map entry_request MAPPING)]\<rparr>)"
proof -
  have reply: "get_properties_for_mapping sim_transport MAPPING spec_fan =
     (Inr (map (entry_reply (store spec_fan)) MAPPING),
      spec_fan\<lparr>sent := [GetProperties (map entry_request MAPPING)]\<rparr>)"
    by (simp add: sim_get_def spec_fan_def)
  from status_report_raises_angle [OF sim_transport_ok reply, of None None 0 0 True] reply
  show ?thesis
    by (simp add: sim_transport_ok Fan1C_default_def)
qed

section \<open>Announcements\<close>

lemma has_type_iff:
  "has_type IntArg v \<longleftrightarrow> (\<exists>i. v = Val (PInt i))"
  "has_type BoolArg v \<longleftrightarrow> (\<exists>b. v = Val (PBool b))"
  by (cases "(IntArg, v)" rule: has_type.cases; auto)
    (cases "(BoolArg, v)" rule: has_type.cases; auto)

text \<open>
  C34. Every announcement can be made. For each command of the table and for
  every list of keyword arguments of the declared names and types, the message of
  the command renders: each format string names only declared arguments, and
  each lambda takes the declared argument.
\<close>

theorem announce_renders:
  assumes "(n, c) \<in> set commands" and "kwargs_ok (arguments c) kw"
  shows "renders (render_message (announce c) kw)"
  using assms
  by (auto simp: commands_def command_defs kwargs_ok_def list_all2_Cons1 has_type_iff
      announce_formats)

theorem announce_renders_witness:
  "(''set_direct_speed'', set_direct_speed_command) \<in> set commands \<and>
   kwargs_ok (arguments set_direct_speed_command) [(''speed'', Val (PInt 7))] \<and>
   render_message (announce set_direct_speed_command) [(''speed'', Val (PInt 7))] =
     Some (Inr ''Setting speed of the direct mode to 7'')"
  using announce_renders [of "''set_direct_speed''" set_direct_speed_command
      "[(''speed'', Val (PInt 7))]"]
  by (simp add: commands_def set_direct_speed_command_def kwargs_ok_def str_int_def
      str_nat.simps digit_char_def announce_formats)

text \<open>
  What is announced. The two commands with an integer argument announce the
  decimal numeral of the argument inside the text of the source, whether or not
  the method will accept the value; the three commands with a boolean argument
  announce "Turning on" or "Turning off".
\<close>

lemma announce_texts:
  "render_message (announce set_direct_speed_command) [(''speed'', Val (PInt i))] =
     Some (Inr (''Setting speed of the direct mode to '' @ str_int i)) \<and>
   render_message (announce delay_off_command) [(''seconds'', Val (PInt i))] =
     Some (Inr (''Setting delayed turn off to '' @ str_int i @ '' seconds'')) \<and>
   render_message (announce set_buzzer_command) [(''buzzer'', Val (PBool b))] =
     Some (Inr (if b then ''Turning on buzzer'' else ''Turning off buzzer'')) \<and>
   render_message (announce set_child_lock_command) [(''lock'', Val (PBool b))] =
     Some (Inr (if b then ''Turning on child lock'' else ''Turning off child lock'')) \<and>
   render_message (announce set_natural_mode_command) [(''natural'', Val (PBool b))] =
     Some (Inr (if b then ''Turning on natural mode'' else ''Turning off natural mode''))"
  by (simp add: command_defs announce_formats)

end
