(* ===== verification/Fan_Refinement.thy ===== *)
theory Fan_Refinement
  imports Fan_Adapter
begin

text \<open>
  The adapter over the simulated fan against the semantic attribute model of the
  specification.

  The abstract state of the fan is a finite map from attribute names to raw
  values. \<open>fan_view\<close> is the abstraction function: it reads the device's
  property tree through the mapping table. \<open>spec_step\<close> is the abstract effect of
  one call: the write the operation table names, applied when the fan has that
  attribute, \<open>target\<close> the attribute it writes to. \<open>run\<close> is a session: calls
  made one after the other on the same device, an exception ending only the call
  that raised it.

  The theorems are the commuting squares: a call on the device is an abstract
  step on the view, a session is the fold of its steps, and a status query
  returns the view as a dictionary (\<open>view_items\<close>), so that a status query after a
  call shows the written value and leaves every other attribute as it was. From
  them follow the laws of order: what a status query can tell about the order in
  which calls were made.
\<close>

section \<open>The abstract fan\<close>

definition fan_view :: "miot_mapping \<Rightarrow> fan_device \<Rightarrow> (string \<rightharpoonup> pyval)" where
  "fan_view m d n = Option.bind (map_of m n) (\<lambda>a. store d (siid a, piid a))"

definition spec_step :: "call \<Rightarrow> (string \<rightharpoonup> pyval) \<Rightarrow> (string \<rightharpoonup> pyval)" where
  "spec_step c s =
     (case spec_write c of
        None \<Rightarrow> s
      | Some (n, v) \<Rightarrow> if s n = None then s else s(n \<mapsto> v))"

definition target :: "call \<Rightarrow> string option" where
  "target c = map_option fst (spec_write c)"

definition raw_value :: "pyval option \<Rightarrow> pyval" where
  "raw_value x = (case x of None \<Rightarrow> PNone | Some v \<Rightarrow> v)"

definition view_items :: "string list \<Rightarrow> (string \<rightharpoonup> pyval) \<Rightarrow> pydict" where
  "view_items ns s = map (\<lambda>n. (PStr n, raw_value (s n))) ns"

fun run :: "Fan1C \<Rightarrow> call list \<Rightarrow> fan_device \<Rightarrow> fan_device" where
  "run self [] d = d"
| "run self (c # cs) d = run self cs (snd (invoke sim_transport self c d))"

lemmas [model_defs] = fan_view_def spec_step_def target_def raw_value_def view_items_def

lemma raw_value_simps [simp]: "raw_value None = PNone" "raw_value (Some v) = v"
  by (simp_all add: raw_value_def)

lemma fan_view_sent [simp]: "fan_view m (d\<lparr>sent := x\<rparr>) = fan_view m d"
  by (simp add: fan_view_def fun_eq_iff)

lemma fan_view_entry:
  "distinct (mapping_names m) \<Longrightarrow> (n, a) \<in> set m \<Longrightarrow>
     fan_view m d n = store d (siid a, piid a)"
  by (simp add: fan_view_def mapping_names_def)

section \<open>One call is one abstract step\<close>

lemma fan_view_store: "store d' = store d \<Longrightarrow> fan_view m d' = fan_view m d"
  by (simp add: fan_view_def fun_eq_iff)

lemma fan_view_store_upd:
  assumes "mapping_ok m" and "map_of m n = Some a"
  shows "fan_view m (d\<lparr>store := (store d)((siid a, piid a) := x)\<rparr>) = (fan_view m d)(n := x)"
proof (rule ext)
  fix n'
  show "fan_view m (d\<lparr>store := (store d)((siid a, piid a) := x)\<rparr>) n' =
     ((fan_view m d)(n := x)) n'"
  proof (cases "map_of m n'")
    case None
    with assms(2) show ?thesis by (auto simp: fan_view_def)
  next
    case (Some a')
    have "a' = a \<longleftrightarrow> n' = n"
      using mapping_ok_address_inj [OF assms(1) Some, of n] assms(2) Some by auto
    moreover have "(siid a', piid a') = (siid a, piid a) \<longleftrightarrow> a' = a"
      by auto
    ultimately show ?thesis
      using Some assms(2) by (auto simp: fan_view_def)
  qed
qed

lemma store_sim_set:
  "store (snd (sim_set m n v d)) =
     (case map_of m n of
        None \<Rightarrow> store d
      | Some a \<Rightarrow>
          if online d \<and> store d (siid a, piid a) \<noteq> None
          then (store d)((siid a, piid a) \<mapsto> v) else store d)"
  by (simp add: sim_set_def Let_def split: option.split)

lemma fan_view_sim_set:
  assumes "mapping_ok m" and "online d"
  shows "fan_view m (snd (sim_set m n v d)) =
     (if fan_view m d n = None then fan_view m d else (fan_view m d)(n \<mapsto> v))"
proof (cases "map_of m n")
  case None
  then show ?thesis
    by (simp add: fan_view_def store_sim_set fun_eq_iff)
next
  case (Some a)
  let ?d' = "d\<lparr>store := (store d)((siid a, piid a) \<mapsto> v)\<rparr>"
  from Some assms(2)
  have "fan_view m (snd (sim_set m n v d)) =
     (if store d (siid a, piid a) = None then fan_view m d else fan_view m ?d')"
    by (auto intro!: fan_view_store simp: store_sim_set)
  with fan_view_store_upd [OF assms(1) Some] Some show ?thesis
    by (simp add: fan_view_def)
qed

lemma invoke_sim_snd:
  "snd (invoke sim_transport self c d) =
     (case spec_write c of
        None \<Rightarrow> d
      | Some (n, v) \<Rightarrow> snd (sim_set (mapping self) n v d))"
proof (cases "spec_write c")
  case None
  from invoke_invalid [OF this, of sim_transport self d] None show ?thesis
    by auto
next
  case (Some nv)
  obtain n v where "nv = (n, v)" by (cases nv)
  with Some show ?thesis
    by (simp add: invoke_forward)
qed

lemma invoke_sim_view:
  assumes "mapping_ok (mapping self)" and "online d"
  shows "fan_view (mapping self) (snd (invoke sim_transport self c d)) =
     spec_step c (fan_view (mapping self) d)"
  using assms by (simp add: invoke_sim_snd spec_step_def fan_view_sim_set split: option.split)

lemma invoke_sim_online [simp]: "online (snd (invoke sim_transport self c d)) = online d"
  by (simp add: invoke_sim_snd split: option.split)

lemma invoke_sim_dom [simp]:
  "dom (store (snd (invoke sim_transport self c d))) = dom (store d)"
  by (simp add: invoke_sim_snd split: option.split)

text \<open>
  C5. Refinement, one call. Over a well-formed table and a reachable device, the
  view of the device after any call is the abstract step of that call on the view
  before: valid calls write their one attribute and no other, invalid calls
  change nothing.
\<close>

theorem invoke_refines_spec:
  assumes "mapping_ok (mapping self)" and "online d"
  shows "fan_view (mapping self) (snd (invoke sim_transport self c d)) =
     spec_step c (fan_view (mapping self) d)"
  using assms by (rule invoke_sim_view)

theorem invoke_refines_spec_witness:
  "mapping_ok (mapping Fan1C_default) \<and> online spec_fan \<and>
   fan_view (mapping Fan1C_default)
     (snd (invoke sim_transport Fan1C_default (SetDirectSpeed 3) spec_fan)) ''fan_level'' =
     Some (PInt 3) \<and>
   fan_view (mapping Fan1C_default)
     (snd (invoke sim_transport Fan1C_default (SetDirectSpeed 3) spec_fan)) ''power'' =
     Some (PInt 1)"
  using invoke_refines_spec [of Fan1C_default spec_fan "SetDirectSpeed 3"]
  by (simp add: spec_step_def fan_view_def spec_fan_def)

section \<open>A session is the fold of its steps\<close>

lemma run_online [simp]: "online (run self cs d) = online d"
  by (induction cs arbitrary: d) simp_all

lemma run_dom: "dom (store (run self cs d)) = dom (store d)"
  by (induction cs arbitrary: d) simp_all

lemma run_view:
  "mapping_ok (mapping self) \<Longrightarrow> online d \<Longrightarrow>
     fan_view (mapping self) (run self cs d) = fold spec_step cs (fan_view (mapping self) d)"
  by (induction cs arbitrary: d) (simp_all add: invoke_sim_view)

lemma run_append: "run self (cs @ cs') d = run self cs' (run self cs d)"
  by (induction cs arbitrary: d) simp_all

text \<open>
  C16. Refinement, sessions. The view after a sequence of calls is the fold of
  the abstract steps over the view before, whatever the calls and their order;
  rejected calls in the sequence are skipped without disturbing the others.
\<close>

theorem run_refines_spec:
  assumes "mapping_ok (mapping self)" and "online d"
  shows "fan_view (mapping self) (run self cs d) =
     fold spec_step cs (fan_view (mapping self) d)"
  using assms by (rule run_view)

theorem run_refines_spec_witness:
  "mapping_ok (mapping Fan1C_default) \<and> online spec_fan \<and>
   fan_view (mapping Fan1C_default)
     (run Fan1C_default [SetDirectSpeed 3, SetDirectSpeed 7, Off] spec_fan) ''fan_level'' =
     Some (PInt 3) \<and>
   fan_view (mapping Fan1C_default)
     (run Fan1C_default [SetDirectSpeed 3, SetDirectSpeed 7, Off] spec_fan) ''power'' =
     Some (PBool False)"
  using run_refines_spec
    [of Fan1C_default spec_fan "[SetDirectSpeed 3, SetDirectSpeed 7, Off]"]
  by (simp add: spec_step_def fan_view_def spec_fan_def)

section \<open>A status query returns the view\<close>

lemma entry_value_reply:
  "entry_value (entry_reply st e) = raw_value (st (siid (snd e), piid (snd e)))"
  by (simp add: entry_value_def entry_reply_def entry_request_def not_found_def
      split: option.split)

lemma snapshot_items_replies:
  assumes "distinct (mapping_names m)"
  shows "snapshot_items (mapping_names m) (map (entry_reply (store d)) m) =
     view_items (mapping_names m) (fan_view m d)"
proof -
  have "snapshot_items (mapping_names m) (map (entry_reply (store d)) m) =
     map (\<lambda>e. (PStr (fst e), raw_value (store d (siid (snd e), piid (snd e))))) m"
    by (simp add: snapshot_items_def mapping_names_def zip_map_map zip_same_conv_map
        entry_value_reply)
  also have "\<dots> = map (\<lambda>e. (PStr (fst e), raw_value (fan_view m d (fst e)))) m"
    using assms by (intro map_cong refl) (auto simp: fan_view_entry)
  finally show ?thesis
    by (simp add: view_items_def mapping_names_def comp_def)
qed

lemma dict_get_view_items:
  "dict_get (view_items ns s) (PStr n) =
     (if n \<in> set ns then Inr (raw_value (s n)) else Inl (KeyError (PStr n)))"
  by (induction ns) (auto simp: view_items_def)

lemma view_items_upd:
  "distinct ns \<Longrightarrow> n \<in> set ns \<Longrightarrow>
     view_items ns (s(n := x)) = dict_set (view_items ns s) (PStr n) (raw_value x)"
proof (induction ns)
  case Nil
  then show ?case by simp
next
  case (Cons a ns)
  show ?case
  proof (cases "a = n")
    case True
    with Cons.prems have "n \<notin> set ns" by simp
    then have "view_items ns (s(n := x)) = view_items ns s"
      by (simp add: view_items_def)
    with True show ?thesis by (simp add: view_items_def)
  next
    case False
    with Cons show ?thesis by (simp add: view_items_def)
  qed
qed

lemma status_sim:
  assumes "mapping_ok (mapping self)" and "online d"
  shows "status sim_transport self d =
     (Inr \<lparr>data = view_items (mapping_names (mapping self)) (fan_view (mapping self) d)\<rparr>,
      d\<lparr>sent := sent d @ [GetProperties (map entry_request (mapping self))]\<rparr>)"
proof -
  from assms(2)
  have "get_properties_for_mapping sim_transport (mapping self) d =
     (Inr (map (entry_reply (store d)) (mapping self)),
      d\<lparr>sent := sent d @ [GetProperties (map entry_request (mapping self))]\<rparr>)"
    by (simp add: sim_get_online)
  from status_of_contract [OF sim_transport_ok assms(1) this] assms(1)
  show ?thesis
    by (simp add: snapshot_items_replies mapping_okD)
qed

lemma status_sim_failed:
  assumes "mapping_ok (mapping self)" and "online d" and "map_of (mapping self) n = Some a"
  shows "fst (status sim_transport self (d\<lparr>store := (store d)((siid a, piid a) := None)\<rparr>)) =
     map_result (\<lambda>st. \<lparr>data = dict_set (data st) (PStr n) PNone\<rparr>)
       (fst (status sim_transport self d))"
proof -
  from assms(3) have "n \<in> set (mapping_names (mapping self))"
    by (auto simp: mapping_names_def dest: map_of_eq_Some_fst)
  with assms show ?thesis
    by (simp add: status_sim fan_view_store_upd view_items_upd mapping_okD)
qed

text \<open>
  C32. Partial failure is local. When the device stops reporting one mapped
  property, the status query returns the same dictionary with \<open>None\<close> under
  that property's name: the same keys in the same order, every other value
  unchanged, and no exception.
\<close>

theorem status_failed_property_local:
  assumes "mapping_ok (mapping self)" and "online d" and "map_of (mapping self) n = Some a"
  shows "fst (status sim_transport self (d\<lparr>store := (store d)((siid a, piid a) := None)\<rparr>)) =
     map_result (\<lambda>st. \<lparr>data = dict_set (data st) (PStr n) PNone\<rparr>)
       (fst (status sim_transport self d))"
  using assms by (rule status_sim_failed)

theorem status_failed_property_local_witness:
  "mapping_ok (mapping Fan1C_default) \<and> online spec_fan \<and>
   map_of (mapping Fan1C_default) ''light'' = Some \<lparr>siid = 2, piid = 12\<rparr> \<and>
   fst (status sim_transport Fan1C_default
     (spec_fan\<lparr>store := (store spec_fan)((2, 12) := None)\<rparr>)) =
     Inr \<lparr>data =
        [(PStr ''power'', PInt 1), (PStr ''fan_level'', PInt 2), (PStr ''child_lock'', PInt 1),
         (PStr ''swing_mode'', PInt 0), (PStr ''power_off_time'', PInt 120),
         (PStr ''buzzer'', PInt 0), (PStr ''light'', PNone), (PStr ''mode'', PInt 1)]\<rparr>"
  using status_failed_property_local
    [of Fan1C_default spec_fan "''light''" "\<lparr>siid = 2, piid = 12\<rparr>"]
  by (simp add: status_sim view_items_def mapping_names_MAPPING fan_view_def spec_fan_def)

lemma status_after_invoke_sim:
  assumes "mapping_ok (mapping self)" and "online d"
  shows "fst (status sim_transport self (snd (invoke sim_transport self c d))) =
     Inr \<lparr>data = view_items (mapping_names (mapping self))
       (spec_step c (fan_view (mapping self) d))\<rparr>"
  using assms by (simp add: status_sim invoke_sim_view)

section \<open>The order of calls\<close>

lemma spec_step_idem: "spec_step c (spec_step c s) = spec_step c s"
  by (auto simp: spec_step_def split: option.splits)

lemma spec_step_last_wins:
  "target c = target c' \<Longrightarrow> spec_write c' \<noteq> None \<Longrightarrow>
     spec_step c' (spec_step c s) = spec_step c' s"
  by (auto simp: spec_step_def target_def fun_eq_iff split: option.splits)

lemma spec_step_commute:
  "target c \<noteq> target c' \<Longrightarrow> spec_step c (spec_step c' s) = spec_step c' (spec_step c s)"
  by (auto simp: spec_step_def target_def fun_eq_iff split: option.splits)

lemma status_after_run:
  assumes "mapping_ok (mapping self)" and "online d"
  shows "fst (status sim_transport self (run self cs d)) =
     Inr \<lparr>data = view_items (mapping_names (mapping self))
       (fold spec_step cs (fan_view (mapping self) d))\<rparr>"
  using assms by (simp add: status_sim run_view)

text \<open>
  C27. What a status query can tell about the order of calls. After any session,
  making a call twice reads the same as making it once; of two accepted calls on
  the same attribute only the later one shows; and two calls on different
  attributes, or of which one is rejected, read the same in either order.
\<close>

theorem run_order_laws:
  assumes "mapping_ok (mapping self)" and "online d"
  shows "fst (status sim_transport self (run self (cs @ [c, c]) d)) =
       fst (status sim_transport self (run self (cs @ [c]) d)) \<and>
     (target c = target c' \<and> spec_write c' \<noteq> None \<longrightarrow>
       fst (status sim_transport self (run self (cs @ [c, c']) d)) =
       fst (status sim_transport self (run self (cs @ [c']) d))) \<and>
     (target c \<noteq> target c' \<longrightarrow>
       fst (status sim_transport self (run self (cs @ [c, c']) d)) =
       fst (status sim_transport self (run self (cs @ [c', c]) d)))"
  using assms
  by (simp add: status_after_run spec_step_idem spec_step_last_wins spec_step_commute)

theorem run_order_laws_witness:
  "mapping_ok (mapping Fan1C_default) \<and> online spec_fan \<and>
   target (SetDirectSpeed 1) = target (SetDirectSpeed 3) \<and>
   spec_write (SetDirectSpeed 3) \<noteq> None \<and>
   fst (status sim_transport Fan1C_default
     (run Fan1C_default ([Off] @ [SetDirectSpeed 1, SetDirectSpeed 3]) spec_fan)) =
   fst (status sim_transport Fan1C_default
     (run Fan1C_default ([Off] @ [SetDirectSpeed 3]) spec_fan))"
  using run_order_laws
    [of Fan1C_default spec_fan "[Off]" "SetDirectSpeed 1" "SetDirectSpeed 3"]
  by (simp add: target_def spec_fan_def)

section \<open>Requests sent\<close>

lemma sent_invoke_sim:
  "length (sent (snd (invoke sim_transport self c d))) =
     length (sent d) +
       (case spec_write c of
          None \<Rightarrow> 0
        | Some (n, v) \<Rightarrow> if online d \<and> map_of (mapping self) n \<noteq> None then 1 else 0)"
  by (auto simp: invoke_sim_snd sim_set_sent split: option.split)

section \<open>The fan of the source\<close>

text \<open>
  The facts above at the object the constructor builds, whose table is \<open>MAPPING\<close>:
  the view reads the eight addresses of the table, and a status query returns
  them under the eight names.
\<close>

lemma fan_view_MAPPING:
  "fan_view MAPPING d ''power'' = store d (2, 1)"
  "fan_view MAPPING d ''fan_level'' = store d (2, 2)"
  "fan_view MAPPING d ''child_lock'' = store d (3, 1)"
  "fan_view MAPPING d ''swing_mode'' = store d (2, 3)"
  "fan_view MAPPING d ''power_off_time'' = store d (2, 10)"
  "fan_view MAPPING d ''buzzer'' = store d (2, 11)"
  "fan_view MAPPING d ''light'' = store d (2, 12)"
  "fan_view MAPPING d ''mode'' = store d (2, 7)"
  by (simp_all add: fan_view_def)

lemma status_default_sim:
  "online d \<Longrightarrow> fst (status sim_transport Fan1C_default d) =
     Inr \<lparr>data = view_items (mapping_names MAPPING) (fan_view MAPPING d)\<rparr>"
  by (simp add: status_sim)

lemma status_after_default:
  "online d \<Longrightarrow>
     fst (status sim_transport Fan1C_default (snd (invoke sim_transport Fan1C_default c d))) =
     Inr \<lparr>data = view_items (mapping_names MAPPING) (spec_step c (fan_view MAPPING d))\<rparr>"
  using status_after_invoke_sim [of Fan1C_default d c] by simp

lemmas view_simps = accessor_defs dict_get_view_items mapping_names_MAPPING fan_view_MAPPING

end
