(* ===== verification/Fan_Session.thy ===== *)
theory Fan_Session
  imports Fan_Refinement "HOL-Library.Sublist"
begin

text \<open>
  Sessions: everything a client can do with one adapter and one fan, in any order.

  An \<open>operation\<close> is a status query or a call of a setter; \<open>perform\<close> is its effect
  on the simulated fan, whether it returns or raises. \<open>reachable self d0\<close> is the set
  of device states a client can produce from \<open>d0\<close>, as an inductive predicate; the
  invariants are proved by rule induction over it.

  \<open>device_ok\<close> is the domain of the two validated attributes in the data model of
  the specification: the speed level is 1, 2 or 3 and the countdown is not
  negative. The validation in \<open>set_direct_speed\<close> and \<open>delay_off\<close> is what keeps
  it, for calls whose arguments have the annotated types.

  \<open>reachable_raw\<close> is the larger set of states of a client that also calls the
  setters with values of any type (\<open>Untyped\<close>); \<open>device_eq_ok\<close> is what remains
  of the domain there: a speed level equal to 1, 2 or 3 and a countdown not below
  0, by Python's \<open>==\<close> and \<open><\<close>.

  \<open>sends_request\<close> says which operations reach the device: a status query, and a
  call the operation table accepts for an attribute of the table. The session
  theorems count the requests with it, and show that no session takes away the
  possibility of a later write.
\<close>

section \<open>Operations and reachable states\<close>

datatype operation = Query | Call call

fun perform :: "Fan1C \<Rightarrow> operation \<Rightarrow> fan_device \<Rightarrow> fan_device" where
  "perform self Query d = snd (status sim_transport self d)"
| "perform self (Call c) d = snd (invoke sim_transport self c d)"

inductive reachable :: "Fan1C \<Rightarrow> fan_device \<Rightarrow> fan_device \<Rightarrow> bool" for self d0 where
  start: "reachable self d0 d0"
| step: "reachable self d0 d \<Longrightarrow> reachable self d0 (perform self op d)"

code_pred reachable .

definition level_ok :: "pyval option \<Rightarrow> bool" where
  "level_ok x = (case x of None \<Rightarrow> True | Some (PInt i) \<Rightarrow> i \<in> {1, 2, 3} | Some v \<Rightarrow> False)"

definition countdown_ok :: "pyval option \<Rightarrow> bool" where
  "countdown_ok x = (case x of None \<Rightarrow> True | Some (PInt i) \<Rightarrow> 0 \<le> i | Some v \<Rightarrow> False)"

definition device_ok :: "fan_device \<Rightarrow> bool" where
  "device_ok d \<longleftrightarrow> level_ok (store d (2, 2)) \<and> countdown_ok (store d (2, 10))"

datatype raw_operation = Typed operation | Untyped setter pyval

fun perform_raw :: "Fan1C \<Rightarrow> raw_operation \<Rightarrow> fan_device \<Rightarrow> fan_device" where
  "perform_raw self (Typed op) d = perform self op d"
| "perform_raw self (Untyped m v) d = snd (apply_setter sim_transport self m v d)"

inductive reachable_raw :: "Fan1C \<Rightarrow> fan_device \<Rightarrow> fan_device \<Rightarrow> bool" for self d0 where
  raw_start: "reachable_raw self d0 d0"
| raw_step: "reachable_raw self d0 d \<Longrightarrow> reachable_raw self d0 (perform_raw self op d)"

code_pred reachable_raw .

definition level_eq_ok :: "pyval option \<Rightarrow> bool" where
  "level_eq_ok x = (case x of None \<Rightarrow> True | Some v \<Rightarrow> py_in v [PInt 1, PInt 2, PInt 3])"

definition countdown_eq_ok :: "pyval option \<Rightarrow> bool" where
  "countdown_eq_ok x = (case x of None \<Rightarrow> True | Some v \<Rightarrow> py_less v 0 = Inr False)"

definition device_eq_ok :: "fan_device \<Rightarrow> bool" where
  "device_eq_ok d \<longleftrightarrow> level_eq_ok (store d (2, 2)) \<and> countdown_eq_ok (store d (2, 10))"

definition sends_request :: "Fan1C \<Rightarrow> operation \<Rightarrow> bool" where
  "sends_request self op =
     (case op of
        Query \<Rightarrow> True
      | Call c \<Rightarrow>
          (case spec_write c of None \<Rightarrow> False | Some (n, v) \<Rightarrow> map_of (mapping self) n \<noteq> None))"

lemmas [model_defs] =
  level_ok_def countdown_ok_def device_ok_def sends_request_def level_eq_ok_def
  countdown_eq_ok_def device_eq_ok_def

section \<open>One operation\<close>

lemma status_sim_frame [simp]:
  "store (snd (status sim_transport self d)) = store d"
  "online (snd (status sim_transport self d)) = online d"
  by (simp_all add: status_snd)

lemma perform_online [simp]: "online (perform self op d) = online d"
  by (cases op) simp_all

lemma perform_dom [simp]: "dom (store (perform self op d)) = dom (store d)"
  by (cases op) simp_all

lemma sent_sim_set: "prefix (sent d) (sent (snd (sim_set m n v d)))"
  by (simp add: sim_set_def Let_def split: option.split)

lemma sent_sim_get: "prefix (sent d) (sent (snd (sim_get m d)))"
  by (simp add: sim_get_def)

lemma sent_perform: "prefix (sent d) (sent (perform self op d))"
  by (cases op) (simp_all add: status_snd sent_sim_get invoke_sim_snd sent_sim_set split: option.split)

lemma length_sent_perform:
  "length (sent (perform self op d)) =
     (if online d \<and> sends_request self op then Suc (length (sent d)) else length (sent d))"
  by (cases op)
    (auto simp: sends_request_def status_snd sim_get_def invoke_sim_snd sim_set_sent
      split: option.split)

lemma length_sent_fold:
  "length (sent (fold (perform self) ops d)) =
     length (sent d) + (if online d then length (filter (sends_request self) ops) else 0)"
  by (induction ops arbitrary: d) (simp_all add: length_sent_perform)

lemma sends_request_default:
  "sends_request Fan1C_default op = (case op of Query \<Rightarrow> True | Call c \<Rightarrow> spec_write c \<noteq> None)"
  by (auto simp: sends_request_def dest: spec_write_mapped split: operation.split option.split)

lemma sim_set_offline: "\<not> online d \<Longrightarrow> snd (sim_set m n v d) = d"
  by (simp add: sim_set_def split: option.split)

lemma fan_view_sim_set_any:
  assumes "mapping_ok m"
  shows "fan_view m (snd (sim_set m n v d)) =
     (if online d \<and> fan_view m d n \<noteq> None then (fan_view m d)(n \<mapsto> v) else fan_view m d)"
  using assms by (cases "online d") (simp_all add: fan_view_sim_set sim_set_offline)

lemma perform_offline: "\<not> online d \<Longrightarrow> perform self op d = d"
  by (cases op)
    (simp_all add: status_snd sim_get_def invoke_sim_snd sim_set_offline split: option.split)

lemma store_invoke_default:
  "store (snd (invoke sim_transport Fan1C_default c d)) (2, 2) =
     (case c of
        SetDirectSpeed s \<Rightarrow>
          if s \<in> {1, 2, 3} \<and> online d \<and> store d (2, 2) \<noteq> None then Some (PInt s)
          else store d (2, 2)
      | _ \<Rightarrow> store d (2, 2))"
  "store (snd (invoke sim_transport Fan1C_default c d)) (2, 10) =
     (case c of
        DelayOff s \<Rightarrow>
          if 0 \<le> s \<and> online d \<and> store d (2, 10) \<noteq> None then Some (PInt s)
          else store d (2, 10)
      | _ \<Rightarrow> store d (2, 10))"
  by (auto simp: invoke_sim_snd store_sim_set split: call.split)

lemma device_ok_perform: "device_ok d \<Longrightarrow> device_ok (perform Fan1C_default op d)"
  by (cases op)
    (auto simp: device_ok_def store_invoke_default level_ok_def countdown_ok_def
      split: call.split)

lemma apply_setter_snd:
  "snd (apply_setter sim_transport self m v d) =
     (case raw_write m v of
        None \<Rightarrow> d
      | Some (n, x) \<Rightarrow> snd (sim_set (mapping self) n x d))"
proof (cases "raw_write m v")
  case None
  from apply_setter_rejected [OF this, of sim_transport self d] None show ?thesis
    by auto
next
  case (Some nx)
  then show ?thesis
    by (cases nx) (simp add: apply_setter_forward)
qed

lemma store_apply_setter:
  "store (snd (apply_setter sim_transport Fan1C_default m v d)) (2, 2) =
     (if m = Set_direct_speed \<and> py_in v [PInt 1, PInt 2, PInt 3] \<and> online d \<and>
         store d (2, 2) \<noteq> None
      then Some v else store d (2, 2))"
  "store (snd (apply_setter sim_transport Fan1C_default m v d)) (2, 10) =
     (if m = Delay_off \<and> py_less v 0 = Inr False \<and> online d \<and> store d (2, 10) \<noteq> None
      then Some v else store d (2, 10))"
  unfolding apply_setter_snd by (cases m; simp add: store_sim_set)+

lemma device_eq_ok_apply:
  "device_eq_ok d \<Longrightarrow> device_eq_ok (snd (apply_setter sim_transport Fan1C_default m v d))"
  unfolding apply_setter_snd
  by (cases m)
    (auto simp: device_eq_ok_def level_eq_ok_def countdown_eq_ok_def store_sim_set
      split: if_splits)

lemma device_eq_ok_perform: "device_eq_ok d \<Longrightarrow> device_eq_ok (perform Fan1C_default op d)"
  by (cases op)
    (auto simp: device_eq_ok_def store_invoke_default level_eq_ok_def countdown_eq_ok_def
      split: call.split)

lemma device_ok_eq_ok: "device_ok d \<Longrightarrow> device_eq_ok d"
  by (auto simp: device_ok_def device_eq_ok_def level_ok_def level_eq_ok_def countdown_ok_def
      countdown_eq_ok_def split: option.splits pyval.splits)

lemma perform_raw_online [simp]: "online (perform_raw self op d) = online d"
  by (cases op) (simp_all add: apply_setter_snd split: option.split)

lemma fold_perform_raw_online [simp]: "online (fold (perform_raw self) ops d) = online d"
  by (induction ops arbitrary: d) simp_all

lemma reachable_raw_typed: "reachable self d0 d \<Longrightarrow> reachable_raw self d0 d"
proof (induction rule: reachable.induct)
  case start
  show ?case by (rule raw_start)
next
  case (step d op)
  from raw_step [OF step.IH, of "Typed op"] show ?case by simp
qed

section \<open>Invariants of sessions\<close>

lemma reachable_frame:
  "reachable self d0 d \<Longrightarrow>
     dom (store d) = dom (store d0) \<and> online d = online d0 \<and> prefix (sent d0) (sent d)"
proof (induction rule: reachable.induct)
  case start
  show ?case by simp
next
  case (step d op)
  with sent_perform [of d self op] show ?case
    by (auto intro: prefix_order.trans)
qed

lemma reachable_device_ok:
  "reachable Fan1C_default d0 d \<Longrightarrow> device_ok d0 \<Longrightarrow> device_ok d"
  by (induction rule: reachable.induct) (auto intro: device_ok_perform)

lemma reachable_offline: "reachable self d0 d \<Longrightarrow> \<not> online d0 \<Longrightarrow> d = d0"
proof (induction rule: reachable.induct)
  case start
  show ?case by simp
next
  case (step d op)
  then show ?case by (simp add: perform_offline)
qed

lemma reachable_fold: "reachable self d0 (fold (perform self) ops d0)"
proof (induction ops rule: rev_induct)
  case Nil
  show ?case by (simp add: reachable.start)
next
  case (snoc op ops)
  then show ?case by (simp add: reachable.step)
qed

lemma reachable_iff_fold: "reachable self d0 d \<longleftrightarrow> (\<exists>ops. d = fold (perform self) ops d0)"
proof
  assume "reachable self d0 d"
  then show "\<exists>ops. d = fold (perform self) ops d0"
  proof (induction rule: reachable.induct)
    case start
    have "d0 = fold (perform self) [] d0" by simp
    then show ?case by blast
  next
    case (step d op)
    then obtain ops where "d = fold (perform self) ops d0" by blast
    then have "perform self op d = fold (perform self) (ops @ [op]) d0" by simp
    then show ?case by blast
  qed
next
  assume "\<exists>ops. d = fold (perform self) ops d0"
  then show "reachable self d0 d" by (auto intro: reachable_fold)
qed

lemma run_fold: "run self cs d = fold (perform self) (map Call cs) d"
  by (induction cs arbitrary: d) simp_all

lemma reachable_run: "reachable self d0 (run self cs d0)"
  by (simp add: run_fold reachable_fold)

lemma fan_view_status [simp]: "fan_view m (snd (status sim_transport self d)) = fan_view m d"
  by (rule fan_view_store) simp

lemma reachable_view:
  assumes "mapping_ok (mapping self)" and "online d0" and "reachable self d0 d"
  shows "\<exists>cs. fan_view (mapping self) d = fold spec_step cs (fan_view (mapping self) d0)"
  using assms(3)
proof (induction rule: reachable.induct)
  case start
  have "fan_view (mapping self) d0 = fold spec_step [] (fan_view (mapping self) d0)"
    by simp
  then show ?case by blast
next
  case (step d op)
  then obtain cs where cs: "fan_view (mapping self) d = fold spec_step cs (fan_view (mapping self) d0)"
    by blast
  from step.hyps assms(2) have "online d"
    by (simp add: reachable_frame)
  with assms(1) cs
  have "fan_view (mapping self) (perform self op d) =
     fold spec_step (cs @ (case op of Query \<Rightarrow> [] | Call c \<Rightarrow> [c])) (fan_view (mapping self) d0)"
    by (cases op) (simp_all add: invoke_sim_view)
  then show ?case by blast
qed

lemma fan_view_None_iff:
  assumes "dom (store d') = dom (store d)"
  shows "fan_view m d' n = None \<longleftrightarrow> fan_view m d n = None"
proof (cases "map_of m n")
  case None
  then show ?thesis by (simp add: fan_view_def)
next
  case (Some a)
  from assms have "store d' (siid a, piid a) = None \<longleftrightarrow> store d (siid a, piid a) = None"
    by (metis domIff)
  with Some show ?thesis
    by (simp add: fan_view_def)
qed

lemma fan_view_mapped: "fan_view m d n = Some x \<Longrightarrow> n \<in> set (mapping_names m)"
  by (cases "map_of m n")
    (auto simp: fan_view_def mapping_names_def intro: rev_image_eqI dest!: map_of_SomeD)

section \<open>The theorems on sessions\<close>

text \<open>
  C6. The adapter never drives the fan out of the domain of the data model. From
  a fan whose speed level is 1, 2 or 3 and whose countdown is not negative, no
  sequence of status queries and setter calls, valid or rejected, in any order,
  reaches a state where the speed level is another value or the countdown is
  negative.
\<close>

theorem session_keeps_device_ok:
  "reachable Fan1C_default d0 d \<Longrightarrow> device_ok d0 \<Longrightarrow> device_ok d"
  by (induction rule: reachable.induct) (auto intro: device_ok_perform)

theorem session_keeps_device_ok_witness:
  "reachable Fan1C_default spec_fan
     (run Fan1C_default [SetDirectSpeed 7, DelayOff (- 5), SetDirectSpeed 3] spec_fan) \<and>
   device_ok spec_fan \<and>
   device_ok (run Fan1C_default [SetDirectSpeed 7, DelayOff (- 5), SetDirectSpeed 3] spec_fan)"
proof -
  have r: "reachable Fan1C_default spec_fan
     (run Fan1C_default [SetDirectSpeed 7, DelayOff (- 5), SetDirectSpeed 3] spec_fan)"
    by (rule reachable_run)
  have "device_ok spec_fan"
    by (simp add: device_ok_def level_ok_def countdown_ok_def spec_fan_def)
  with session_keeps_device_ok [OF r] r show ?thesis by simp
qed

text \<open>
  C30. Which calls leave the domain. The validation keeps the domain for typed
  arguments; for a caller that passes any value, on a fan that answers, is in the
  domain and has both validated properties, a setter call leaves the domain in
  exactly three cases: \<open>set_direct_speed(True)\<close>, which passes the membership
  test because \<open>True\<close> equals 1, and \<open>delay_off(True)\<close> and \<open>delay_off(False)\<close>,
  which pass the comparison with 0. Each is forwarded as it is, so that the fan
  holds a boolean where the data model has an integer. Every other call, with
  whatever value, stays inside.
\<close>

theorem untyped_calls_leaving_domain:
  assumes "online d" and "device_ok d" and "store d (2, 2) \<noteq> None" and "store d (2, 10) \<noteq> None"
  shows "device_ok (perform_raw Fan1C_default (Untyped m v) d) \<longleftrightarrow>
     \<not> (m = Set_direct_speed \<and> v = PBool True) \<and> \<not> (m = Delay_off \<and> (\<exists>b. v = PBool b))"
  using assms
  by (cases v)
    (auto simp: device_ok_def level_ok_def countdown_ok_def store_apply_setter
      split: if_splits)

theorem untyped_calls_leaving_domain_witness:
  "online spec_fan \<and> device_ok spec_fan \<and> store spec_fan (2, 2) \<noteq> None \<and>
   store spec_fan (2, 10) \<noteq> None \<and>
   \<not> device_ok (perform_raw Fan1C_default (Untyped Set_direct_speed (PBool True)) spec_fan) \<and>
   \<not> device_ok (perform_raw Fan1C_default (Untyped Delay_off (PBool False)) spec_fan) \<and>
   device_ok (perform_raw Fan1C_default (Untyped Set_buzzer (PStr ''off'')) spec_fan) \<and>
   device_ok (perform_raw Fan1C_default (Untyped Set_direct_speed (PStr ''2'')) spec_fan)"
proof -
  have ok: "online spec_fan" "device_ok spec_fan" "store spec_fan (2, 2) \<noteq> None"
    "store spec_fan (2, 10) \<noteq> None"
    by (simp_all add: device_ok_def level_ok_def countdown_ok_def spec_fan_def)
  from untyped_calls_leaving_domain [OF ok, of Set_direct_speed "PBool True"]
    untyped_calls_leaving_domain [OF ok, of Delay_off "PBool False"]
    untyped_calls_leaving_domain [OF ok, of Set_buzzer "PStr ''off''"]
    untyped_calls_leaving_domain [OF ok, of Set_direct_speed "PStr ''2''"] ok
  show ?thesis by auto
qed

text \<open>
  C7. What the validation keeps for every caller. From a fan whose speed level
  equals 1, 2 or 3 and whose countdown is not below 0, no sequence of status
  queries, typed calls and setter calls with values of any type reaches a state
  where the speed level equals none of 1, 2, 3 or the countdown is below 0 or
  cannot be compared with 0. A boolean can get into either place, a string or
  \<open>None\<close> cannot. In the instance below an untyped call leaves the typed domain
  and stays inside this one.
\<close>

theorem raw_session_keeps_domain:
  "reachable_raw Fan1C_default d0 d \<Longrightarrow> device_eq_ok d0 \<Longrightarrow> device_eq_ok d"
proof (induction rule: reachable_raw.induct)
  case raw_start
  then show ?case by simp
next
  case (raw_step d op)
  then show ?case
    by (cases op) (simp_all add: device_eq_ok_apply device_eq_ok_perform)
qed

theorem raw_session_keeps_domain_witness:
  "reachable_raw Fan1C_default spec_fan
     (perform_raw Fan1C_default (Untyped Delay_off (PBool True)) spec_fan) \<and>
   device_eq_ok spec_fan \<and>
   device_eq_ok (perform_raw Fan1C_default (Untyped Delay_off (PBool True)) spec_fan) \<and>
   \<not> device_ok (perform_raw Fan1C_default (Untyped Delay_off (PBool True)) spec_fan)"
proof -
  have r: "reachable_raw Fan1C_default spec_fan
     (perform_raw Fan1C_default (Untyped Delay_off (PBool True)) spec_fan)"
    by (rule raw_step) (rule raw_start)
  have ok: "device_eq_ok spec_fan"
    by (simp add: device_eq_ok_def level_eq_ok_def countdown_eq_ok_def spec_fan_def)
  have "\<not> device_ok (perform_raw Fan1C_default (Untyped Delay_off (PBool True)) spec_fan)"
    by (simp add: device_ok_def level_ok_def countdown_ok_def spec_fan_def delay_off_def
        action_simps store_sim_set)
  with raw_session_keeps_domain [OF r ok] r ok show ?thesis by simp
qed

section \<open>Requests and progress\<close>

text \<open>
  C29. The number of requests a session sends. On a reachable fan a session sends
  exactly one request per status query and per call that the operation table
  accepts for a mapped attribute, and none for a rejected call; on a fan that
  cannot be reached it records none. So a session of \<open>k\<close> operations adds at most
  \<open>k\<close> requests to the log, and as many as it has operations when all are accepted.
\<close>

theorem session_request_count:
  "length (sent (fold (perform self) ops d)) =
     length (sent d) + (if online d then length (filter (sends_request self) ops) else 0) \<and>
   length (sent (fold (perform self) ops d)) \<le> length (sent d) + length ops"
proof -
  have "length (filter (sends_request self) ops) \<le> length ops"
    by (rule length_filter_le)
  then show ?thesis
    by (simp add: length_sent_fold)
qed

text \<open>
  C28. No session blocks a later write. Whatever a client did before, valid or
  rejected, a call that the operation table accepts for an attribute the fan has
  takes effect: the state after it is reachable and shows the written value, and
  the status query made next reports it.
\<close>

theorem session_write_possible:
  assumes "mapping_ok (mapping self)" and "online d0" and "reachable self d0 d"
    and "spec_write c = Some (n, v)" and "fan_view (mapping self) d0 n \<noteq> None"
  shows "reachable self d0 (perform self (Call c) d) \<and>
     fan_view (mapping self) (perform self (Call c) d) n = Some v \<and>
     bind_result (fst (status sim_transport self (perform self (Call c) d)))
       (\<lambda>st. dict_get (data st) (PStr n)) = Inr v"
proof -
  from assms(2,3) have d: "online d" "dom (store d) = dom (store d0)"
    by (simp_all add: reachable_frame)
  with assms(5) fan_view_None_iff [of d d0 "mapping self" n]
  have "fan_view (mapping self) d n \<noteq> None"
    by simp
  with assms(1,4) d reachable.step [OF assms(3), of "Call c"] show ?thesis
    by (auto simp: invoke_sim_view spec_step_def status_sim dict_get_view_items
        dest: fan_view_mapped)
qed

theorem session_write_possible_witness:
  "mapping_ok (mapping Fan1C_default) \<and> online spec_fan \<and>
   reachable Fan1C_default spec_fan (run Fan1C_default [SetDirectSpeed 7, Off] spec_fan) \<and>
   spec_write (SetDirectSpeed 3) = Some (''fan_level'', PInt 3) \<and>
   fan_view (mapping Fan1C_default) spec_fan ''fan_level'' \<noteq> None \<and>
   fan_view (mapping Fan1C_default)
     (perform Fan1C_default (Call (SetDirectSpeed 3))
        (run Fan1C_default [SetDirectSpeed 7, Off] spec_fan)) ''fan_level'' = Some (PInt 3)"
proof -
  have r: "reachable Fan1C_default spec_fan (run Fan1C_default [SetDirectSpeed 7, Off] spec_fan)"
    by (rule reachable_run)
  have "online spec_fan" "fan_view (mapping Fan1C_default) spec_fan ''fan_level'' \<noteq> None"
    by (simp_all add: spec_fan_def fan_view_def)
  with session_write_possible [OF _ _ r, of "SetDirectSpeed 3" "''fan_level''" "PInt 3"] r
  show ?thesis by simp
qed

end
