(* ===== verification/Fan_Types.thy ===== *)
theory Fan_Types
  imports Fan_Session
begin

text \<open>
  The type annotations of \<open>fan_1c.py\<close>. Python does not enforce them, so they are
  claims of the source about itself: that a setter is called with a value of the
  class its parameter names, and that a property of \<open>FanStatus1C\<close> returns a
  value of the class after its arrow. This theory says when the claims hold.

  \<open>py_type\<close> are the classes of the values, \<open>issubclass\<close> is their subclass
  relation (\<open>bool\<close> is a subclass of \<open>int\<close>) and \<open>isinstance\<close> is Python's test. \<open>parameter_type\<close> are the annotations of the
  setters' parameters and \<open>returns\<close> those of the properties that return a stored
  value unchanged. \<open>property_types\<close> is the typing of the device they induce: the
  class annotated for the property that returns a key, and \<open>int\<close> for the mode
  that \<open>set_natural_mode\<close> encodes. A device is typed (\<open>device_typed\<close>) when it
  has every property of the table with a value of its class.

  The development follows the usual two steps of a type soundness proof.
  Preservation: a well-typed operation, that is a query or a setter call on a
  value of the annotated class, takes a typed device to a typed device.
  Soundness: on a typed device every property of the status returns, with a value
  of its annotated class. The last section shows which setters rely on the
  annotation of their parameter and which enforce it themselves.
\<close>

section \<open>Classes and annotations\<close>

datatype py_type = TNone | TBool | TInt | TStr

fun type_of :: "pyval \<Rightarrow> py_type" where
  "type_of PNone = TNone"
| "type_of (PBool b) = TBool"
| "type_of (PInt i) = TInt"
| "type_of (PStr s) = TStr"

text \<open>
  The subclass relation on these classes: each class is a subclass of itself, and
  \<open>bool\<close> is a subclass of \<open>int\<close>. It is a partial order, and \<open>isinstance\<close> is
  membership in a class or one of its subclasses.
\<close>

definition issubclass :: "py_type \<Rightarrow> py_type \<Rightarrow> bool" where
  "issubclass S T \<longleftrightarrow> S = T \<or> (S = TBool \<and> T = TInt)"

instantiation py_type :: order
begin

definition less_eq_py_type :: "py_type \<Rightarrow> py_type \<Rightarrow> bool" where
  "S \<le> T \<longleftrightarrow> issubclass S T"

definition less_py_type :: "py_type \<Rightarrow> py_type \<Rightarrow> bool" where
  "S < T \<longleftrightarrow> issubclass S T \<and> S \<noteq> T"

instance
  by standard (auto simp: less_eq_py_type_def less_py_type_def issubclass_def)

end

definition isinstance :: "pyval \<Rightarrow> py_type \<Rightarrow> bool" where
  "isinstance v T \<longleftrightarrow> type_of v \<le> T"

fun parameter_type :: "setter \<Rightarrow> py_type" where
  "parameter_type Set_direct_speed = TInt"
| "parameter_type Set_oscillate = TBool"
| "parameter_type Set_buzzer = TBool"
| "parameter_type Set_child_lock = TBool"
| "parameter_type Set_natural_mode = TBool"
| "parameter_type Delay_off = TInt"

definition returns :: "((FanStatus1C \<Rightarrow> pyval result) \<times> py_type) list" where
  "returns =
     [(is_on, TBool), (speed, TInt), (oscillate, TBool), (delay_off_countdown, TInt),
      (led, TBool), (buzzer, TBool), (child_lock, TBool)]"

definition property_types :: "(string \<times> py_type) list" where
  "property_types =
     [(''power'', TBool), (''mode'', TInt), (''fan_level'', TInt), (''swing_mode'', TBool),
      (''power_off_time'', TInt), (''light'', TBool), (''buzzer'', TBool),
      (''child_lock'', TBool)]"

section \<open>Typed states, operations and results\<close>

definition view_typed :: "(string \<rightharpoonup> pyval) \<Rightarrow> bool" where
  "view_typed s =
     list_all (\<lambda>(n, T). case s n of None \<Rightarrow> False | Some v \<Rightarrow> isinstance v T) property_types"

definition device_typed :: "Fan1C \<Rightarrow> fan_device \<Rightarrow> bool" where
  "device_typed self d = view_typed (fan_view (mapping self) d)"

fun well_typed :: "raw_operation \<Rightarrow> bool" where
  "well_typed (Typed op) = True"
| "well_typed (Untyped m v) = isinstance v (parameter_type m)"

definition meets :: "py_type \<Rightarrow> pyval result \<Rightarrow> bool" where
  "meets T r = (case r of Inl e \<Rightarrow> False | Inr v \<Rightarrow> isinstance v T)"

definition status_typed :: "FanStatus1C \<Rightarrow> bool" where
  "status_typed st \<longleftrightarrow>
     list_all (\<lambda>(f, T). meets T (f st)) returns \<and> is_ok (power_state st) \<and> is_ok (mode st)"

text \<open>
  The fan of the specification's example with the values typed as its data model
  types them: booleans for power, oscillation, LED, buzzer and child lock.
\<close>

definition typed_fan :: fan_device where
  "typed_fan =
     \<lparr>store = map_of
        [((2, 1), PBool True), ((2, 7), PInt 1), ((2, 2), PInt 2), ((2, 3), PBool False),
         ((2, 10), PInt 120), ((2, 12), PBool True), ((2, 11), PBool False),
         ((3, 1), PBool True)],
      online = True, sent = []\<rparr>"

lemmas type_defs =
  less_eq_py_type_def issubclass_def isinstance_def returns_def property_types_def view_typed_def device_typed_def meets_def
  status_typed_def

lemmas [model_defs] = type_defs typed_fan_def

section \<open>Instances of classes\<close>

lemma isinstance_simps [simp]:
  "isinstance PNone T \<longleftrightarrow> T = TNone"
  "isinstance (PBool b) T \<longleftrightarrow> T = TBool \<or> T = TInt"
  "isinstance (PInt i) T \<longleftrightarrow> T = TInt"
  "isinstance (PStr s) T \<longleftrightarrow> T = TStr"
  by (auto simp: isinstance_def less_eq_py_type_def issubclass_def)

lemma isinstance_TBool: "isinstance v TBool \<longleftrightarrow> (\<exists>b. v = PBool b)"
  by (cases v) simp_all

lemma isinstance_TInt: "isinstance v TInt \<longleftrightarrow> py_int v \<noteq> None"
  by (cases v) simp_all

text \<open>An instance of a class is an instance of every class above it.\<close>

lemma isinstance_subclass: "S \<le> T \<Longrightarrow> isinstance v S \<Longrightarrow> isinstance v T"
  unfolding isinstance_def by (rule order_trans)

lemma TBool_le_TInt [simp]: "TBool \<le> TInt"
  by (simp add: less_eq_py_type_def issubclass_def)

section \<open>What a well-typed call writes\<close>

lemma property_types_simps:
  "map_of property_types ''power'' = Some TBool"
  "map_of property_types ''mode'' = Some TInt"
  "map_of property_types ''fan_level'' = Some TInt"
  "map_of property_types ''swing_mode'' = Some TBool"
  "map_of property_types ''power_off_time'' = Some TInt"
  "map_of property_types ''light'' = Some TBool"
  "map_of property_types ''buzzer'' = Some TBool"
  "map_of property_types ''child_lock'' = Some TBool"
  by (simp_all add: property_types_def)

lemma raw_write_types:
  assumes "raw_write m v = Some (n, x)" and "isinstance v (parameter_type m)"
  shows "\<exists>T. map_of property_types n = Some T \<and> isinstance x T"
  using assms by (cases m; cases v) (auto simp: property_types_simps split: if_splits)

lemma spec_write_types:
  assumes "spec_write c = Some (n, x)"
  shows "\<exists>T. map_of property_types n = Some T \<and> isinstance x T"
  using assms by (cases c) (auto simp: property_types_simps split: if_splits)

section \<open>Preservation\<close>

lemma view_typed_iff:
  "view_typed s \<longleftrightarrow>
     (\<forall>n T. map_of property_types n = Some T \<longrightarrow> (\<exists>v. s n = Some v \<and> isinstance v T))"
proof -
  have "distinct (map fst property_types)"
    by (simp add: property_types_def)
  then have "map_of property_types n = Some T \<longleftrightarrow> (n, T) \<in> set property_types" for n T
    by simp
  then show ?thesis
    unfolding view_typed_def list_all_iff case_option_False by fast
qed

lemma view_typed_upd_iff:
  "view_typed s \<Longrightarrow> map_of property_types n = Some T \<Longrightarrow>
     view_typed (s(n \<mapsto> x)) \<longleftrightarrow> isinstance x T"
  by (auto simp: view_typed_iff)

lemma view_typed_upd:
  "view_typed s \<Longrightarrow> map_of property_types n = Some T \<Longrightarrow> isinstance x T \<Longrightarrow>
     view_typed (s(n \<mapsto> x))"
  by (simp add: view_typed_upd_iff)

lemma device_typed_present:
  "device_typed self d \<Longrightarrow> map_of property_types n = Some T \<Longrightarrow>
     \<exists>v. fan_view (mapping self) d n = Some v \<and> isinstance v T"
  by (simp add: device_typed_def view_typed_iff)

lemma device_typed_write:
  assumes "mapping_ok (mapping self)" and "device_typed self d"
    and "map_of property_types n = Some T" and "isinstance x T"
  shows "device_typed self (snd (sim_set (mapping self) n x d))"
  using assms by (auto simp: device_typed_def fan_view_sim_set_any view_typed_upd)

lemma device_typed_perform_raw:
  assumes "mapping_ok (mapping self)" and "device_typed self d" and "well_typed op"
  shows "device_typed self (perform_raw self op d)"
proof (cases op)
  case (Typed op')
  show ?thesis
  proof (cases op')
    case Query
    with Typed assms(2) show ?thesis
      by (simp add: device_typed_def)
  next
    case (Call c)
    with Typed assms(1,2) show ?thesis
      by (auto simp: invoke_sim_snd device_typed_write dest: spec_write_types
          split: option.split)
  qed
next
  case (Untyped m v)
  with assms show ?thesis
    by (auto simp: apply_setter_snd device_typed_write dest: raw_write_types
        split: option.split)
qed

lemma device_typed_fold:
  assumes "mapping_ok (mapping self)"
  shows "device_typed self d \<Longrightarrow> list_all well_typed ops \<Longrightarrow>
     device_typed self (fold (perform_raw self) ops d)"
  using assms by (induction ops arbitrary: d) (simp_all add: device_typed_perform_raw)

lemma device_typed_typed_fan: "device_typed Fan1C_default typed_fan"
  by (simp add: device_typed_def view_typed_def property_types_def typed_fan_def
      fan_view_MAPPING)

text \<open>
  C11. Preservation. Over a well-formed table, a typed device stays typed under
  every sequence of well-typed operations: status queries, calls on arguments of
  the annotated classes (a boolean where an integer is annotated included),
  accepted or rejected, on a fan that answers or not. So the annotations of the
  setters and of the properties agree on every attribute: what a setter writes
  under a name is an instance of the class the property reading that name
  announces.
\<close>

theorem typed_calls_keep_types:
  assumes "mapping_ok (mapping self)" and "device_typed self d"
    and "list_all well_typed ops"
  shows "device_typed self (fold (perform_raw self) ops d)"
  using assms(2,3)
proof (induction ops arbitrary: d)
  case Nil
  then show ?case by simp
next
  case (Cons op ops)
  from Cons.prems have "device_typed self (perform_raw self op d)"
    by (simp add: device_typed_perform_raw assms(1))
  with Cons show ?case by simp
qed

theorem typed_calls_keep_types_witness:
  "mapping_ok (mapping Fan1C_default) \<and> device_typed Fan1C_default typed_fan \<and>
   list_all well_typed
     [Untyped Set_buzzer (PBool True), Untyped Delay_off (PBool True), Typed Query,
      Untyped Set_direct_speed (PInt 3), Typed (Call (SetNaturalMode False))] \<and>
   device_typed Fan1C_default
     (fold (perform_raw Fan1C_default)
        [Untyped Set_buzzer (PBool True), Untyped Delay_off (PBool True), Typed Query,
         Untyped Set_direct_speed (PInt 3), Typed (Call (SetNaturalMode False))] typed_fan)"
proof -
  have ops: "list_all well_typed
     [Untyped Set_buzzer (PBool True), Untyped Delay_off (PBool True), Typed Query,
      Untyped Set_direct_speed (PInt 3), Typed (Call (SetNaturalMode False))]"
    by simp
  have ok: "mapping_ok (mapping Fan1C_default)"
    by simp
  from typed_calls_keep_types [OF ok device_typed_typed_fan ops] ops ok device_typed_typed_fan
  show ?thesis by blast
qed

section \<open>Soundness\<close>

lemma status_typed_view:
  assumes "view_typed s" and "fst ` set property_types \<subseteq> set ns"
  shows "status_typed \<lparr>data = view_items ns s\<rparr>"
proof -
  from assms(1) have "\<exists>v. s n = Some v \<and> isinstance v T"
    if "map_of property_types n = Some T" for n T
    using that by (simp add: view_typed_iff)
  from this [of "''power''" TBool] this [of "''fan_level''" TInt]
    this [of "''swing_mode''" TBool] this [of "''power_off_time''" TInt]
    this [of "''light''" TBool] this [of "''buzzer''" TBool] this [of "''child_lock''" TBool]
    this [of "''mode''" TInt] assms(2)
  show ?thesis
    by (auto simp: status_typed_def returns_def meets_def accessor_defs dict_get_view_items
        property_types_simps property_types_def)
qed

lemma device_typed_names:
  assumes "device_typed self d"
  shows "fst ` set property_types \<subseteq> set (mapping_names (mapping self))"
proof
  fix n
  assume "n \<in> fst ` set property_types"
  then obtain T where "(n, T) \<in> set property_types" by auto
  with assms obtain v where "fan_view (mapping self) d n = Some v"
    by (auto simp: device_typed_def view_typed_def list_all_iff split: option.splits)
  then show "n \<in> set (mapping_names (mapping self))"
    by (rule fan_view_mapped)
qed

lemma status_typed_sim:
  assumes "mapping_ok (mapping self)" and "online d" and "device_typed self d"
  shows "\<exists>st. fst (status sim_transport self d) = Inr st \<and> status_typed st"
  using assms device_typed_names [OF assms(3)]
  by (simp add: status_sim status_typed_view device_typed_def)

text \<open>
  C12. Soundness. On a typed fan that answers, \<open>status\<close> returns, and every
  property of the result returns a value of the class its annotation names:
  \<open>bool\<close> for \<open>is_on\<close>, \<open>oscillate\<close>, \<open>led\<close>, \<open>buzzer\<close> and \<open>child_lock\<close>, \<open>int\<close> for
  \<open>speed\<close> and \<open>delay_off_countdown\<close>; \<open>power\<close> and \<open>mode\<close> return as well. With
  preservation this holds after every sequence of well-typed operations.
\<close>

theorem typed_status_meets_annotations:
  assumes "mapping_ok (mapping self)" and "online d" and "device_typed self d"
    and "list_all well_typed ops"
  shows "\<exists>st. fst (status sim_transport self (fold (perform_raw self) ops d)) = Inr st \<and>
     status_typed st"
proof -
  let ?d = "fold (perform_raw self) ops d"
  from assms have "device_typed self ?d"
    by (simp add: device_typed_fold)
  with assms(1,2) show ?thesis
    by (simp add: status_typed_sim)
qed

theorem typed_status_meets_annotations_witness:
  "mapping_ok (mapping Fan1C_default) \<and> online typed_fan \<and>
   device_typed Fan1C_default typed_fan \<and>
   list_all well_typed [Untyped Set_child_lock (PBool False), Untyped Delay_off (PInt 30)] \<and>
   (\<exists>st. fst (status sim_transport Fan1C_default
        (fold (perform_raw Fan1C_default)
           [Untyped Set_child_lock (PBool False), Untyped Delay_off (PInt 30)] typed_fan)) =
        Inr st \<and>
      status_typed st)"
proof -
  have ops: "list_all well_typed
      [Untyped Set_child_lock (PBool False), Untyped Delay_off (PInt 30)]"
    by simp
  have ok: "mapping_ok (mapping Fan1C_default)" "online typed_fan"
    by (simp_all add: typed_fan_def)
  from typed_status_meets_annotations [OF ok device_typed_typed_fan ops] ops ok
    device_typed_typed_fan
  show ?thesis by blast
qed

section \<open>Where the annotations are needed\<close>

lemma raw_write_property: "raw_write m v = Some (n, x) \<Longrightarrow> map_of property_types n \<noteq> None"
  by (cases m) (auto simp: property_types_simps split: if_splits)

lemma device_typed_untyped:
  assumes "mapping_ok (mapping self)" and "online d" and "device_typed self d"
  shows "device_typed self (perform_raw self (Untyped m v) d) \<longleftrightarrow>
     (\<forall>n x T. raw_write m v = Some (n, x) \<longrightarrow> map_of property_types n = Some T \<longrightarrow>
        isinstance x T)"
proof (cases "raw_write m v")
  case None
  with assms(3) show ?thesis
    by (simp add: apply_setter_snd)
next
  case (Some nx)
  obtain n x where nx: "nx = (n, x)" by (cases nx)
  with Some obtain T where T: "map_of property_types n = Some T"
    using raw_write_property [of m v n x] by auto
  with assms(3) have "fan_view (mapping self) d n \<noteq> None"
    by (auto simp: device_typed_def view_typed_iff)
  with assms Some nx T show ?thesis
    by (simp add: apply_setter_snd device_typed_def fan_view_sim_set_any view_typed_upd_iff)
qed

text \<open>
  C25. Which setters rely on their annotation. On a typed fan that answers, a call
  of \<open>set_oscillate\<close>, \<open>set_buzzer\<close> or \<open>set_child_lock\<close> leaves the fan typed
  exactly when the argument is a boolean: these three forward what they are
  given. The other three setters keep the fan typed on every argument:
  \<open>set_natural_mode\<close> encodes the truth value of its argument, and the tests of
  \<open>set_direct_speed\<close> and \<open>delay_off\<close> let only integers and booleans through.
\<close>

theorem forwarding_setters_need_annotation:
  assumes "mapping_ok (mapping self)" and "online d" and "device_typed self d"
  shows "device_typed self (perform_raw self (Untyped m v) d) \<longleftrightarrow>
     (m \<in> {Set_oscillate, Set_buzzer, Set_child_lock} \<longrightarrow> isinstance v TBool)"
  unfolding device_typed_untyped [OF assms]
  by (cases m; cases v) (auto simp: property_types_simps)

theorem forwarding_setters_need_annotation_witness:
  "mapping_ok (mapping Fan1C_default) \<and> online typed_fan \<and>
   device_typed Fan1C_default typed_fan \<and>
   \<not> device_typed Fan1C_default
       (perform_raw Fan1C_default (Untyped Set_buzzer (PInt 1)) typed_fan) \<and>
   device_typed Fan1C_default
       (perform_raw Fan1C_default (Untyped Set_direct_speed (PStr ''fast'')) typed_fan)"
  using forwarding_setters_need_annotation [of Fan1C_default typed_fan Set_buzzer "PInt 1"]
    forwarding_setters_need_annotation [of Fan1C_default typed_fan Set_direct_speed
      "PStr ''fast''"]
  by (simp add: device_typed_typed_fan) (simp add: typed_fan_def)

end
