(* ===== verification/Fan_Dispatch.thy ===== *)
theory Fan_Dispatch
  imports Fan_Cli Fan_Types
begin

text \<open>
  From the command line to the device. \<open>@command\<close> registers the method it
  decorates under the method's name, and \<open>click.argument\<close> names the keyword
  under which the parsed argument is passed to it. \<open>handlers\<close> is this
  registration, read off the source: which method each command calls, and
  \<open>parameter\<close> is the name each setter gives its parameter.

  \<open>dispatch\<close> calls the method of a command with the keyword arguments, as
  Python binds them: a method without parameters takes none, a setter takes its
  one parameter by name. \<open>None\<close> stands for a command line that does not reach
  a method (an unknown command, a keyword the method does not have).
  \<open>declared\<close> are the command lines the declarations admit: a command of the
  table with arguments of the declared names and types. A command-line session is
  a list of command lines, run in order by \<open>cli_run\<close> on the simulated fan.

  The lemmas connect the three descriptions of a setter in the source, the
  declaration of its argument, its signature and its annotation, and show what
  this means for sessions: a declared session is a session of typed calls, in
  which oscillation is never set.
\<close>

section \<open>Commands and the methods they decorate\<close>

datatype handler = Nullary operation | Unary setter

fun parameter :: "setter \<Rightarrow> string" where
  "parameter Set_direct_speed = ''speed''"
| "parameter Set_oscillate = ''oscillate''"
| "parameter Set_buzzer = ''buzzer''"
| "parameter Set_child_lock = ''lock''"
| "parameter Set_natural_mode = ''natural''"
| "parameter Delay_off = ''seconds''"

definition handlers :: "(string \<times> handler) list" where
  "handlers =
     [(''status'', Nullary Query), (''on'', Nullary (Call On)), (''off'', Nullary (Call Off)),
      (''set_direct_speed'', Unary Set_direct_speed), (''set_buzzer'', Unary Set_buzzer),
      (''set_child_lock'', Unary Set_child_lock),
      (''set_natural_mode'', Unary Set_natural_mode), (''delay_off'', Unary Delay_off)]"

fun arg_class :: "arg_type \<Rightarrow> py_type" where
  "arg_class IntArg = TInt"
| "arg_class BoolArg = TBool"

fun bind_arguments :: "handler \<Rightarrow> kwargs \<Rightarrow> raw_operation option" where
  "bind_arguments (Nullary op) [] = Some (Typed op)"
| "bind_arguments (Unary m) [(p, Val v)] = (if p = parameter m then Some (Untyped m v) else None)"
| "bind_arguments m kw = None"

definition dispatch :: "string \<Rightarrow> kwargs \<Rightarrow> raw_operation option" where
  "dispatch n kw = Option.bind (map_of handlers n) (\<lambda>m. bind_arguments m kw)"

definition declared :: "string \<times> kwargs \<Rightarrow> bool" where
  "declared l = list_ex (\<lambda>(n, c). n = fst l \<and> kwargs_ok (arguments c) (snd l)) commands"

definition cli_step :: "Fan1C \<Rightarrow> string \<times> kwargs \<Rightarrow> fan_device \<Rightarrow> fan_device" where
  "cli_step self l d =
     (case dispatch (fst l) (snd l) of None \<Rightarrow> d | Some op \<Rightarrow> perform_raw self op d)"

definition cli_run :: "Fan1C \<Rightarrow> (string \<times> kwargs) list \<Rightarrow> fan_device \<Rightarrow> fan_device" where
  "cli_run self ls d = fold (cli_step self) ls d"

text \<open>
  The call a client of the typed interface makes for a setter and a value of
  exactly the annotated class, and the typed operation an operation is, if any.
\<close>

fun typed_call :: "setter \<Rightarrow> pyval \<Rightarrow> call option" where
  "typed_call Set_direct_speed (PInt i) = Some (SetDirectSpeed i)"
| "typed_call Set_oscillate (PBool b) = Some (SetOscillate b)"
| "typed_call Set_buzzer (PBool b) = Some (SetBuzzer b)"
| "typed_call Set_child_lock (PBool b) = Some (SetChildLock b)"
| "typed_call Set_natural_mode (PBool b) = Some (SetNaturalMode b)"
| "typed_call Delay_off (PInt i) = Some (DelayOff i)"
| "typed_call m v = None"

fun as_typed :: "raw_operation \<Rightarrow> operation option" where
  "as_typed (Typed op) = Some op"
| "as_typed (Untyped m v) = map_option Call (typed_call m v)"

lemmas [model_defs] = handlers_def dispatch_def declared_def cli_step_def cli_run_def

section \<open>Declared command lines\<close>

lemma has_type_isinstance: "has_type a (Val v) \<Longrightarrow> isinstance v (arg_class a)"
  by (cases "(a, Val v)" rule: has_type.cases) simp_all

text \<open>
  The two tables agree: they list the same commands in the same order, a command
  declares no argument for a method without parameters, and for a setter it
  declares the one argument of the setter's signature, by its name and with the
  class of its annotation.
\<close>

lemma declarations_match_signatures:
  "map fst handlers = map fst commands"
  "(n, Nullary op) \<in> set handlers \<Longrightarrow> \<exists>c. map_of commands n = Some c \<and> arguments c = []"
  "(n, Unary m) \<in> set handlers \<Longrightarrow>
     \<exists>c a. map_of commands n = Some c \<and> arguments c = [(parameter m, a)] \<and>
       arg_class a = parameter_type m"
  by (auto simp: handlers_def) (simp_all add: commands_def command_defs)

lemma dispatch_simps:
  "dispatch ''status'' kw = bind_arguments (Nullary Query) kw"
  "dispatch ''on'' kw = bind_arguments (Nullary (Call On)) kw"
  "dispatch ''off'' kw = bind_arguments (Nullary (Call Off)) kw"
  "dispatch ''set_direct_speed'' kw = bind_arguments (Unary Set_direct_speed) kw"
  "dispatch ''set_buzzer'' kw = bind_arguments (Unary Set_buzzer) kw"
  "dispatch ''set_child_lock'' kw = bind_arguments (Unary Set_child_lock) kw"
  "dispatch ''set_natural_mode'' kw = bind_arguments (Unary Set_natural_mode) kw"
  "dispatch ''delay_off'' kw = bind_arguments (Unary Delay_off) kw"
  by (simp_all add: dispatch_def handlers_def)

lemma declared_iff: "declared (n, kw) \<longleftrightarrow> (\<exists>c. (n, c) \<in> set commands \<and> kwargs_ok (arguments c) kw)"
  by (auto simp: declared_def list_ex_iff)

lemma typed_call_invoke:
  "typed_call m v = Some c \<Longrightarrow> apply_setter tr self m v = invoke tr self c"
  by (cases "(m, v)" rule: typed_call.cases) auto

lemma perform_as_typed: "as_typed op = Some op' \<Longrightarrow> perform_raw self op = perform self op'"
  by (cases op) (auto simp: fun_eq_iff typed_call_invoke)

lemma as_typed_well_typed: "as_typed op = Some op' \<Longrightarrow> well_typed op"
proof (cases op)
  case (Untyped m v)
  assume "as_typed op = Some op'"
  with Untyped show ?thesis
    by (cases "(m, v)" rule: typed_call.cases) auto
qed simp

lemma declared_dispatch:
  assumes "(n, c) \<in> set commands" and "kwargs_ok (arguments c) kw"
  shows "\<exists>op op'. dispatch n kw = Some op \<and> as_typed op = Some op'"
  using assms
  by (auto simp: commands_def command_defs kwargs_ok_def list_all2_Cons1 has_type_iff
      dispatch_simps)

text \<open>
  C23. The declarations agree with the signatures. For each command of the table
  and every list of keyword arguments of the declared names and types, the
  command reaches its method: the keyword that \<open>click.argument\<close> declares is the
  name of the method's parameter, and the declared type is the class the
  parameter is annotated with, so the call is well typed.
\<close>

theorem declared_lines_dispatch:
  assumes "(n, c) \<in> set commands" and "kwargs_ok (arguments c) kw"
  shows "\<exists>op. dispatch n kw = Some op \<and> well_typed op"
  using assms
  by (auto simp: commands_def command_defs kwargs_ok_def list_all2_Cons1 has_type_iff
      dispatch_simps)

theorem declared_lines_dispatch_witness:
  "(''delay_off'', delay_off_command) \<in> set commands \<and>
   kwargs_ok (arguments delay_off_command) [(''seconds'', Val (PInt 90))] \<and>
   dispatch ''delay_off'' [(''seconds'', Val (PInt 90))] = Some (Untyped Delay_off (PInt 90)) \<and>
   well_typed (Untyped Delay_off (PInt 90))"
  using declared_lines_dispatch [of "''delay_off''" delay_off_command
      "[(''seconds'', Val (PInt 90))]"]
  by (simp add: commands_def delay_off_command_def kwargs_ok_def dispatch_simps)

section \<open>Command-line sessions\<close>

lemma cli_run_simps [simp]:
  "cli_run self [] d = d"
  "cli_run self (l # ls) d = cli_run self ls (cli_step self l d)"
  "cli_run self (ls @ ls') d = cli_run self ls' (cli_run self ls d)"
  by (simp_all add: cli_run_def)

lemma declared_step:
  assumes "declared l"
  shows "\<exists>op. cli_step self l = perform self op"
proof -
  from assms obtain c where "(fst l, c) \<in> set commands" "kwargs_ok (arguments c) (snd l)"
    by (cases l) (auto simp: declared_iff)
  from declared_dispatch [OF this] show ?thesis
    by (auto simp: cli_step_def fun_eq_iff perform_as_typed)
qed

lemma declared_reachable:
  assumes "list_all declared ls"
  shows "reachable self d (cli_run self ls d)"
  using assms
proof (induction ls rule: rev_induct)
  case Nil
  show ?case by (simp add: reachable.start)
next
  case (snoc l ls)
  then obtain op where "cli_step self l = perform self op"
    using declared_step [of l self] by auto
  with snoc show ?case
    by (simp add: reachable.step)
qed

lemma device_typed_cli_step:
  assumes "mapping_ok (mapping self)" and "device_typed self d" and "declared l"
  shows "device_typed self (cli_step self l d)"
proof -
  from assms(3) obtain c where "(fst l, c) \<in> set commands" "kwargs_ok (arguments c) (snd l)"
    by (cases l) (auto simp: declared_iff)
  from declared_dispatch [OF this] obtain op op'
    where op: "dispatch (fst l) (snd l) = Some op" "as_typed op = Some op'"
    by blast
  then have "well_typed op"
    by (simp add: as_typed_well_typed)
  with assms(1,2) op show ?thesis
    by (simp add: cli_step_def device_typed_perform_raw)
qed

lemma device_typed_cli_run:
  assumes "mapping_ok (mapping self)"
  shows "device_typed self d \<Longrightarrow> list_all declared ls \<Longrightarrow> device_typed self (cli_run self ls d)"
  using assms by (induction ls arbitrary: d) (simp_all add: device_typed_cli_step)

text \<open>
  C21. A declared command-line session is a session of typed calls: whatever the
  commands and their arguments, the state of the fan after the session is one a
  client of the typed interface reaches. So every invariant of sessions holds
  for the command line.
\<close>

theorem declared_session_reachable:
  assumes "list_all declared ls"
  shows "reachable self d (cli_run self ls d)"
  using assms by (rule declared_reachable)

theorem declared_session_reachable_witness:
  "list_all declared
     [(''on'', []), (''set_direct_speed'', [(''speed'', Val (PInt 9))]), (''status'', [])] \<and>
   reachable Fan1C_default spec_fan
     (cli_run Fan1C_default
        [(''on'', []), (''set_direct_speed'', [(''speed'', Val (PInt 9))]), (''status'', [])]
        spec_fan)"
  using declared_session_reachable [of
      "[(''on'', []), (''set_direct_speed'', [(''speed'', Val (PInt 9))]), (''status'', [])]"
      Fan1C_default spec_fan]
  by (simp add: declared_def commands_def command_defs kwargs_ok_def)

section \<open>What the command line cannot do\<close>

lemma dispatch_cases:
  assumes "dispatch n kw = Some op"
  obtains op' where "op = Typed op'" "op' \<in> {Query, Call On, Call Off}"
  | m v where "op = Untyped m v" "m \<noteq> Set_oscillate"
proof -
  from assms obtain meth where "(n, meth) \<in> set handlers" "bind_arguments meth kw = Some op"
    by (auto simp: dispatch_def bind_eq_Some_conv dest: map_of_SomeD)
  then show thesis
    by (cases "(meth, kw)" rule: bind_arguments.cases)
      (auto simp: handlers_def intro: that split: if_splits)
qed

lemma raw_write_name: "raw_write m v = Some (n, x) \<Longrightarrow> m \<noteq> Set_oscillate \<Longrightarrow>
    n \<in> {''fan_level'', ''buzzer'', ''child_lock'', ''mode'', ''power_off_time''}"
  by (cases m) (auto split: if_splits)

lemma perform_view_untouched:
  assumes "mapping_ok (mapping self)" and "\<forall>c. op = Call c \<longrightarrow> target c \<noteq> Some n"
  shows "fan_view (mapping self) (perform self op d) n = fan_view (mapping self) d n"
proof (cases op)
  case Query
  then show ?thesis by simp
next
  case (Call c)
  with assms show ?thesis
    by (cases "spec_write c") (auto simp: invoke_sim_snd fan_view_sim_set_any target_def)
qed

lemma cli_step_view:
  assumes "mapping_ok (mapping self)" and "n \<in> {''swing_mode'', ''light''}"
  shows "fan_view (mapping self) (cli_step self l d) n = fan_view (mapping self) d n"
proof (cases "dispatch (fst l) (snd l)")
  case None
  then show ?thesis by (simp add: cli_step_def)
next
  case (Some op)
  then show ?thesis
  proof (cases rule: dispatch_cases)
    case (1 op')
    with Some assms show ?thesis
      by (auto simp: cli_step_def perform_view_untouched target_def simp del: perform.simps)
  next
    case (2 m v)
    with Some assms show ?thesis
      by (auto simp: cli_step_def apply_setter_snd fan_view_sim_set_any
          dest!: raw_write_name split: option.split)
  qed
qed

lemma cli_run_view:
  assumes "mapping_ok (mapping self)" and "n \<in> {''swing_mode'', ''light''}"
  shows "fan_view (mapping self) (cli_run self ls d) n = fan_view (mapping self) d n"
proof (induction ls arbitrary: d)
  case Nil
  show ?case by simp
next
  case (Cons l ls)
  from Cons [of "cli_step self l d"] cli_step_view [OF assms, of l d] show ?case
    by simp
qed

text \<open>
  C22. The command line never sets oscillation. \<open>set_oscillate\<close> is the one setter
  without a \<open>@command\<close> decorator, so whatever commands are given, with whatever
  arguments, the oscillation of the fan after the session is what it was before;
  the same holds for the LED, which no method of \<open>Fan1C\<close> writes.
\<close>

theorem cli_session_never_oscillates:
  assumes "mapping_ok (mapping self)" and "n \<in> {''swing_mode'', ''light''}"
  shows "fan_view (mapping self) (cli_run self ls d) n = fan_view (mapping self) d n"
  using assms by (rule cli_run_view)

theorem cli_session_never_oscillates_witness:
  "mapping_ok (mapping Fan1C_default) \<and>
   fan_view MAPPING
     (cli_run Fan1C_default
        [(''set_oscillate'', [(''oscillate'', Val (PBool True))]),
         (''set_buzzer'', [(''buzzer'', Val (PBool True))])] spec_fan) ''swing_mode'' =
     Some (PInt 0) \<and>
   fan_view MAPPING
     (snd (set_oscillate sim_transport Fan1C_default (PBool True) spec_fan)) ''swing_mode'' =
     Some (PBool True)"
  using cli_session_never_oscillates [of Fan1C_default "''swing_mode''"
      "[(''set_oscillate'', [(''oscillate'', Val (PBool True))]),
        (''set_buzzer'', [(''buzzer'', Val (PBool True))])]" spec_fan]
  by (simp add: fan_view_MAPPING spec_fan_def set_oscillate_def store_sim_set)

end
