(* ===== verification/Fan_Clients.thy ===== *)
theory Fan_Clients
  imports Fan_Session
begin

text \<open>
  Two clients and one fan. The adapter keeps no state between calls, and the
  specification leaves the order of calls from different threads to the callers,
  who must serialize them. This theory describes what the fan is left with when
  they do: two adapter objects, constructed with whatever connection parameters,
  each with its own list of operations, the two lists interleaved in any way
  (\<open>shuffles\<close>).

  \<open>client_step\<close> performs one operation of one client. \<open>op_target\<close> is the
  attribute an operation writes, if any, and two lists of operations are
  \<open>independent\<close> when no attribute is written by both. The theorem shows that for
  independent clients every interleaving leaves the fan as the two sessions one
  after the other do; for clients that write the same attribute the last write
  wins (\<open>run_order_laws\<close>), which is why the callers must agree on an order.
\<close>

section \<open>Clients\<close>

type_synonym client_op = "Fan1C \<times> operation"

definition client_step :: "client_op \<Rightarrow> fan_device \<Rightarrow> fan_device" where
  "client_step x d = perform (fst x) (snd x) d"

fun op_target :: "operation \<Rightarrow> string option" where
  "op_target Query = None"
| "op_target (Call c) = target c"

fun op_step :: "operation \<Rightarrow> (string \<rightharpoonup> pyval) \<Rightarrow> (string \<rightharpoonup> pyval)" where
  "op_step Query s = s"
| "op_step (Call c) s = spec_step c s"

definition independent :: "operation list \<Rightarrow> operation list \<Rightarrow> bool" where
  "independent xs ys =
     list_all (\<lambda>a. list_all (\<lambda>b. op_target a = None \<or> op_target b = None \<or>
       op_target a \<noteq> op_target b) ys) xs"

lemmas [model_defs] = client_step_def independent_def

section \<open>One operation on the view\<close>

lemma client_step_Pair [simp]: "client_step (self, op) = perform self op"
  by (rule ext) (simp add: client_step_def)

lemma perform_view:
  assumes "mapping_ok (mapping self)" and "online d"
  shows "fan_view (mapping self) (perform self op d) = op_step op (fan_view (mapping self) d)"
  using assms by (cases op) (simp_all add: invoke_sim_view)

lemma spec_step_invalid: "target c = None \<Longrightarrow> spec_step c s = s"
  by (simp add: spec_step_def target_def split: option.splits)

lemma op_step_commute:
  assumes "op_target a = None \<or> op_target b = None \<or> op_target a \<noteq> op_target b"
  shows "op_step a \<circ> op_step b = op_step b \<circ> op_step a"
proof (cases a; cases b)
  fix c c'
  assume ops: "a = Call c" "b = Call c'"
  show ?thesis
  proof (cases "target c = target c'")
    case True
    with assms ops have "target c = None" "target c' = None" by auto
    with ops show ?thesis
      by (simp add: fun_eq_iff spec_step_invalid)
  next
    case False
    with ops show ?thesis
      by (simp add: fun_eq_iff spec_step_commute)
  qed
qed (simp_all add: fun_eq_iff)

lemma fold_client_view:
  assumes "mapping_ok m" and "\<forall>x\<in>set zs. mapping (fst x) = m"
  shows "online d \<Longrightarrow>
     fan_view m (fold client_step zs d) = fold (\<lambda>x. op_step (snd x)) zs (fan_view m d)"
  using assms(2)
proof (induction zs arbitrary: d)
  case Nil
  show ?case by simp
next
  case (Cons x zs)
  from Cons.prems assms(1)
  have "fan_view m (client_step x d) = op_step (snd x) (fan_view m d)"
    using perform_view [of "fst x" d "snd x"] by (simp add: client_step_def)
  moreover from Cons.prems have "online (client_step x d)"
    by (simp add: client_step_def)
  ultimately show ?case
    using Cons.IH [of "client_step x d"] Cons.prems(2) by simp
qed

lemma independent_iff:
  "independent xs ys \<longleftrightarrow>
     (\<forall>a\<in>set xs. \<forall>b\<in>set ys. op_target a = None \<or> op_target b = None \<or>
        op_target a \<noteq> op_target b)"
  by (simp add: independent_def list_all_iff)

lemma independent_commute:
  assumes "independent xs ys" and "x \<in> set (map (Pair a) xs)" and "y \<in> set (map (Pair b) ys)"
  shows "op_step (snd x) \<circ> op_step (snd y) = op_step (snd y) \<circ> op_step (snd x)"
proof -
  from assms(2,3) have "snd x \<in> set xs" "snd y \<in> set ys"
    by auto
  with assms(1) show ?thesis
    unfolding independent_iff by (intro op_step_commute) blast
qed

section \<open>Interleaved sessions\<close>

text \<open>
  C24. Independent clients can be serialized in any order. Two adapter objects for
  the same fan, whatever their connection parameters, each make their own
  sequence of status queries and calls. If no attribute is written by both, then
  every interleaving of the two sequences leaves the fan, seen through the table,
  in the state that the first session followed by the second leaves it in.
\<close>

theorem independent_clients_serialize:
  assumes "online d" and "independent ops1 ops2"
    and "zs \<in> shuffles (map (Pair (Fan1C_init i t s g l)) ops1)
      (map (Pair (Fan1C_init i' t' s' g' l')) ops2)"
  shows "fan_view MAPPING (fold client_step zs d) =
     fan_view MAPPING
       (fold (perform (Fan1C_init i' t' s' g' l')) ops2
          (fold (perform (Fan1C_init i t s g l)) ops1 d))"
proof -
  let ?a = "Fan1C_init i t s g l" and ?b = "Fan1C_init i' t' s' g' l'"
  let ?f = "\<lambda>x :: client_op. op_step (snd x)"
  let ?seq = "map (Pair ?a) ops1 @ map (Pair ?b) ops2"
  have both: "fold client_step ?seq d = fold (perform ?b) ops2 (fold (perform ?a) ops1 d)"
    by (simp add: fold_map comp_def)
  from assms(3) have "set zs = set (map (Pair ?a) ops1) \<union> set (map (Pair ?b) ops2)"
    by (rule set_shuffles)
  then have table: "\<forall>x\<in>set zs. mapping (fst x) = MAPPING"
    by auto
  have table_seq: "\<forall>x\<in>set ?seq. mapping (fst x) = MAPPING"
    by auto
  have "?f x \<circ> ?f y = ?f y \<circ> ?f x"
    if "x \<in> set (map (Pair ?a) ops1)" "y \<in> set (map (Pair ?b) ops2)" for x y
    using assms(2) that by (rule independent_commute)
  with assms(3) have shuffle: "fold ?f zs = fold ?f ?seq"
    by (rule fold_shuffles)
  have "fan_view MAPPING (fold client_step zs d) = fold ?f zs (fan_view MAPPING d)"
    using table assms(1) by (intro fold_client_view) simp_all
  also have "\<dots> = fold ?f ?seq (fan_view MAPPING d)"
    by (simp only: shuffle)
  also have "\<dots> = fan_view MAPPING (fold client_step ?seq d)"
    using table_seq assms(1) by (intro fold_client_view [symmetric]) simp_all
  finally show ?thesis
    by (simp only: both)
qed

theorem independent_clients_serialize_witness:
  "online spec_fan \<and>
   independent [Call (SetDirectSpeed 3), Query] [Call (SetBuzzer True)] \<and>
   fan_view MAPPING
     (fold client_step
        [(Fan1C_init (Some ''10.0.0.7'') None 0 0 True, Call (SetBuzzer True)),
         (Fan1C_default, Call (SetDirectSpeed 3)), (Fan1C_default, Query)] spec_fan) =
   fan_view MAPPING
     (fold (perform (Fan1C_init (Some ''10.0.0.7'') None 0 0 True)) [Call (SetBuzzer True)]
        (fold (perform Fan1C_default) [Call (SetDirectSpeed 3), Query] spec_fan))"
proof -
  have ind: "independent [Call (SetDirectSpeed 3), Query] [Call (SetBuzzer True)]"
    by (simp add: independent_def target_def)
  have zs: "[(Fan1C_init (Some ''10.0.0.7'') None 0 0 True, Call (SetBuzzer True)),
       (Fan1C_init None None 0 0 True, Call (SetDirectSpeed 3)),
       (Fan1C_init None None 0 0 True, Query)]
     \<in> shuffles (map (Pair (Fan1C_init None None 0 0 True)) [Call (SetDirectSpeed 3), Query])
         (map (Pair (Fan1C_init (Some ''10.0.0.7'') None 0 0 True)) [Call (SetBuzzer True)])"
    by (simp add: Cons_in_shuffles_iff)
  have on: "online spec_fan"
    by (simp add: spec_fan_def)
  from independent_clients_serialize [OF on ind zs] ind on show ?thesis
    by (simp add: Fan1C_default_def)
qed

end
