(* ===== verification/Fan_Snapshot.thy ===== *)
theory Fan_Snapshot
  imports Fan_Session
begin

text \<open>
  The data model of the specification, and the adapter as an implementation of
  it. The specification describes a status as a snapshot with typed fields: the
  power state and the operation mode as enumerations, the speed level as an
  integer, four booleans, and the countdown as a non-negative number of seconds;
  and it describes each operation of the adapter by the field it sets.

  \<open>StatusSnapshot\<close> is that record. \<open>snapshot\<close> reads it off a \<open>FanStatus1C\<close>
  through the properties of the class, the way a client does: booleans by truth
  value, integers by numeric value, so that the integers 0 and 1 that the fan of
  the specification's example reports read as \<open>False\<close> and \<open>True\<close>.
  \<open>read_snapshot\<close> is a status query followed by this reading, and \<open>snap_step\<close>
  is the effect the specification gives each operation on the snapshot.

  The theorem is the functional refinement: on a fan that has all eight
  properties, reading the snapshot after a call is the step of that call on the
  snapshot read before, through the setter's encoding, the table, the device and
  the decoding of the properties. The last section extends it to callers that
  pass values of any type (\<open>coerced\<close>, \<open>snap_raw\<close>): what such a call does to
  the snapshot is what the typed call on the coerced argument does.
\<close>

section \<open>The snapshot\<close>

datatype power_enum = PowerOn | PowerOff

record StatusSnapshot =
  power_state_enum :: power_enum
  operation_mode :: OperationMode
  speed_level :: int
  oscillation_enabled :: bool
  led_enabled :: bool
  buzzer_enabled :: bool
  child_lock_enabled :: bool
  power_off_countdown_seconds :: nat

definition int_value :: "pyval \<Rightarrow> int" where
  "int_value v = (case py_int v of Some i \<Rightarrow> i | None \<Rightarrow> 0)"

definition snapshot :: "FanStatus1C \<Rightarrow> StatusSnapshot result" where
  "snapshot st =
     bind_result (power_state st) (\<lambda>p.
     bind_result (mode st) (\<lambda>m.
     bind_result (speed st) (\<lambda>s.
     bind_result (oscillate st) (\<lambda>osc.
     bind_result (led st) (\<lambda>l.
     bind_result (buzzer st) (\<lambda>b.
     bind_result (child_lock st) (\<lambda>c.
     bind_result (delay_off_countdown st) (\<lambda>t.
       Inr \<lparr>power_state_enum = (if p = ''on'' then PowerOn else PowerOff),
            operation_mode = m,
            speed_level = int_value s,
            oscillation_enabled = py_truthy osc,
            led_enabled = py_truthy l,
            buzzer_enabled = py_truthy b,
            child_lock_enabled = py_truthy c,
            power_off_countdown_seconds = nat (int_value t)\<rparr>))))))))"

definition read_snapshot :: "Fan1C \<Rightarrow> fan_device \<Rightarrow> StatusSnapshot result" where
  "read_snapshot self d = bind_result (fst (status sim_transport self d)) snapshot"

section \<open>The operations on the snapshot\<close>

fun snap_step :: "call \<Rightarrow> StatusSnapshot \<Rightarrow> StatusSnapshot" where
  "snap_step On s = s\<lparr>power_state_enum := PowerOn\<rparr>"
| "snap_step Off s = s\<lparr>power_state_enum := PowerOff\<rparr>"
| "snap_step (SetDirectSpeed i) s = (if i \<in> {1, 2, 3} then s\<lparr>speed_level := i\<rparr> else s)"
| "snap_step (SetOscillate b) s = s\<lparr>oscillation_enabled := b\<rparr>"
| "snap_step (SetBuzzer b) s = s\<lparr>buzzer_enabled := b\<rparr>"
| "snap_step (SetChildLock b) s = s\<lparr>child_lock_enabled := b\<rparr>"
| "snap_step (SetNaturalMode b) s = s\<lparr>operation_mode := (if b then Nature else Normal)\<rparr>"
| "snap_step (DelayOff t) s = (if 0 \<le> t then s\<lparr>power_off_countdown_seconds := nat t\<rparr> else s)"

text \<open>
  A caller that ignores the annotations passes any value. \<open>coerced\<close> is the call
  of the data model such a call amounts to: the argument read as a boolean by
  truth value or as an integer by numeric value, and no call at all for a value
  that is not a number where a number is compared. \<open>snap_raw\<close> is the step of an
  operation of a session on the snapshot: nothing for a status query, the
  specification's step for a typed call, and the step of the coerced call for an
  untyped one.
\<close>

fun coerced :: "setter \<Rightarrow> pyval \<Rightarrow> call option" where
  "coerced Set_direct_speed v = map_option SetDirectSpeed (py_int v)"
| "coerced Set_oscillate v = Some (SetOscillate (py_truthy v))"
| "coerced Set_buzzer v = Some (SetBuzzer (py_truthy v))"
| "coerced Set_child_lock v = Some (SetChildLock (py_truthy v))"
| "coerced Set_natural_mode v = Some (SetNaturalMode (py_truthy v))"
| "coerced Delay_off v = map_option DelayOff (py_int v)"

fun snap_raw :: "raw_operation \<Rightarrow> StatusSnapshot \<Rightarrow> StatusSnapshot" where
  "snap_raw (Typed Query) s = s"
| "snap_raw (Typed (Call c)) s = snap_step c s"
| "snap_raw (Untyped m v) s = (case coerced m v of None \<Rightarrow> s | Some c \<Rightarrow> snap_step c s)"

definition complete :: "Fan1C \<Rightarrow> fan_device \<Rightarrow> bool" where
  "complete self d =
     list_all (\<lambda>n. fan_view (mapping self) d n \<noteq> None) (mapping_names (mapping self))"

lemmas [model_defs] = int_value_def snapshot_def read_snapshot_def complete_def

section \<open>Reading the snapshot off the view\<close>

definition view_snapshot :: "(string \<rightharpoonup> pyval) \<Rightarrow> StatusSnapshot" where
  "view_snapshot v =
     \<lparr>power_state_enum = (if py_truthy (raw_value (v ''power'')) then PowerOn else PowerOff),
      operation_mode = (if py_eq (raw_value (v ''mode'')) (PInt 1) then Nature else Normal),
      speed_level = int_value (raw_value (v ''fan_level'')),
      oscillation_enabled = py_truthy (raw_value (v ''swing_mode'')),
      led_enabled = py_truthy (raw_value (v ''light'')),
      buzzer_enabled = py_truthy (raw_value (v ''buzzer'')),
      child_lock_enabled = py_truthy (raw_value (v ''child_lock'')),
      power_off_countdown_seconds = nat (int_value (raw_value (v ''power_off_time'')))\<rparr>"

lemma snapshot_view:
  "snapshot \<lparr>data = view_items (mapping_names MAPPING) v\<rparr> = Inr (view_snapshot v)"
  by (simp add: snapshot_def view_snapshot_def accessor_defs dict_get_view_items
      mapping_names_MAPPING)

lemma read_snapshot_view:
  "online d \<Longrightarrow> read_snapshot Fan1C_default d = Inr (view_snapshot (fan_view MAPPING d))"
  by (simp add: read_snapshot_def status_default_sim snapshot_view)

lemma complete_default:
  "complete Fan1C_default d \<longleftrightarrow>
     (\<forall>n \<in> {''power'', ''mode'', ''fan_level'', ''swing_mode'', ''power_off_time'', ''light'',
        ''buzzer'', ''child_lock''}. fan_view MAPPING d n \<noteq> None)"
  by (auto simp: complete_def mapping_names_MAPPING)

lemma view_snapshot_step:
  assumes "\<forall>n \<in> {''power'', ''mode'', ''fan_level'', ''swing_mode'', ''power_off_time'', ''light'',
        ''buzzer'', ''child_lock''}. v n \<noteq> None"
  shows "view_snapshot (spec_step c v) = snap_step c (view_snapshot v)"
  using assms by (cases c) (auto simp: view_snapshot_def spec_step_def int_value_def)

lemma spec_step_None_iff: "spec_step c v n = None \<longleftrightarrow> v n = None"
  by (auto simp: spec_step_def split: option.splits)

lemma view_snapshot_fold:
  assumes "\<forall>n \<in> {''power'', ''mode'', ''fan_level'', ''swing_mode'', ''power_off_time'', ''light'',
        ''buzzer'', ''child_lock''}. v n \<noteq> None"
  shows "view_snapshot (fold spec_step cs v) = fold snap_step cs (view_snapshot v)"
  using assms
proof (induction cs arbitrary: v)
  case Nil
  show ?case by simp
next
  case (Cons c cs)
  from Cons.prems have "view_snapshot (spec_step c v) = snap_step c (view_snapshot v)"
    by (rule view_snapshot_step)
  with Cons.IH [of "spec_step c v"] Cons.prems show ?case
    by (simp add: spec_step_None_iff)
qed

section \<open>The adapter implements the data model\<close>

text \<open>
  C4. Functional refinement of the data model. On a fan that answers and has all
  eight properties, the snapshot read after any sequence of calls is the fold of
  the specification's steps over the snapshot read before: each accepted call
  sets its one field to its argument and leaves the other seven, each rejected
  call leaves all eight. The instance below starts from the fan of the
  specification's example, whose snapshot is the one the specification lists.
\<close>

theorem run_refines_data_model:
  assumes "online d" and "complete Fan1C_default d"
  shows "read_snapshot Fan1C_default (run Fan1C_default cs d) =
     map_result (fold snap_step cs) (read_snapshot Fan1C_default d)"
proof -
  have read: "read_snapshot Fan1C_default d' = Inr (view_snapshot (fan_view MAPPING d'))"
    if "online d'" for d'
    using that
    by (simp add: read_snapshot_def status_default_sim snapshot_def view_snapshot_def
        accessor_defs dict_get_view_items mapping_names_MAPPING)
  from assms(1) have "fan_view MAPPING (run Fan1C_default cs d) =
      fold spec_step cs (fan_view MAPPING d)"
    using run_view [of Fan1C_default d cs] by simp
  with assms show ?thesis
    by (simp add: read view_snapshot_fold complete_default)
qed

theorem run_refines_data_model_witness:
  "online spec_fan \<and> complete Fan1C_default spec_fan \<and>
   read_snapshot Fan1C_default spec_fan =
     Inr \<lparr>power_state_enum = PowerOn, operation_mode = Nature, speed_level = 2,
          oscillation_enabled = False, led_enabled = True, buzzer_enabled = False,
          child_lock_enabled = True, power_off_countdown_seconds = 120\<rparr> \<and>
   read_snapshot Fan1C_default
     (run Fan1C_default [SetBuzzer True, SetDirectSpeed 5, DelayOff 60, Off] spec_fan) =
     Inr \<lparr>power_state_enum = PowerOff, operation_mode = Nature, speed_level = 2,
          oscillation_enabled = False, led_enabled = True, buzzer_enabled = True,
          child_lock_enabled = True, power_off_countdown_seconds = 60\<rparr>"
proof -
  have ok: "online spec_fan" "complete Fan1C_default spec_fan"
    by (simp_all add: complete_default fan_view_MAPPING spec_fan_def)
  have start: "read_snapshot Fan1C_default spec_fan =
     Inr \<lparr>power_state_enum = PowerOn, operation_mode = Nature, speed_level = 2,
          oscillation_enabled = False, led_enabled = True, buzzer_enabled = False,
          child_lock_enabled = True, power_off_countdown_seconds = 120\<rparr>"
    using ok(1)
    by (simp add: read_snapshot_view view_snapshot_def fan_view_MAPPING int_value_def
        spec_fan_def)
  from run_refines_data_model [OF ok, of "[SetBuzzer True, SetDirectSpeed 5, DelayOff 60, Off]"]
    ok start
  show ?thesis by simp
qed

section \<open>Callers that ignore the annotations\<close>

lemma view_snapshot_upd:
  "view_snapshot (w(''fan_level'' \<mapsto> x)) = (view_snapshot w)\<lparr>speed_level := int_value x\<rparr>"
  "view_snapshot (w(''swing_mode'' \<mapsto> x)) = (view_snapshot w)\<lparr>oscillation_enabled := py_truthy x\<rparr>"
  "view_snapshot (w(''buzzer'' \<mapsto> x)) = (view_snapshot w)\<lparr>buzzer_enabled := py_truthy x\<rparr>"
  "view_snapshot (w(''child_lock'' \<mapsto> x)) = (view_snapshot w)\<lparr>child_lock_enabled := py_truthy x\<rparr>"
  "view_snapshot (w(''mode'' \<mapsto> x)) =
     (view_snapshot w)\<lparr>operation_mode := (if py_eq x (PInt 1) then Nature else Normal)\<rparr>"
  "view_snapshot (w(''power_off_time'' \<mapsto> x)) =
     (view_snapshot w)\<lparr>power_off_countdown_seconds := nat (int_value x)\<rparr>"
  by (simp_all add: view_snapshot_def)

lemma snap_coerced:
  "raw_write m v = Some (n, x) \<Longrightarrow>
     view_snapshot (w(n \<mapsto> x)) =
       (case coerced m v of None \<Rightarrow> view_snapshot w | Some c \<Rightarrow> snap_step c (view_snapshot w))"
proof (cases m)
  case Set_direct_speed
  assume "raw_write m v = Some (n, x)"
  with Set_direct_speed show ?thesis
    by (cases v) (auto simp: view_snapshot_upd int_value_def split: if_splits)
next
  case Delay_off
  assume "raw_write m v = Some (n, x)"
  with Delay_off show ?thesis
    by (cases v) (auto simp: view_snapshot_upd int_value_def split: if_splits)
qed (auto simp: view_snapshot_upd)

lemma coerced_rejected:
  "raw_write m v = None \<Longrightarrow>
     (case coerced m v of None \<Rightarrow> s | Some c \<Rightarrow> snap_step c s) = s"
  by (cases m; cases v) (auto split: if_splits)


lemma raw_write_complete:
  "raw_write m v = Some (n, x) \<Longrightarrow> complete Fan1C_default d \<Longrightarrow> fan_view MAPPING d n \<noteq> None"
  by (cases m) (auto simp: complete_default split: if_splits)

lemma fan_view_perform_raw:
  assumes "online d" and "complete Fan1C_default d"
  shows "fan_view MAPPING (snd (apply_setter sim_transport Fan1C_default m v d)) =
     (case raw_write m v of None \<Rightarrow> fan_view MAPPING d
      | Some (n, x) \<Rightarrow> (fan_view MAPPING d)(n \<mapsto> x))"
  using assms
  by (auto simp: apply_setter_snd fan_view_sim_set_any dest: raw_write_complete
      split: option.split)

lemma fan_view_invoke_default:
  "online d \<Longrightarrow>
     fan_view MAPPING (snd (invoke sim_transport Fan1C_default c d)) = spec_step c (fan_view MAPPING d)"
  using invoke_sim_view [of Fan1C_default d c] by simp

lemma complete_perform_raw:
  assumes "online d" and "complete Fan1C_default d"
  shows "complete Fan1C_default (perform_raw Fan1C_default op d)"
proof (cases op)
  case (Typed op')
  with assms show ?thesis
    by (cases op') (simp_all add: complete_default fan_view_invoke_default spec_step_None_iff)
next
  case (Untyped m v)
  with assms show ?thesis
    by (auto simp: complete_default fan_view_perform_raw split: option.split)
qed

lemma view_snapshot_perform_raw:
  assumes "online d" and "complete Fan1C_default d"
  shows "view_snapshot (fan_view MAPPING (perform_raw Fan1C_default op d)) =
     snap_raw op (view_snapshot (fan_view MAPPING d))"
proof (cases op)
  case (Typed op')
  with assms show ?thesis
    by (cases op') (simp_all add: fan_view_invoke_default view_snapshot_step complete_default)
next
  case (Untyped m v)
  show ?thesis
  proof (cases "raw_write m v")
    case None
    with assms Untyped show ?thesis
      by (simp add: fan_view_perform_raw coerced_rejected)
  next
    case (Some nx)
    with assms Untyped show ?thesis
      by (cases nx) (simp add: fan_view_perform_raw snap_coerced)
  qed
qed

lemma view_snapshot_fold_raw:
  assumes "online d" and "complete Fan1C_default d"
  shows "view_snapshot (fan_view MAPPING (fold (perform_raw Fan1C_default) ops d)) =
     fold snap_raw ops (view_snapshot (fan_view MAPPING d))"
  using assms
proof (induction ops arbitrary: d)
  case Nil
  show ?case by simp
next
  case (Cons op ops)
  from Cons.prems have "online (perform_raw Fan1C_default op d)"
    and "complete Fan1C_default (perform_raw Fan1C_default op d)"
    by (simp_all add: complete_perform_raw)
  from Cons.IH [OF this] Cons.prems show ?case
    by (simp add: view_snapshot_perform_raw)
qed

text \<open>
  C8. The data model for every caller. On a fan that answers and has all eight
  properties, the snapshot read after any session of status queries, typed calls
  and calls with values of any type is the fold of the data model's steps over
  the snapshot read before, an untyped call counting as the call on its coerced
  argument. So the data model cannot tell \<open>set_buzzer('off')\<close> from
  \<open>set_buzzer(True)\<close>, nor \<open>set_direct_speed(True)\<close> from \<open>set_direct_speed(1)\<close>,
  and a call that raises \<open>TypeError\<close> reads as no call.
\<close>

theorem callers_refine_data_model:
  assumes "online d" and "complete Fan1C_default d"
  shows "read_snapshot Fan1C_default (fold (perform_raw Fan1C_default) ops d) =
     map_result (fold snap_raw ops) (read_snapshot Fan1C_default d)"
  using assms by (simp add: read_snapshot_view view_snapshot_fold_raw)


theorem callers_refine_data_model_witness:
  "online spec_fan \<and> complete Fan1C_default spec_fan \<and>
   read_snapshot Fan1C_default
     (fold (perform_raw Fan1C_default)
        [Untyped Set_buzzer (PStr ''off''), Untyped Set_direct_speed (PBool True),
         Untyped Delay_off (PStr ''60''), Typed Query, Typed (Call Off)] spec_fan) =
     Inr \<lparr>power_state_enum = PowerOff, operation_mode = Nature, speed_level = 1,
          oscillation_enabled = False, led_enabled = True, buzzer_enabled = True,
          child_lock_enabled = True, power_off_countdown_seconds = 120\<rparr>"
proof -
  have ok: "online spec_fan" "complete Fan1C_default spec_fan"
    by (simp_all add: complete_default fan_view_MAPPING spec_fan_def)
  have start: "read_snapshot Fan1C_default spec_fan =
     Inr \<lparr>power_state_enum = PowerOn, operation_mode = Nature, speed_level = 2,
          oscillation_enabled = False, led_enabled = True, buzzer_enabled = False,
          child_lock_enabled = True, power_off_countdown_seconds = 120\<rparr>"
    using ok(1)
    by (simp add: read_snapshot_view view_snapshot_def fan_view_MAPPING int_value_def
        spec_fan_def)
  from callers_refine_data_model [OF ok, of
      "[Untyped Set_buzzer (PStr ''off''), Untyped Set_direct_speed (PBool True),
        Untyped Delay_off (PStr ''60''), Typed Query, Typed (Call Off)]"]
    ok start
  show ?thesis by simp
qed

end
