(* ===== verification/Fan_Contract.thy ===== *)
theory Fan_Contract
  imports Fan_Session
begin

text \<open>
  The adapter over any transport that implements the attribute model.

  The refinement in \<open>Fan_Refinement\<close> is proved for the simulated fan. This
  theory states what it needs of a transport as a contract over an arbitrary
  world, proves the adapter's side for every transport that keeps the contract,
  and shows that the simulated fan keeps it.

  A transport \<open>implements\<close> the attribute model through an abstraction \<open>view\<close> of
  its world when a status request leaves the view as it is and answers, for each
  name of the table, with the value the view has for it (\<open>reads_view\<close>); and when
  a write that is acknowledged sets the written attribute in the view, if the
  device has it, and nothing else, and a write that raises changes nothing
  (\<open>writes_view\<close>).
\<close>

section \<open>The contract\<close>

definition reads_view :: "'d transport \<Rightarrow> miot_mapping \<Rightarrow> ('d \<Rightarrow> string \<rightharpoonup> pyval) \<Rightarrow> bool" where
  "reads_view tr m view \<longleftrightarrow>
     (\<forall>w r w'. get_properties_for_mapping tr m w = (r, w') \<longrightarrow>
        view w' = view w \<and>
        (\<forall>ps. r = Inr ps \<longrightarrow>
           answers m ps \<and>
           map entry_value ps = map (\<lambda>n. raw_value (view w n)) (mapping_names m)))"

definition writes_view :: "'d transport \<Rightarrow> miot_mapping \<Rightarrow> ('d \<Rightarrow> string \<rightharpoonup> pyval) \<Rightarrow> bool" where
  "writes_view tr m view \<longleftrightarrow>
     (\<forall>n v w r w'. set_property tr m n v w = (r, w') \<longrightarrow>
        view w' = (if is_ok r \<and> view w n \<noteq> None then (view w)(n \<mapsto> v) else view w))"

definition implements :: "'d transport \<Rightarrow> miot_mapping \<Rightarrow> ('d \<Rightarrow> string \<rightharpoonup> pyval) \<Rightarrow> bool" where
  "implements tr m view \<longleftrightarrow> reads_view tr m view \<and> writes_view tr m view"

lemmas [model_defs] = reads_view_def writes_view_def implements_def

lemma implements_transport_ok: "implements tr m view \<Longrightarrow> transport_ok tr m"
  by (auto simp: implements_def reads_view_def transport_ok_def)

lemma implements_readD:
  assumes "implements tr m view" and "get_properties_for_mapping tr m w = (r, w')"
  shows "view w' = view w"
    and "r = Inr ps \<Longrightarrow> map entry_value ps = map (\<lambda>n. raw_value (view w n)) (mapping_names m)"
  using assms by (auto simp: implements_def reads_view_def)

lemma implements_writeD:
  assumes "implements tr m view" and "set_property tr m n v w = (r, w')"
  shows "view w' = (if is_ok r \<and> view w n \<noteq> None then (view w)(n \<mapsto> v) else view w)"
  using assms by (auto simp: implements_def writes_view_def)

section \<open>The adapter over a transport that keeps the contract\<close>

lemma snapshot_items_values:
  "length ps = length ns \<Longrightarrow>
     snapshot_items ns ps = map (\<lambda>(n, x). (PStr n, x)) (zip ns (map entry_value ps))"
  by (simp add: snapshot_items_def zip_map2 case_prod_unfold)

lemma contract_status:
  assumes "implements tr (mapping self) view" and "mapping_ok (mapping self)"
    and "status tr self w = (r, w')"
  shows "view w' = view w"
    and "r = Inr st \<Longrightarrow> data st = view_items (mapping_names (mapping self)) (view w)"
proof -
  obtain r0 where get: "get_properties_for_mapping tr (mapping self) w = (r0, w')"
    using assms(3) status_snd [of tr self w] by (cases "get_properties_for_mapping tr (mapping self) w") auto
  from implements_readD(1) [OF assms(1) get] show "view w' = view w" .
  assume ok: "r = Inr st"
  with assms(3) get obtain ps where ps: "r0 = Inr ps"
    by (cases r0) (auto simp: status_Inl)
  from implements_transport_ok [OF assms(1)] get ps have "answers (mapping self) ps"
    by (auto dest: transport_okD)
  then have len: "length ps = length (mapping_names (mapping self))"
    by (simp add: answers_length mapping_names_def)
  from status_of_contract [OF implements_transport_ok [OF assms(1)] assms(2)] get ps assms(3) ok
  have "data st = snapshot_items (mapping_names (mapping self)) ps"
    by auto
  with implements_readD(2) [OF assms(1) get ps] len
  show "data st = view_items (mapping_names (mapping self)) (view w)"
    by (simp add: snapshot_items_values view_items_def zip_map2 zip_same_conv_map)
qed

lemma contract_invoke:
  assumes "implements tr (mapping self) view"
  shows "view (snd (invoke tr self c w)) =
     (if is_ok (fst (invoke tr self c w)) then spec_step c (view w) else view w)"
proof (cases "spec_write c")
  case None
  from invoke_invalid [OF this, of tr self w] show ?thesis
    by auto
next
  case (Some nv)
  obtain n v where nv: "nv = (n, v)" by (cases nv)
  obtain r w' where set: "set_property tr (mapping self) n v w = (r, w')"
    by (cases "set_property tr (mapping self) n v w")
  from implements_writeD [OF assms set] Some nv set show ?thesis
    by (auto simp: invoke_forward spec_step_def)
qed

section \<open>The simulated fan keeps the contract\<close>

lemma sim_reads_view:
  assumes "mapping_ok m"
  shows "reads_view sim_transport m (fan_view m)"
proof -
  have "map entry_value (map (entry_reply (store d)) m) =
      map (\<lambda>n. raw_value (fan_view m d n)) (mapping_names m)" for d
  proof -
    have "raw_value (store d (siid (snd e), piid (snd e))) = raw_value (fan_view m d (fst e))"
      if "e \<in> set m" for e
      using fan_view_entry [OF mapping_okD(1) [OF assms], of "fst e" "snd e" d] that by simp
    then show ?thesis
      by (simp add: mapping_names_def entry_value_reply comp_def cong: map_cong)
  qed
  then show ?thesis
    by (auto simp: reads_view_def sim_get_def answers_replies split: if_splits)
qed

lemma sim_writes_view:
  assumes "mapping_ok m"
  shows "writes_view sim_transport m (fan_view m)"
  unfolding writes_view_def
proof (intro allI impI)
  fix n v w r w'
  assume "set_property sim_transport m n v w = (r, w')"
  then have r: "r = fst (sim_set m n v w)" and w': "w' = snd (sim_set m n v w)"
    by simp_all
  have "is_ok r \<longleftrightarrow> online w \<and> map_of m n \<noteq> None"
    unfolding r by (auto simp: sim_set_def Let_def split: option.splits)
  moreover have "fan_view m w n \<noteq> None \<Longrightarrow> map_of m n \<noteq> None"
    by (cases "map_of m n") (auto simp: fan_view_def)
  ultimately
  show "fan_view m w' =
     (if is_ok r \<and> fan_view m w n \<noteq> None then (fan_view m w)(n \<mapsto> v) else fan_view m w)"
    unfolding w' by (auto simp: fan_view_sim_set_any [OF assms])
qed

text \<open>
  The simulated fan implements the attribute model, for every well-formed table,
  through the view \<open>fan_view\<close> of its property tree: whether it can be reached or
  not, and whether it has the requested properties or not.
\<close>

lemma sim_implements: "mapping_ok m \<Longrightarrow> implements sim_transport m (fan_view m)"
  by (simp add: implements_def sim_reads_view sim_writes_view)

section \<open>The adapter refines the attribute model over any transport\<close>

text \<open>
  C18. Refinement over any transport. Whatever the transport, if it implements the
  attribute model through a view of its world, then the adapter refines the
  model through the same view: a call that is acknowledged is the abstract step
  of that call, a call that raises (rejected by the adapter or failed in the
  transport) changes nothing, and a status query changes nothing and returns the
  view as a dictionary, one item per entry of the table in table order.
\<close>

theorem contract_refines:
  assumes "implements tr (mapping self) view" and "mapping_ok (mapping self)"
  shows "view (snd (invoke tr self c w)) =
       (if is_ok (fst (invoke tr self c w)) then spec_step c (view w) else view w) \<and>
     view (snd (status tr self w)) = view w \<and>
     (fst (status tr self w) = Inr st \<longrightarrow>
        data st = view_items (mapping_names (mapping self)) (view w))"
proof -
  obtain r w' where st: "status tr self w = (r, w')"
    by (cases "status tr self w")
  from contract_status [OF assms st] st contract_invoke [OF assms(1), of c w] show ?thesis
    by simp
qed

theorem contract_refines_witness:
  "implements sim_transport (mapping Fan1C_default) (fan_view MAPPING) \<and>
   mapping_ok (mapping Fan1C_default) \<and>
   fan_view MAPPING (snd (invoke sim_transport Fan1C_default (SetDirectSpeed 3) spec_fan)) =
     spec_step (SetDirectSpeed 3) (fan_view MAPPING spec_fan) \<and>
   fan_view MAPPING (snd (invoke sim_transport Fan1C_default (SetDirectSpeed 4) spec_fan)) =
     fan_view MAPPING spec_fan \<and>
   fst (status sim_transport Fan1C_default spec_fan) =
     Inr \<lparr>data = view_items (mapping_names MAPPING) (fan_view MAPPING spec_fan)\<rparr>"
proof -
  have impl: "implements sim_transport (mapping Fan1C_default) (fan_view MAPPING)"
    by (simp add: sim_implements)
  have st: "fst (status sim_transport Fan1C_default spec_fan) =
     Inr \<lparr>data = view_items (mapping_names MAPPING) (fan_view MAPPING spec_fan)\<rparr>"
    by (rule status_default_sim) (simp add: spec_fan_def)
  have ack: "is_ok (fst (invoke sim_transport Fan1C_default (SetDirectSpeed 3) spec_fan))"
    "\<not> is_ok (fst (invoke sim_transport Fan1C_default (SetDirectSpeed 4) spec_fan))"
    by (simp_all add: set_direct_speed_def sim_set_def Let_def spec_fan_def raise_action_def)
  have ok: "mapping_ok (mapping Fan1C_default)"
    by simp
  from contract_refines [OF impl ok, THEN conjunct1, of "SetDirectSpeed 3" spec_fan] ack(1)
  have accepted: "fan_view MAPPING
      (snd (invoke sim_transport Fan1C_default (SetDirectSpeed 3) spec_fan)) =
     spec_step (SetDirectSpeed 3) (fan_view MAPPING spec_fan)"
    by (simp only: if_True)
  from contract_refines [OF impl ok, THEN conjunct1, of "SetDirectSpeed 4" spec_fan] ack(2)
  have rejected: "fan_view MAPPING
      (snd (invoke sim_transport Fan1C_default (SetDirectSpeed 4) spec_fan)) =
     fan_view MAPPING spec_fan"
    by (simp only: if_False)
  from impl ok accepted rejected st show ?thesis
    by (intro conjI)
qed

section \<open>Write, then read\<close>

text \<open>
  C17. Write, then read, over any transport. Whatever the transport, if it
  implements the attribute model, then a status query made after an acknowledged
  call returns the dictionary of the abstract step of that call: the written
  attribute reads back as the written value if the device has it, and every other
  attribute as before the call.
\<close>

theorem contract_write_read:
  assumes "implements tr (mapping self) view" and "mapping_ok (mapping self)"
    and "is_ok (fst (invoke tr self c w))"
    and "fst (status tr self (snd (invoke tr self c w))) = Inr st"
  shows "data st = view_items (mapping_names (mapping self)) (spec_step c (view w))"
proof -
  let ?w = "snd (invoke tr self c w)"
  obtain w' where "status tr self ?w = (Inr st, w')"
    using assms(4) by (cases "status tr self ?w") auto
  from contract_status(2) [OF assms(1,2) this]
  have "data st = view_items (mapping_names (mapping self)) (view ?w)"
    by simp
  with assms(3) show ?thesis
    by (simp add: contract_invoke [OF assms(1)])
qed

theorem contract_write_read_witness:
  "implements sim_transport (mapping Fan1C_default) (fan_view MAPPING) \<and>
   mapping_ok (mapping Fan1C_default) \<and>
   is_ok (fst (invoke sim_transport Fan1C_default (SetChildLock False) spec_fan)) \<and>
   fst (status sim_transport Fan1C_default
     (snd (invoke sim_transport Fan1C_default (SetChildLock False) spec_fan))) =
     Inr \<lparr>data = view_items (mapping_names MAPPING)
       (spec_step (SetChildLock False) (fan_view MAPPING spec_fan))\<rparr> \<and>
   dict_get (view_items (mapping_names MAPPING)
       (spec_step (SetChildLock False) (fan_view MAPPING spec_fan))) (PStr ''child_lock'') =
     Inr (PBool False)"
proof -
  have impl: "implements sim_transport (mapping Fan1C_default) (fan_view MAPPING)"
    by (simp add: sim_implements)
  have ack: "is_ok (fst (invoke sim_transport Fan1C_default (SetChildLock False) spec_fan))"
    by (simp add: set_child_lock_def sim_set_def Let_def spec_fan_def)
  have st: "fst (status sim_transport Fan1C_default
     (snd (invoke sim_transport Fan1C_default (SetChildLock False) spec_fan))) =
     Inr \<lparr>data = view_items (mapping_names MAPPING)
       (spec_step (SetChildLock False) (fan_view MAPPING spec_fan))\<rparr>"
    by (rule status_after_default) (simp add: spec_fan_def)
  have "dict_get (view_items (mapping_names MAPPING)
       (spec_step (SetChildLock False) (fan_view MAPPING spec_fan))) (PStr ''child_lock'') =
     Inr (PBool False)"
    by (simp add: dict_get_view_items mapping_names_MAPPING spec_step_def fan_view_MAPPING
        spec_fan_def)
  with contract_write_read [OF impl _ ack st] impl ack st show ?thesis
    by simp
qed

end
