(* ===== verification/Spec2Isabelle.thy ===== *)
theory Spec2Isabelle
  imports Fan_Dispatch Fan_Clients Fan_Snapshot Fan_Contract
begin

text \<open>
  Verification of \<open>src/custom_components/xiaomi_miio_fan/fan_1c.py\<close>, the adapter for
  the Xiaomi Mi Smart Pedestal Fan DMaker 1C over the MIoT property protocol.

  \<^bold>\<open>The program.\<close> The file has three parts. \<open>_MAPPING\<close> is a table from attribute
  names to (siid, piid) addresses of the fan's property tree. \<open>FanStatus1C\<close> wraps
  the dictionary of one status report and derives readable properties from it.
  \<open>Fan1C\<close> extends the library class \<open>MiotDevice\<close>: \<open>status\<close> asks the device for
  all mapped properties and builds a \<open>FanStatus1C\<close>, and eight setters validate
  their argument and forward one write. The device itself is reached only through
  two inherited methods, \<open>get_properties_for_mapping\<close> and \<open>set_property\<close>.

  \<^bold>\<open>The theories.\<close>

  \<^item> \<open>Fan_Prelude\<close>: results as sums (\<open>Inl\<close> is a raised exception), \<open>bind_result\<close>,
    \<open>collect\<close> (a loop whose body can raise), actions over the state of the outside
    world, and the fact collections \<open>model_defs\<close> and \<open>action_simps\<close>.
  \<^item> \<open>Py_Value\<close>: the Python values the file handles (\<open>None\<close>, booleans, integers,
    strings) as \<open>pyval\<close>, with truthiness, \<open>==\<close>, \<open>in\<close> (\<open>py_in\<close>), \<open><\<close> against
    an integer (\<open>py_less\<close>, with the \<open>TypeError\<close> of Python) and \<open>str()\<close>; the
    exceptions as \<open>py_error\<close>; decimal numerals (\<open>str_int\<close>) with their inverse
    and their length.
  \<^item> \<open>Py_Dict\<close>: dictionaries as insertion-ordered item lists, subscription
    \<open>dict_get\<close> raising \<open>KeyError\<close>, item assignment \<open>dict_set\<close>; the invariant
    \<open>dict_ok\<close> and the abstraction \<open>dict_map\<close> to finite maps.
  \<^item> \<open>Miot_Mapping\<close>: \<open>_MAPPING\<close> as \<open>MAPPING\<close>, entries as the record \<open>miot_id\<close>,
    and \<open>mapping_ok\<close>, the well-formedness of a table.
  \<^item> \<open>Fan_Status\<close>: the class \<open>FanStatus1C\<close> as a record with the field \<open>data\<close>; one
    definition per property (\<open>power_state\<close> for \<open>power\<close>, \<open>is_on\<close>, \<open>mode\<close>, \<open>speed\<close>,
    \<open>oscillate\<close>, \<open>delay_off_countdown\<close>, \<open>led\<close>, \<open>buzzer\<close>, \<open>child_lock\<close>),
    \<open>repr_FanStatus1C\<close> for \<open>__repr__\<close>, \<open>json_FanStatus1C\<close> for \<open>__json__\<close>.
  \<^item> \<open>Miot_Transport\<close>: the two methods inherited from \<open>MiotDevice\<close> as the interface
    record \<open>'d transport\<close> with its contract \<open>transport_ok\<close>, and a simulated fan
    \<open>sim_transport\<close> over the world \<open>fan_device\<close> that keeps the contract. The base
    class is not in the repository; this theory follows the specification's
    description of the collaborator.
  \<^item> \<open>Fan_Adapter\<close>: the class \<open>Fan1C\<close>: the constructor \<open>Fan1C_init\<close>, \<open>status\<close> with
    its loop \<open>status_loop\<close>, the setters \<open>on\<close>, \<open>off\<close>, \<open>set_direct_speed\<close>,
    \<open>set_oscillate\<close>, \<open>set_buzzer\<close>, \<open>set_child_lock\<close>, \<open>set_natural_mode\<close>,
    \<open>delay_off\<close>, each taking a \<open>pyval\<close>, since Python does not enforce the
    annotations; the datatype \<open>call\<close> of method calls with arguments of the
    annotated types and the dispatcher \<open>invoke\<close>; the setters by name on any
    value (\<open>apply_setter\<close>); and the operation table of the specification, on
    typed arguments (\<open>spec_write\<close>) and on any value (\<open>raw_write\<close>); and the
    keys the loop of \<open>status\<close> reads in an entry, in evaluation order
    (\<open>keys_read\<close>, \<open>missing_key\<close>).
  \<^item> \<open>Fan_Refinement\<close>: the abstract fan (a finite map from attribute names to
    values, \<open>fan_view\<close> and \<open>spec_step\<close>), sequences of calls \<open>run\<close>, and the
    refinement of the abstract fan by the adapter over the simulated device.
  \<^item> \<open>Fan_Session\<close>: status queries and calls in any order as the inductive
    predicate \<open>reachable\<close>, with the invariants of all reachable device states;
    \<open>device_ok\<close> is the value domain of the validated attributes, \<open>sends_request\<close>
    the operations that reach the device. \<open>reachable_raw\<close> adds setter calls with
    values of any type, and \<open>device_eq_ok\<close> is the domain such a client cannot
    leave.
  \<^item> \<open>Fan_Contract\<close>: the contract of a transport that implements the
    attribute model through an abstraction of its world (\<open>implements\<close>), the
    adapter over every such transport, and the simulated fan as one of them.
  \<^item> \<open>Fan_Snapshot\<close>: the data model of the specification: the record
    \<open>StatusSnapshot\<close> of typed fields, \<open>snapshot\<close> reading it off a \<open>FanStatus1C\<close>
    through the properties of the class, \<open>snap_step\<close>, the effect of each
    operation on it, and \<open>coerced\<close> and \<open>snap_raw\<close>, the same for a caller that
    passes values of any type.
  \<^item> \<open>Fan_Clients\<close>: two adapter objects that share one fan, their operations
    interleaved in any way (\<open>client_step\<close>, \<open>independent\<close>).
  \<^item> \<open>Fan_Types\<close>: the type annotations of the file: the classes \<open>py_type\<close>,
    ordered by the subclass relation \<open>issubclass\<close>, with \<open>isinstance\<close>, the
    annotations of the setters' parameters (\<open>parameter_type\<close>) and of the
    properties (\<open>returns\<close>), typed devices (\<open>device_typed\<close>), well-typed
    operations (\<open>well_typed\<close>) and typed status results (\<open>status_typed\<close>).
  \<^item> \<open>Fan_Template\<close>: format strings as lists of segments, with \<open>format_template\<close>
    for \<open>str.format\<close> on them and attribute access on a status object
    (\<open>format_attr\<close> over \<open>property_table\<close>).
  \<^item> \<open>Fan_Format\<close>: format strings as characters: the reader \<open>parse_format\<close> of
    \<open>str.format\<close> (literal text, \<open>{{\<close> and \<open>}}\<close>, fields \<open>{name}\<close> and
    \<open>{name.attr}\<close>, the \<open>ValueError\<close> of an unbalanced brace), \<open>format_string\<close>,
    and the normal form \<open>canonical\<close> of templates.
  \<^item> \<open>Fan_Cli\<close>: what the decorators attach to the methods: the table \<open>commands\<close>
    of \<open>command\<close> records (declared arguments, announcement, report format
    string), holding the string literals of the source character for character
    (\<open>status_format\<close> is the report of \<open>status\<close>), and \<open>status_report\<close>, the
    status command with its report.
  \<^item> \<open>Fan_Dispatch\<close>: from a command line to the method: \<open>handlers\<close> (which method
    each command decorates), \<open>parameter\<close> (the names in the signatures),
    \<open>dispatch\<close>, and command-line sessions \<open>cli_run\<close> on the simulated fan.
  \<^item> This theory: the command-line surface of the specification
    (\<open>surface_call\<close>, \<open>surface_step\<close>), written from the specification's list
    of commands and not from the decorators, and the properties that need the
    status container, the adapter, the sessions, the command line and the device
    together.

  \<^bold>\<open>How the model corresponds to the code.\<close> A method that can raise returns a sum;
  a method that talks to the device is an action, a function from the world before
  to the result and the world after, and an exception leaves the world as it was
  when it was raised. The adapter is written against the interface record, so its
  lemmas hold for every transport; the refinement is stated once over every
  transport that keeps the contract \<open>implements\<close> and once, with the sessions
  and the scenarios, over the simulated fan. The loop of \<open>status\<close> is a recursive function with one equation
  per iteration that reads \<open>code\<close>, then \<open>value\<close>, then \<open>did\<close>, the order in which
  Python evaluates \<open>data[prop["did"]] = prop["value"] if prop["code"] == 0 else None\<close>.
  The setters take any value: \<open>set_direct_speed\<close> tests membership
  with \<open>==\<close> and \<open>delay_off\<close> compares with \<open><\<close>, which raises \<open>TypeError\<close>
  for \<open>None\<close> and strings. Integers are unbounded, as in Python. The format
  strings of the decorators are kept as the characters of the source and read by
  \<open>parse_format\<close> when they are filled, as \<open>str.format\<close> does. The annotations,
  which have no effect when the program runs, are tables of classes against
  which devices, calls and results are typed. All definitions are executable,
  and the scenarios below are evaluated by the simplifier.

  \<^bold>\<open>What is shown.\<close>

  \<^item> The table is well formed (\<open>mapping_ok_MAPPING\<close>).
  \<^item> Each property of \<open>FanStatus1C\<close> raises exactly for a missing key, and
    \<open>__repr__\<close> raises for the first missing key in its evaluation order.
  \<^item> On a reply that keeps the contract the status loop returns the closed form
    \<open>snapshot_items\<close> (\<open>status_on_contract\<close>); a failed read is stored as
    \<open>None\<close>; on any other reply \<open>status\<close> raises exactly when an entry lacks a
    key the assignment reads, with the \<open>KeyError\<close> of the first such key in
    the order code, value, did (\<open>status_raises_first_missing_key\<close>); transport
    errors pass through the query and through every call unchanged
    (\<open>transport_errors_propagate\<close>).
  \<^item> Every setter is validate-then-forward against \<open>spec_write\<close>; a rejected call
    raises \<open>FanException\<close> and does not touch the world; no call raises
    \<open>KeyError\<close>, since every written name is in the table. On values of other
    types (\<open>validating_setters_any\<close>): \<open>set_direct_speed\<close> also accepts \<open>True\<close>
    and forwards it as it is, \<open>delay_off\<close> raises \<open>TypeError\<close> for \<open>None\<close> and
    strings.
  \<^item> One call of the adapter is one abstract step (\<open>invoke_refines_spec\<close>), a
    session is the fold of its steps, a status query returns the abstract state,
    and a query after a write reads the written value back. A status query
    cannot tell a repeated call from a single one, shows only the later of two
    writes to one attribute, and cannot tell the order of calls on different
    attributes (\<open>run_order_laws\<close>).
  \<^item> Over all sessions (\<open>Fan_Session\<close>): the set of properties of the device, the
    link and the prefix of the request log are invariant (\<open>reachable_frame\<close>, a
    property of the simulated fan); an unreachable fan is
    left untouched; a fan inside \<open>device_ok\<close> stays inside, which is what the
    validation of \<open>set_direct_speed\<close> and \<open>delay_off\<close> is for, and which
    exactly three untyped calls leave, \<open>set_direct_speed(True)\<close> and
    \<open>delay_off\<close> of a boolean (\<open>untyped_calls_leaving_domain\<close>), while the domain taken
    by \<open>==\<close> and \<open><\<close> is kept by every caller (\<open>raw_session_keeps_domain\<close>);
    every reachable state refines a run of the abstract fan (\<open>reachable_view\<close>);
    a session sends one request per query and per accepted call and none per
    rejected call (\<open>session_request_count\<close>); and no session blocks a later write
    (\<open>session_write_possible\<close>).
  \<^item> Over any transport (\<open>Fan_Contract\<close>): if the transport implements the
    attribute model, the adapter refines it (\<open>contract_refines\<close>) and a status
    query after an acknowledged call returns the dictionary of the abstract step
    (\<open>contract_write_read\<close>); the simulated fan implements the model
    (\<open>sim_implements\<close>).
  \<^item> Data model (\<open>Fan_Snapshot\<close>): on a fan with all eight properties the
    snapshot read after any sequence of calls is the fold of the specification's
    steps over the snapshot read before (\<open>run_refines_data_model\<close>); the fan of
    the specification's example reads as the snapshot the specification lists.
    The same holds for every caller (\<open>callers_refine_data_model\<close>): a call
    with a value of any type reads back as the call on the truth value or the
    numeric value of its argument, and a call that raises as no call, so that
    \<open>set_buzzer('off')\<close> reads back as the buzzer switched on.
  \<^item> Two clients (\<open>Fan_Clients\<close>): the adapter keeps no state, so two adapter
    objects that write no attribute in common can be serialized in any order
    (\<open>independent_clients_serialize\<close>).
  \<^item> The numeral printed into the exception messages reads back to the integer
    and has \<open>floorlog 10\<close> digits (lemmas of \<open>Py_Value\<close>).
  \<^item> Types (\<open>Fan_Types\<close>): well-typed operations keep a typed device typed
    (\<open>typed_calls_keep_types\<close>), and on a typed device every property of the
    status returns a value of its annotated class
    (\<open>typed_status_meets_annotations\<close>); \<open>set_oscillate\<close>, \<open>set_buzzer\<close> and
    \<open>set_child_lock\<close> keep the device typed exactly for boolean arguments, the
    other setters for every argument (\<open>forwarding_setters_need_annotation\<close>).
  \<^item> Format strings (\<open>Fan_Format\<close>): lemmas of the reader, used to read the
    string literals of the decorators: reading a printed template gives the
    template back (\<open>parse_show_normal\<close>), \<open>str.format\<close> on the printed form is
    the filling of the template (\<open>format_string_show\<close>), and printing what was
    read gives the string back (\<open>parse_format_reads\<close>).
  \<^item> Command line (\<open>Fan_Cli\<close>, \<open>Fan_Dispatch\<close>): every announcement renders for
    arguments of the declared types; the report format string of \<open>status\<close> names
    the attribute \<open>angle\<close>, which \<open>FanStatus1C\<close> lacks, so the report never
    renders and the status command ends with \<open>AttributeError\<close>
    (\<open>status_report_raises_angle\<close>). The declarations of \<open>click.argument\<close> agree
    with the signatures and annotations of the methods, so a declared command
    line reaches its method with a well-typed call (\<open>declared_lines_dispatch\<close>);
    a declared session is a session of typed calls
    (\<open>declared_session_reachable\<close>); and no command line sets oscillation
    (\<open>cli_session_never_oscillates\<close>).
  \<^item> End to end (this theory): \<open>status\<close> decodes the property tree at the
    addresses of the table; its result never raises in any accessor; natural mode
    survives the round trip through the device; a property the device does not
    report reads as "off"; after any session a status query reports a speed and
    a countdown inside the domain; after any declared command-line session
    on a typed fan the status is typed, in the domain, with the oscillation
    untouched (\<open>declared_session_status\<close>); and the command line implements
    the surface of the specification: the snapshot read after any session of
    declared command lines is the fold of the surface's steps
    (\<open>command_line_implements_surface\<close>).

  \<^bold>\<open>Bounds.\<close> No recursion needs fuel: the only loop of the source runs over the
  finite reply of the transport, \<open>str_nat\<close> terminates by division by ten, and
  \<open>parse_format\<close> by the length of the rest of the string (its termination proof
  is in \<open>Fan_Format\<close>). Sessions are unbounded: \<open>reachable\<close> covers operation sequences of
  every length, and \<open>cli_run\<close> command-line sessions of every length.

  \<^bold>\<open>What is not modelled.\<close>

  \<^item> The network side of \<open>MiotDevice\<close> (handshake, encryption, message ids, retries,
    discovery): it is library code; the constructor's connection parameters are
    carried in the record \<open>Fan1C\<close> and never read by the methods of the file.
  \<^item> Of the command line: the parsing of argument text by \<open>click\<close>, the printing
    itself, the order in which \<open>format_output\<close> announces, calls and reports
    (these are library code that is not in the repository), and the default
    report \<open>{result}\<close> of the setters, which would need the text of a list of
    dictionaries. An option value \<open>None\<close> marks such places; the theorems show
    that no format string of the source reaches one. \<open>dispatch\<close> gives the
    effect of a command line on the device, not its output.
    Of format strings: conversions (\<open>!r\<close>), format specifications (\<open>:\<close>),
    indexing and positional fields, none of which the source uses.
  \<^item> Python values other than \<open>None\<close>, booleans, integers and strings (floats,
    containers as stored values): the fan reports none for the mapped properties.
    So \<open>set_direct_speed(1.0)\<close>, which Python accepts as it accepts \<open>True\<close>, is
    outside the model, and \<open><\<close> is modelled only with an integer on the right.
  \<^item> The import statements (lines 1 to 7 of the file) and the enumeration that
    is commented out (lines 21 to 23): no behaviour of the file is in them.
  \<^item> Attributes that a status object inherits from \<open>object\<close> (all of them have
    names that start with two underscores) and its field \<open>data\<close> as the value of a
    template field.
\<close>

section \<open>The command-line surface of the specification\<close>

text \<open>
  The specification lists the commands with the type of their argument and says
  what each stands for: \<open>on\<close> and \<open>off\<close> for power control, \<open>set_direct_speed\<close>
  and \<open>delay_off\<close> with an integer, \<open>set_buzzer\<close>, \<open>set_child_lock\<close> and
  \<open>set_natural_mode\<close> with a boolean, and \<open>status\<close>, which prints and changes
  nothing. \<open>surface_call\<close> is that list, from the name of a command and the
  values of its arguments to the operation of the device adapter;
  \<open>surface_step\<close> is the step of a command line on the snapshot of the data
  model. Neither refers to the decorators of the source.
\<close>

fun surface_call :: "string \<Rightarrow> pyval list \<Rightarrow> call option" where
  "surface_call n [] =
     (if n = ''on'' then Some On else if n = ''off'' then Some Off else None)"
| "surface_call n [PInt i] =
     (if n = ''set_direct_speed'' then Some (SetDirectSpeed i)
      else if n = ''delay_off'' then Some (DelayOff i) else None)"
| "surface_call n [PBool b] =
     (if n = ''set_buzzer'' then Some (SetBuzzer b)
      else if n = ''set_child_lock'' then Some (SetChildLock b)
      else if n = ''set_natural_mode'' then Some (SetNaturalMode b) else None)"
| "surface_call n vs = None"

fun argument_values :: "kwargs \<Rightarrow> pyval list" where
  "argument_values [] = []"
| "argument_values ((n, Val v) # kw) = v # argument_values kw"
| "argument_values ((n, Status st) # kw) = argument_values kw"

definition surface_step :: "string \<times> kwargs \<Rightarrow> StatusSnapshot \<Rightarrow> StatusSnapshot" where
  "surface_step l s =
     (case surface_call (fst l) (argument_values (snd l)) of
        None \<Rightarrow> s
      | Some c \<Rightarrow> snap_step c s)"

section \<open>What a status query returns, property by property\<close>

text \<open>
  C3. \<open>status\<close> decodes the property tree at the addresses of the mapping
  table. Over a reachable fan, every property of the returned \<open>FanStatus1C\<close>
  returns, and its value is the device's value at the address the table gives for
  the property's key, \<open>None\<close> standing for a property the device does not have:
  power at (2, 1), mode at (2, 7), speed at (2, 2), oscillation at (2, 3), the
  countdown at (2, 10), the LED at (2, 12), the buzzer at (2, 11), the child lock
  at (3, 1).
\<close>

theorem status_decodes_property_tree:
  assumes "online d" and "fst (status sim_transport Fan1C_default d) = Inr st"
  shows "power_state st = Inr (if py_truthy (raw_value (store d (2, 1))) then ''on'' else ''off'') \<and>
     is_on st = Inr (raw_value (store d (2, 1))) \<and>
     mode st = Inr (if py_eq (raw_value (store d (2, 7))) (PInt 1) then Nature else Normal) \<and>
     speed st = Inr (raw_value (store d (2, 2))) \<and>
     oscillate st = Inr (raw_value (store d (2, 3))) \<and>
     delay_off_countdown st = Inr (raw_value (store d (2, 10))) \<and>
     led st = Inr (raw_value (store d (2, 12))) \<and>
     buzzer st = Inr (raw_value (store d (2, 11))) \<and>
     child_lock st = Inr (raw_value (store d (3, 1)))"
proof -
  from assms have "st = \<lparr>data = view_items (mapping_names MAPPING) (fan_view MAPPING d)\<rparr>"
    by (simp add: status_default_sim)
  then show ?thesis
    by (simp add: view_simps)
qed

text \<open>
  The instance below is the example of the specification: the fan reporting power 1,
  mode 1, fan level 2, swing mode 0, countdown 120, light 1, buzzer 0 and child
  lock 1 is on, in nature mode, at speed 2, and so on.
\<close>

theorem status_decodes_property_tree_witness:
  "online spec_fan \<and>
   fst (status sim_transport Fan1C_default spec_fan) =
     Inr \<lparr>data =
        [(PStr ''power'', PInt 1), (PStr ''fan_level'', PInt 2), (PStr ''child_lock'', PInt 1),
         (PStr ''swing_mode'', PInt 0), (PStr ''power_off_time'', PInt 120),
         (PStr ''buzzer'', PInt 0), (PStr ''light'', PInt 1), (PStr ''mode'', PInt 1)]\<rparr> \<and>
   power_state \<lparr>data =
        [(PStr ''power'', PInt 1), (PStr ''fan_level'', PInt 2), (PStr ''child_lock'', PInt 1),
         (PStr ''swing_mode'', PInt 0), (PStr ''power_off_time'', PInt 120),
         (PStr ''buzzer'', PInt 0), (PStr ''light'', PInt 1), (PStr ''mode'', PInt 1)]\<rparr> =
     Inr ''on'' \<and>
   mode \<lparr>data =
        [(PStr ''power'', PInt 1), (PStr ''fan_level'', PInt 2), (PStr ''child_lock'', PInt 1),
         (PStr ''swing_mode'', PInt 0), (PStr ''power_off_time'', PInt 120),
         (PStr ''buzzer'', PInt 0), (PStr ''light'', PInt 1), (PStr ''mode'', PInt 1)]\<rparr> =
     Inr Nature"
  using status_decodes_property_tree [of spec_fan
      "\<lparr>data =
        [(PStr ''power'', PInt 1), (PStr ''fan_level'', PInt 2), (PStr ''child_lock'', PInt 1),
         (PStr ''swing_mode'', PInt 0), (PStr ''power_off_time'', PInt 120),
         (PStr ''buzzer'', PInt 0), (PStr ''light'', PInt 1), (PStr ''mode'', PInt 1)]\<rparr>"]
  by (simp add: status_default_sim view_items_def mapping_names_MAPPING fan_view_MAPPING
      spec_fan_def)

text \<open>
  C15. No accessor of a status result raises. Over every transport that keeps its
  contract and for every way of constructing the adapter, a \<open>FanStatus1C\<close>
  returned by \<open>status\<close> has all eight keys, so \<open>__repr__\<close> and every property
  return: a failed read shows as the value \<open>None\<close>, never as a \<open>KeyError\<close>.
\<close>

theorem status_result_never_raises:
  assumes "transport_ok tr MAPPING" and "status tr (Fan1C_init i t s g l) w = (Inr st, w')"
  shows "is_ok (repr_FanStatus1C st) \<and> is_ok (is_on st)"
  using status_data_keys [of tr "Fan1C_init i t s g l" w st w'] assms
  by (simp add: repr_total_iff accessor_is_ok dict_contains_PStr mapping_names_MAPPING)

theorem status_result_never_raises_witness:
  "transport_ok sim_transport MAPPING \<and>
   status sim_transport (Fan1C_init None None 0 0 True) (spec_fan\<lparr>store := Map.empty\<rparr>) =
     (Inr \<lparr>data =
        [(PStr ''power'', PNone), (PStr ''fan_level'', PNone), (PStr ''child_lock'', PNone),
         (PStr ''swing_mode'', PNone), (PStr ''power_off_time'', PNone),
         (PStr ''buzzer'', PNone), (PStr ''light'', PNone), (PStr ''mode'', PNone)]\<rparr>,
      spec_fan\<lparr>store := Map.empty, sent := [GetProperties (map entry_request MAPPING)]\<rparr>) \<and>
   is_ok (repr_FanStatus1C \<lparr>data =
        [(PStr ''power'', PNone), (PStr ''fan_level'', PNone), (PStr ''child_lock'', PNone),
         (PStr ''swing_mode'', PNone), (PStr ''power_off_time'', PNone),
         (PStr ''buzzer'', PNone), (PStr ''light'', PNone), (PStr ''mode'', PNone)]\<rparr>)"
proof -
  have query: "status sim_transport (Fan1C_init None None 0 0 True)
       (spec_fan\<lparr>store := Map.empty\<rparr>) =
     (Inr \<lparr>data =
        [(PStr ''power'', PNone), (PStr ''fan_level'', PNone), (PStr ''child_lock'', PNone),
         (PStr ''swing_mode'', PNone), (PStr ''power_off_time'', PNone),
         (PStr ''buzzer'', PNone), (PStr ''light'', PNone), (PStr ''mode'', PNone)]\<rparr>,
      spec_fan\<lparr>store := Map.empty, sent := [GetProperties (map entry_request MAPPING)]\<rparr>)"
    by (simp add: status_sim view_items_def mapping_names_MAPPING fan_view_def spec_fan_def)
  from status_result_never_raises [OF sim_transport_ok query] query show ?thesis
    by (simp add: sim_transport_ok)
qed

section \<open>Writes read back\<close>

text \<open>
  Natural mode survives the round trip through the device: on a reachable
  fan that has the mode property, \<open>set_natural_mode\<close> followed by \<open>status\<close>
  reports \<open>Nature\<close> exactly when the argument was true in Python's sense, so
  also for a non-empty string such as "no". The encoding of the setter (1 or 0) is
  the one the accessor decodes.
\<close>

lemma natural_mode_round_trip:
  assumes "online d" and "store d (2, 7) \<noteq> None"
  shows "bind_result
     (fst (status sim_transport Fan1C_default
        (snd (set_natural_mode sim_transport Fan1C_default v d)))) mode =
     Inr (if py_truthy v then Nature else Normal)"
proof -
  have "set_natural_mode sim_transport Fan1C_default v =
      invoke sim_transport Fan1C_default (SetNaturalMode (py_truthy v))"
    by (simp add: set_natural_mode_def)
  with assms status_after_default [of d "SetNaturalMode (py_truthy v)"] show ?thesis
    by (simp add: view_simps spec_step_def)
qed

section \<open>What a failed read looks like\<close>

text \<open>
  C33. A failed read of the power property is reported as "off": when the fan
  does not return the property at (2, 1), \<open>status\<close> succeeds and the \<open>power\<close>
  property of its result is "off", the same answer as for a fan that is switched
  off.
\<close>

theorem failed_read_reported_as_off:
  assumes "online d" and "store d (2, 1) = None"
  shows "bind_result (fst (status sim_transport Fan1C_default d)) power_state = Inr ''off''"
  using assms by (simp add: status_default_sim view_simps)

theorem failed_read_reported_as_off_witness:
  "online (spec_fan\<lparr>store := (store spec_fan)((2, 1) := None)\<rparr>) \<and>
   store (spec_fan\<lparr>store := (store spec_fan)((2, 1) := None)\<rparr>) (2, 1) = None \<and>
   bind_result
     (fst (status sim_transport Fan1C_default
        (spec_fan\<lparr>store := (store spec_fan)((2, 1) := None)\<rparr>))) power_state = Inr ''off''"
  using failed_read_reported_as_off [of "spec_fan\<lparr>store := (store spec_fan)((2, 1) := None)\<rparr>"]
  by (simp add: spec_fan_def)

section \<open>What a client can observe after any session\<close>

text \<open>
  C31. Whatever a client did before, a status query reports a speed level of 1, 2
  or 3 and a countdown that is not negative, provided the fan started in the
  domain of the data model, has both properties and can be reached. The
  validation of the setters and the decoding of the status query fit together.
\<close>

theorem session_status_in_domain:
  assumes "reachable Fan1C_default d0 d" and "device_ok d0" and "online d0"
    and "store d0 (2, 2) \<noteq> None" and "store d0 (2, 10) \<noteq> None"
  shows "(\<exists>i\<in>{1, 2, 3}.
       bind_result (fst (status sim_transport Fan1C_default d)) speed = Inr (PInt i)) \<and>
     (\<exists>n\<ge>0.
       bind_result (fst (status sim_transport Fan1C_default d)) delay_off_countdown =
         Inr (PInt n))"
proof -
  from assms(1,2) have "device_ok d"
    by (rule reachable_device_ok)
  moreover from assms(1) have "dom (store d) = dom (store d0)" and "online d = online d0"
    by (simp_all add: reachable_frame)
  with assms(3-5) have "online d" and "store d (2, 2) \<noteq> None" and "store d (2, 10) \<noteq> None"
    by (auto simp: dom_def set_eq_iff)
  ultimately show ?thesis
    by (auto simp: status_default_sim view_simps device_ok_def level_ok_def countdown_ok_def
        split: option.splits pyval.splits)
qed

theorem session_status_in_domain_witness:
  "reachable Fan1C_default spec_fan
     (run Fan1C_default [SetDirectSpeed 9, SetDirectSpeed 3, DelayOff (- 1)] spec_fan) \<and>
   device_ok spec_fan \<and> online spec_fan \<and>
   store spec_fan (2, 2) \<noteq> None \<and> store spec_fan (2, 10) \<noteq> None \<and>
   (\<exists>i\<in>{1, 2, 3}.
      bind_result (fst (status sim_transport Fan1C_default
        (run Fan1C_default [SetDirectSpeed 9, SetDirectSpeed 3, DelayOff (- 1)] spec_fan)))
        speed = Inr (PInt i))"
proof -
  have r: "reachable Fan1C_default spec_fan
     (run Fan1C_default [SetDirectSpeed 9, SetDirectSpeed 3, DelayOff (- 1)] spec_fan)"
    by (rule reachable_run)
  have ok: "device_ok spec_fan" "online spec_fan"
    "store spec_fan (2, 2) \<noteq> None" "store spec_fan (2, 10) \<noteq> None"
    by (simp_all add: device_ok_def level_ok_def countdown_ok_def spec_fan_def)
  from session_status_in_domain [OF r ok] r ok show ?thesis
    by blast
qed

section \<open>From the command line to the status\<close>

text \<open>
  C19. The command line end to end. From a typed fan in the domain of the data
  model that answers, after any session of declared command lines a status query
  returns, every property of the result has a value of its annotated class, the
  speed is one of the integers 1, 2, 3, and the oscillation is what it was before
  the session. Declarations, dispatch, validation, transport and decoding fit
  together.
\<close>

theorem declared_session_status:
  assumes "list_all declared ls" and "online d" and "device_typed Fan1C_default d"
    and "device_ok d"
  shows "\<exists>st i. fst (status sim_transport Fan1C_default (cli_run Fan1C_default ls d)) = Inr st \<and>
     status_typed st \<and> speed st = Inr (PInt i) \<and> i \<in> {1, 2, 3} \<and>
     oscillate st = Inr (raw_value (store d (2, 3)))"
proof -
  let ?d = "cli_run Fan1C_default ls d"
  from assms(1) have r: "reachable Fan1C_default d ?d"
    by (rule declared_reachable)
  with assms(2) have on: "online ?d"
    by (simp add: reachable_frame)
  from assms(1,3) have ty: "device_typed Fan1C_default ?d"
    by (simp add: device_typed_cli_run)
  with on obtain st where st: "fst (status sim_transport Fan1C_default ?d) = Inr st"
    and typed: "status_typed st"
    using status_typed_sim [of Fan1C_default ?d] by auto
  from on st have data: "st = \<lparr>data = view_items (mapping_names MAPPING) (fan_view MAPPING ?d)\<rparr>"
    by (simp add: status_default_sim)
  have "store ?d (2, 3) = store d (2, 3)"
    using cli_run_view [of Fan1C_default "''swing_mode''" ls d] by (simp add: fan_view_MAPPING)
  with data have osc: "oscillate st = Inr (raw_value (store d (2, 3)))"
    by (simp add: view_simps)
  from device_typed_present [OF ty property_types_simps(3)]
  obtain v where "store ?d (2, 2) = Some v"
    by (auto simp: fan_view_MAPPING)
  moreover from r assms(4) have "device_ok ?d"
    by (rule reachable_device_ok)
  ultimately obtain i where "store ?d (2, 2) = Some (PInt i)" "i \<in> {1, 2, 3}"
    by (auto simp: device_ok_def level_ok_def split: pyval.splits)
  with data have "speed st = Inr (PInt i)"
    by (simp add: view_simps)
  with st typed osc \<open>i \<in> {1, 2, 3}\<close> show ?thesis
    by blast
qed

theorem declared_session_status_witness:
  "list_all declared [(''set_direct_speed'', [(''speed'', Val (PInt 9))]), (''off'', [])] \<and>
   online typed_fan \<and> device_typed Fan1C_default typed_fan \<and> device_ok typed_fan \<and>
   (\<exists>st i. fst (status sim_transport Fan1C_default
        (cli_run Fan1C_default
           [(''set_direct_speed'', [(''speed'', Val (PInt 9))]), (''off'', [])] typed_fan)) =
        Inr st \<and>
      status_typed st \<and> speed st = Inr (PInt i) \<and> i \<in> {1, 2, 3} \<and>
      oscillate st = Inr (raw_value (store typed_fan (2, 3))))"
proof -
  have ls: "list_all declared
      [(''set_direct_speed'', [(''speed'', Val (PInt 9))]), (''off'', [])]"
    by (simp add: declared_def commands_def command_defs kwargs_ok_def)
  have ok: "online typed_fan" "device_ok typed_fan"
    by (simp_all add: typed_fan_def device_ok_def level_ok_def countdown_ok_def)
  from declared_session_status [OF ls ok(1) device_typed_typed_fan ok(2)] ls ok
    device_typed_typed_fan
  show ?thesis by blast
qed

section \<open>From the command line to the data model\<close>

lemma cli_run_fold_raw:
  "cli_run self ls d =
     fold (perform_raw self) (List.map_filter (\<lambda>l. dispatch (fst l) (snd l)) ls) d"
  by (induction ls arbitrary: d)
    (simp_all add: cli_run_def cli_step_def List.map_filter_simps split: option.split)

lemma declared_surface:
  assumes "declared l"
  shows "(case dispatch (fst l) (snd l) of None \<Rightarrow> s | Some op \<Rightarrow> snap_raw op s) =
     surface_step l s"
proof -
  from assms obtain c where "(fst l, c) \<in> set commands" "kwargs_ok (arguments c) (snd l)"
    by (cases l) (auto simp: declared_iff)
  then show ?thesis
    by (auto simp: commands_def command_defs kwargs_ok_def list_all2_Cons1 has_type_iff
        dispatch_simps surface_step_def)
qed

lemma fold_declared_surface:
  "list_all declared ls \<Longrightarrow>
     fold snap_raw (List.map_filter (\<lambda>l. dispatch (fst l) (snd l)) ls) s = fold surface_step ls s"
proof (induction ls arbitrary: s)
  case Nil
  show ?case by (simp add: List.map_filter_simps)
next
  case (Cons l ls)
  from Cons.prems have "declared l" by simp
  from declared_surface [OF this, of s] Cons show ?case
    by (simp add: List.map_filter_simps split: option.splits)
qed

text \<open>
  C20. The command line implements the surface of the specification. On a fan
  that answers and has all eight properties, the snapshot read after any session
  of declared command lines is the fold of the surface's steps over the snapshot
  read before: each command, through its decorator, the method it decorates, the
  table and the device, sets the one field the specification names for it, to
  the argument given, or changes nothing when the argument is rejected.
\<close>

theorem command_line_implements_surface:
  assumes "online d" and "complete Fan1C_default d" and "list_all declared ls"
  shows "read_snapshot Fan1C_default (cli_run Fan1C_default ls d) =
     map_result (fold surface_step ls) (read_snapshot Fan1C_default d)"
  using assms
  by (simp add: cli_run_fold_raw fold_declared_surface read_snapshot_view view_snapshot_fold_raw)

theorem command_line_implements_surface_witness:
  "online spec_fan \<and> complete Fan1C_default spec_fan \<and>
   list_all declared
     [(''set_buzzer'', [(''buzzer'', Val (PBool True))]),
      (''delay_off'', [(''seconds'', Val (PInt 60))]),
      (''set_direct_speed'', [(''speed'', Val (PInt 4))]),
      (''status'', []), (''off'', [])] \<and>
   read_snapshot Fan1C_default
     (cli_run Fan1C_default
        [(''set_buzzer'', [(''buzzer'', Val (PBool True))]),
         (''delay_off'', [(''seconds'', Val (PInt 60))]),
         (''set_direct_speed'', [(''speed'', Val (PInt 4))]),
         (''status'', []), (''off'', [])] spec_fan) =
     Inr \<lparr>power_state_enum = PowerOff, operation_mode = Nature, speed_level = 2,
          oscillation_enabled = False, led_enabled = True, buzzer_enabled = True,
          child_lock_enabled = True, power_off_countdown_seconds = 60\<rparr>"
proof -
  have ok: "online spec_fan" "complete Fan1C_default spec_fan"
    by (simp_all add: complete_default fan_view_MAPPING spec_fan_def)
  have lines: "list_all declared
     [(''set_buzzer'', [(''buzzer'', Val (PBool True))]),
      (''delay_off'', [(''seconds'', Val (PInt 60))]),
      (''set_direct_speed'', [(''speed'', Val (PInt 4))]),
      (''status'', []), (''off'', [])]"
    by (simp add: declared_def commands_def command_defs kwargs_ok_def)
  have start: "read_snapshot Fan1C_default spec_fan =
     Inr \<lparr>power_state_enum = PowerOn, operation_mode = Nature, speed_level = 2,
          oscillation_enabled = False, led_enabled = True, buzzer_enabled = False,
          child_lock_enabled = True, power_off_countdown_seconds = 120\<rparr>"
    using ok(1)
    by (simp add: read_snapshot_view view_snapshot_def fan_view_MAPPING int_value_def
        spec_fan_def)
  from command_line_implements_surface [OF ok lines] ok lines start
  show ?thesis by (simp add: surface_step_def)
qed

end
